theory Spec2Isabelle
  imports Main "HOL-Library.Word"
begin

unbundle bit_operations_syntax

section \<open>Machine types\<close>

text \<open>
  The program is built for 64-bit Windows: \<open>size_t\<close>, pointers and \<open>time_t\<close> are 64 bits
  wide, \<open>wchar_t\<close> is a 16-bit code unit. A \<open>std::string\<close> is a list of bytes, a
  \<open>std::wstring\<close> a list of 16-bit code units.
\<close>

type_synonym u8 = "8 word"
type_synonym u16 = "16 word"
type_synonym u32 = "32 word"
type_synonym u64 = "64 word"
type_synonym bytes = "u8 list"
type_synonym wstring = "u16 list"

definition SIZE_MAX :: u64 where
  "SIZE_MAX = - 1"

text \<open>A narrow string literal as bytes, and a wide string literal as code units.\<close>

definition astr :: "string \<Rightarrow> bytes" where
  "astr s = map (\<lambda>c. of_nat (of_char c)) s"

definition wstr :: "string \<Rightarrow> wstring" where
  "wstr s = map (\<lambda>c. of_nat (of_char c)) s"

section \<open>ModuleCollection\<close>

text \<open>
  \<open>struct Module\<close> with its default member initialisers, and \<open>Module::ContainsAddress\<close>.
  The upper bound \<open>(uint8_t*)Base + Size\<close> is pointer arithmetic on a 64-bit address.
\<close>

record Module =
  Base :: u64
  Size :: u64
  Path :: wstring

definition Module_default :: Module where
  "Module_default = \<lparr>Base = 0, Size = 0, Path = []\<rparr>"

definition ContainsAddress :: "Module \<Rightarrow> u64 \<Rightarrow> bool" where
  "ContainsAddress m addr \<longleftrightarrow> Base m \<le> addr \<and> addr < Base m + Size m"

text \<open>
  \<open>class ModuleCollection\<close>. \<open>m_Modules\<close> is the vector of first-seen paths,
  \<open>m_ModuleIndexMap\<close> maps a path to its position there, \<open>m_ModuleMap\<close> is the
  \<open>std::map\<close> from base address to module, kept here as an association list in
  ascending key order (the order in which the map is iterated), and
  \<open>m_ModuleHandleMap\<close> maps a path to the set of bases it is loaded at.
\<close>

record ModuleCollection =
  m_Modules :: "wstring list"
  m_ModuleHandleMap :: "wstring \<rightharpoonup> u64 set"
  m_ModuleMap :: "(u64 \<times> Module) list"
  m_ModuleIndexMap :: "wstring \<rightharpoonup> nat"

definition ModuleCollection_empty :: ModuleCollection where
  "ModuleCollection_empty =
     \<lparr>m_Modules = [], m_ModuleHandleMap = Map.empty, m_ModuleMap = [],
      m_ModuleIndexMap = Map.empty\<rparr>"

definition Contains :: "ModuleCollection \<Rightarrow> wstring \<Rightarrow> bool" where
  "Contains c path \<longleftrightarrow> m_ModuleIndexMap c path \<noteq> None"

definition Active :: "ModuleCollection \<Rightarrow> u64 \<Rightarrow> bool" where
  "Active c moduleHandle \<longleftrightarrow> map_of (m_ModuleMap c) moduleHandle \<noteq> None"

text \<open>\<open>std::map::try_emplace\<close>: insert in key order unless the key is present.\<close>

fun try_emplace :: "u64 \<Rightarrow> Module \<Rightarrow> (u64 \<times> Module) list \<Rightarrow> (u64 \<times> Module) list" where
  "try_emplace k v [] = [(k, v)]"
| "try_emplace k v ((k', v') # rest) =
     (if k = k' then (k', v') # rest
      else if k < k' then (k, v) # (k', v') # rest
      else (k', v') # try_emplace k v rest)"

text \<open>\<open>ModuleCollection::Load(path, moduleHandle, size)\<close>, the overload with a known size.\<close>

definition Load :: "wstring \<Rightarrow> u64 \<Rightarrow> u64 \<Rightarrow> ModuleCollection \<Rightarrow> ModuleCollection" where
  "Load path moduleHandle sz c =
     (let c1 = (if \<not> Contains c path
                then c\<lparr>m_Modules := m_Modules c @ [path],
                       m_ModuleIndexMap := (m_ModuleIndexMap c)(path \<mapsto> length (m_Modules c))\<rparr>
                else c)
      in c1\<lparr>m_ModuleMap :=
               try_emplace moduleHandle \<lparr>Base = moduleHandle, Size = sz, Path = path\<rparr>
                 (m_ModuleMap c1),
             m_ModuleHandleMap :=
               (m_ModuleHandleMap c1)(path \<mapsto>
                  insert moduleHandle
                    (case m_ModuleHandleMap c1 path of None \<Rightarrow> {} | Some s \<Rightarrow> s))\<rparr>)"

text \<open>\<open>ModuleCollection::Unload\<close>: nothing happens for a base that is not active.\<close>

definition Unload :: "u64 \<Rightarrow> ModuleCollection \<Rightarrow> ModuleCollection" where
  "Unload moduleHandle c =
     (case map_of (m_ModuleMap c) moduleHandle of
        None \<Rightarrow> c
      | Some m \<Rightarrow>
          c\<lparr>m_ModuleHandleMap :=
               (m_ModuleHandleMap c)(Path m \<mapsto>
                  (case m_ModuleHandleMap c (Path m) of None \<Rightarrow> {} | Some s \<Rightarrow> s)
                    - {moduleHandle}),
            m_ModuleMap := filter (\<lambda>e. fst e \<noteq> moduleHandle) (m_ModuleMap c)\<rparr>)"

text \<open>\<open>ModuleCollection::Get(ModulePointer)\<close>: the path, or the empty string.\<close>

definition Get :: "ModuleCollection \<Rightarrow> u64 \<Rightarrow> wstring" where
  "Get c moduleHandle =
     (case map_of (m_ModuleMap c) moduleHandle of None \<Rightarrow> [] | Some m \<Rightarrow> Path m)"

text \<open>
  \<open>ModuleCollection::GetIndex(path)\<close> returns \<open>int\<close>: the position of the path among the
  first-seen paths, cast from \<open>size_t\<close> to the 32-bit \<open>int\<close>, or -1.
\<close>

definition GetIndex :: "ModuleCollection \<Rightarrow> wstring \<Rightarrow> int" where
  "GetIndex c path =
     (case m_ModuleIndexMap c path of None \<Rightarrow> - 1 | Some i \<Rightarrow> sint (word_of_nat i :: u32))"

text \<open>\<open>ModuleCollection::GetModuleAtAddress\<close>: the first module, in map order, that
  contains the address; \<open>None\<close> stands for \<open>nullptr\<close>.\<close>

definition GetModuleAtAddress :: "ModuleCollection \<Rightarrow> u64 \<Rightarrow> Module option" where
  "GetModuleAtAddress c address =
     (case filter (\<lambda>e. ContainsAddress (snd e) address) (m_ModuleMap c) of
        [] \<Rightarrow> None
      | e # _ \<Rightarrow> Some (snd e))"

section \<open>DebugStackTrace\<close>

text \<open>\<open>struct DebugStackTraceInstruction\<close> and \<open>struct DebugStackTraceEntry\<close>.\<close>

record DebugStackTraceInstruction =
  Is64BitAddress :: bool
  Offset :: u64
  InstrSize :: u64
  InstructionHex :: bytes
  InstructionMnemonic :: bytes
  Operands :: bytes

record DebugStackTraceEntry =
  EntryModule :: Module
  ModuleBase :: u64
  Address :: u64
  AbsoluteAddress :: u64
  AbsoluteLineAddress :: u64
  LineAddress :: u64
  Name :: bytes
  File :: wstring
  Line :: u32
  Recursion :: bool
  RecursionCount :: u64
  Instructions :: "DebugStackTraceInstruction list"

definition DebugStackTraceEntry_default :: DebugStackTraceEntry where
  "DebugStackTraceEntry_default =
     \<lparr>EntryModule = Module_default, ModuleBase = 0, Address = 0, AbsoluteAddress = 0,
      AbsoluteLineAddress = 0, LineAddress = 0, Name = [], File = [], Line = 0,
      Recursion = False, RecursionCount = 0, Instructions = []\<rparr>"

text \<open>
  The frame the platform walker fills in (\<open>STACKFRAME64\<close>), the symbol record and the
  line record of DbgHelp, reduced to the members the program reads.
\<close>

record STACKFRAME64 =
  AddrPC :: u64
  AddrReturn :: u64
  AddrFrame :: u64
  AddrStack :: u64

record SYMBOL_INFO =
  SymModBase :: u64
  SymAddress :: u64
  SymSize :: u32
  SymName :: bytes

record IMAGEHLP_LINEW64 =
  LineFileName :: wstring
  LineNumber :: u32
  LineAddr :: u64

text \<open>
  The services of the platform that \<open>AddFrame\<close> and \<open>DisassembleFrame\<close> call, as
  parameters: \<open>SymFromAddr\<close> (displacement and symbol, or failure),
  \<open>SymGetLineFromAddrW64\<close> (displacement and line, or failure), \<open>ReadProcessMemory\<close>
  (success flag and the bytes read) and \<open>distorm_decode\<close> (offset, size, hex, mnemonic
  and operands of each decoded instruction).
\<close>

record platform =
  SymFromAddr :: "u64 \<Rightarrow> (u64 \<times> SYMBOL_INFO) option"
  SymGetLineFromAddrW64 :: "u64 \<Rightarrow> (u32 \<times> IMAGEHLP_LINEW64) option"
  ReadProcessMemory :: "u64 \<Rightarrow> nat \<Rightarrow> bool \<times> bytes"
  distorm_decode :: "u64 \<Rightarrow> bytes \<Rightarrow> bool \<Rightarrow> nat \<Rightarrow> (u64 \<times> u64 \<times> bytes \<times> bytes \<times> bytes) list"

text \<open>\<open>class DebugStackTrace\<close>; of the context only \<open>Is64()\<close> is read here.\<close>

record DebugStackTrace =
  m_ContextIs64 :: bool
  m_TraceModules :: ModuleCollection
  m_Trace :: "DebugStackTraceEntry list"
  m_MaxRecursion :: u64
  m_MaxInstruction :: u64

definition SYMBOL_INFO_zero :: SYMBOL_INFO where
  "SYMBOL_INFO_zero = \<lparr>SymModBase = 0, SymAddress = 0, SymSize = 0, SymName = []\<rparr>"

text \<open>\<open>DebugStackTrace::DisassembleFrame\<close>, returning the entry with its instructions.\<close>

definition DisassembleFrame ::
  "platform \<Rightarrow> DebugStackTrace \<Rightarrow> STACKFRAME64 \<Rightarrow> SYMBOL_INFO \<Rightarrow> DebugStackTraceEntry
     \<Rightarrow> DebugStackTraceEntry" where
  "DisassembleFrame pf t frame symbol entry =
     (let maxInstructions = unat (m_MaxInstruction t);
          symbolSize = (if SymSize symbol \<noteq> 0 then unat (SymSize symbol) else 30);
          (ok, code) = ReadProcessMemory pf (AddrPC frame) symbolSize
      in if \<not> ok \<and> code = [] then entry
         else entry\<lparr>Instructions := Instructions entry @
                map (\<lambda>(off, sz, hex, mnem, ops).
                       \<lparr>Is64BitAddress = m_ContextIs64 t, Offset = off, InstrSize = sz,
                        InstructionHex = hex, InstructionMnemonic = mnem, Operands = ops\<rparr>)
                    (distorm_decode pf (AddrPC frame) code (m_ContextIs64 t) maxInstructions)\<rparr>)"

text \<open>
  The entry \<open>DebugStackTrace::AddFrame\<close> builds for a frame: symbol and owning module,
  instructions when \<open>m_MaxInstruction\<close> is not 0, then the source line.
\<close>

definition FrameEntry :: "platform \<Rightarrow> DebugStackTrace \<Rightarrow> STACKFRAME64 \<Rightarrow> DebugStackTraceEntry" where
  "FrameEntry pf t frame =
     (let address = AddrPC frame;
          entry0 = DebugStackTraceEntry_default\<lparr>Address := address\<rparr>;
          (entry1, symbol) =
            (case SymFromAddr pf address of
               None \<Rightarrow> (entry0, SYMBOL_INFO_zero)
             | Some (dwSymbolDisplacement, symb) \<Rightarrow>
                 (let e = (case GetModuleAtAddress (m_TraceModules t) (SymAddress symb) of
                             Some m \<Rightarrow>
                               entry0\<lparr>EntryModule := m,
                                      ModuleBase := (if SymModBase symb = 0 then Base m
                                                     else SymModBase symb)\<rparr>
                           | None \<Rightarrow> entry0\<lparr>ModuleBase := SymModBase symb\<rparr>)
                  in (e\<lparr>AbsoluteAddress := address + dwSymbolDisplacement,
                        Name := SymName symb\<rparr>, symb)));
          entry2 = (if m_MaxInstruction t \<noteq> 0 then DisassembleFrame pf t frame symbol entry1
                    else entry1)
      in case SymGetLineFromAddrW64 pf (AddrPC frame) of
           None \<Rightarrow> entry2
         | Some (dwLineDisplacement, line) \<Rightarrow>
             entry2\<lparr>AbsoluteLineAddress := AddrPC frame + ucast dwLineDisplacement,
                    LineAddress := LineAddr line,
                    File := LineFileName line,
                    Line := LineNumber line\<rparr>)"

definition AddFrame :: "platform \<Rightarrow> STACKFRAME64 \<Rightarrow> DebugStackTrace \<Rightarrow> DebugStackTrace" where
  "AddFrame pf frame t = t\<lparr>m_Trace := m_Trace t @ [FrameEntry pf t frame]\<rparr>"

text \<open>
  \<open>DebugStackTrace::AddRecursion\<close>: a marker entry carrying the size of the backlog, then
  \<open>AddFrame(backlog.back())\<close>. It is only called with a non-empty backlog.
\<close>

definition RecursionEntry :: "nat \<Rightarrow> DebugStackTraceEntry" where
  "RecursionEntry n =
     DebugStackTraceEntry_default\<lparr>Recursion := True, RecursionCount := of_nat n\<rparr>"

definition AddRecursion :: "platform \<Rightarrow> STACKFRAME64 list \<Rightarrow> DebugStackTrace \<Rightarrow> DebugStackTrace" where
  "AddRecursion pf backlog t =
     AddFrame pf (last backlog) (t\<lparr>m_Trace := m_Trace t @ [RecursionEntry (length backlog)]\<rparr>)"

text \<open>
  The loop of \<open>DebugStackTrace::Walk\<close>. The first list holds the frames \<open>StackWalk64\<close>
  yields, in order, before it reports that no further frame is available; the second is
  \<open>recursion_backlog\<close>. When the walker has no more frames the loop is left and \<open>Walk\<close>
  returns.
\<close>

fun Walk_loop ::
  "platform \<Rightarrow> STACKFRAME64 list \<Rightarrow> STACKFRAME64 list \<Rightarrow> DebugStackTrace \<Rightarrow> DebugStackTrace" where
  "Walk_loop pf [] recursion_backlog t = t"
| "Walk_loop pf (frame # walker) recursion_backlog t =
     (if m_MaxRecursion t \<noteq> SIZE_MAX \<and> AddrPC frame = AddrReturn frame then
        Walk_loop pf walker (recursion_backlog @ [frame]) t
      else if m_MaxRecursion t \<noteq> SIZE_MAX \<and> recursion_backlog \<noteq> [] then
        Walk_loop pf walker []
          (if unat (m_MaxRecursion t) \<le> length recursion_backlog
           then AddRecursion pf recursion_backlog t
           else fold (AddFrame pf) recursion_backlog t)
      else Walk_loop pf walker recursion_backlog (AddFrame pf frame t))"

definition Walk :: "platform \<Rightarrow> STACKFRAME64 list \<Rightarrow> DebugStackTrace \<Rightarrow> DebugStackTrace" where
  "Walk pf walker t = Walk_loop pf walker [] t"

text \<open>The constructor used while debugging: initialise the members, then walk.\<close>

definition DebugStackTrace_new ::
  "platform \<Rightarrow> STACKFRAME64 list \<Rightarrow> bool \<Rightarrow> ModuleCollection \<Rightarrow> u64 \<Rightarrow> u64 \<Rightarrow> DebugStackTrace" where
  "DebugStackTrace_new pf walker is64 collection max_recursion max_instruction =
     Walk pf walker
       \<lparr>m_ContextIs64 = is64, m_TraceModules = collection, m_Trace = [],
        m_MaxRecursion = max_recursion, m_MaxInstruction = max_instruction\<rparr>"

text \<open>
  \<open>LaunchCommand\<close> (and the post-mortem command) before any trace is built:
  \<open>if (state.MaxRecursion == 0) state.MaxRecursion = SIZE_MAX\<close>.
\<close>

definition LaunchCommand_MaxRecursion :: "u64 \<Rightarrow> u64" where
  "LaunchCommand_MaxRecursion MaxRecursion = (if MaxRecursion = 0 then SIZE_MAX else MaxRecursion)"

text \<open>
  The recursion rule as the specification words it, for comparison with \<open>Walk_loop\<close>:
  a frame whose program counter equals its return address goes to the backlog; when the
  next non-recursive frame arrives the backlog is emitted (one marker and the last
  backlogged frame when it holds at least \<open>max_recursion\<close> frames, every frame
  otherwise) and cleared, then the current frame is processed; a backlog left over when
  the walker stops is emitted after the loop under the same rule.
\<close>

definition spec_emit_backlog :: "platform \<Rightarrow> STACKFRAME64 list \<Rightarrow> DebugStackTrace \<Rightarrow> DebugStackTrace" where
  "spec_emit_backlog pf backlog t =
     (if backlog = [] then t
      else if unat (m_MaxRecursion t) \<le> length backlog then AddRecursion pf backlog t
      else fold (AddFrame pf) backlog t)"

fun spec_Walk_loop ::
  "platform \<Rightarrow> STACKFRAME64 list \<Rightarrow> STACKFRAME64 list \<Rightarrow> DebugStackTrace \<Rightarrow> DebugStackTrace" where
  "spec_Walk_loop pf [] backlog t = spec_emit_backlog pf backlog t"
| "spec_Walk_loop pf (frame # walker) backlog t =
     (if m_MaxRecursion t \<noteq> SIZE_MAX \<and> AddrPC frame = AddrReturn frame then
        spec_Walk_loop pf walker (backlog @ [frame]) t
      else spec_Walk_loop pf walker [] (AddFrame pf frame (spec_emit_backlog pf backlog t)))"

text \<open>Concrete inputs: a platform whose symbol services find nothing, a frame that
  returns to its own program counter and a frame that does not.\<close>

definition no_symbols :: platform where
  "no_symbols =
     \<lparr>SymFromAddr = (\<lambda>_. None), SymGetLineFromAddrW64 = (\<lambda>_. None),
      ReadProcessMemory = (\<lambda>_ _. (False, [])), distorm_decode = (\<lambda>_ _ _ _. [])\<rparr>"

definition recursive_frame :: STACKFRAME64 where
  "recursive_frame = \<lparr>AddrPC = 0x1000, AddrReturn = 0x1000, AddrFrame = 0, AddrStack = 0\<rparr>"

definition distinct_frame :: STACKFRAME64 where
  "distinct_frame = \<lparr>AddrPC = 0x2000, AddrReturn = 0x3000, AddrFrame = 0, AddrStack = 0\<rparr>"

section \<open>Properties of the stack walk\<close>

lemma FrameEntry_m_Trace [simp]:
  "FrameEntry pf (t\<lparr>m_Trace := x\<rparr>) frame = FrameEntry pf t frame"
proof -
  have "DisassembleFrame pf (t\<lparr>m_Trace := x\<rparr>) = DisassembleFrame pf t"
    by (intro ext) (simp add: DisassembleFrame_def Let_def split: prod.split)
  then show ?thesis
    by (simp add: FrameEntry_def Let_def split: option.split prod.split)
qed

lemma FrameEntry_literal [simp]:
  "x \<noteq> [] \<Longrightarrow> FrameEntry pf \<lparr>m_ContextIs64 = a, m_TraceModules = b, m_Trace = x, m_MaxRecursion = c,
      m_MaxInstruction = d\<rparr> frame =
   FrameEntry pf \<lparr>m_ContextIs64 = a, m_TraceModules = b, m_Trace = [], m_MaxRecursion = c,
      m_MaxInstruction = d\<rparr> frame"
  using FrameEntry_m_Trace [where pf = pf and x = x and frame = frame
      and t = "\<lparr>m_ContextIs64 = a, m_TraceModules = b, m_Trace = [],
        m_MaxRecursion = c, m_MaxInstruction = d\<rparr>"]
  by simp

lemma AddFrame_fields [simp]:
  "m_MaxRecursion (AddFrame pf f t) = m_MaxRecursion t"
  "m_Trace (AddFrame pf f t) = m_Trace t @ [FrameEntry pf t f]"
  "FrameEntry pf (AddFrame pf f t) g = FrameEntry pf t g"
  by (simp_all add: AddFrame_def)

lemma FrameEntry_not_Recursion [simp]: "\<not> Recursion (FrameEntry pf t f)"
  by (simp add: FrameEntry_def DisassembleFrame_def DebugStackTraceEntry_default_def Let_def
      split: option.split prod.split)

lemma FrameEntry_Address [simp]: "Address (FrameEntry pf t f) = AddrPC f"
  by (simp add: FrameEntry_def DisassembleFrame_def DebugStackTraceEntry_default_def Let_def
      split: option.split prod.split)

lemma fold_AddFrame:
  "fold (AddFrame pf) fs t = t\<lparr>m_Trace := m_Trace t @ map (FrameEntry pf t) fs\<rparr>"
proof (induction fs arbitrary: t)
  case Nil
  show ?case by simp
next
  case (Cons f fs)
  show ?case by (simp add: Cons.IH) (simp add: AddFrame_def)
qed

lemma Walk_loop_recursive_only:
  "m_MaxRecursion t \<noteq> SIZE_MAX \<Longrightarrow> list_all (\<lambda>f. AddrPC f = AddrReturn f) rs
     \<Longrightarrow> Walk_loop pf rs backlog t = t"
  by (induction rs arbitrary: backlog) simp_all

lemma Walk_loop_unlimited:
  "m_MaxRecursion t = SIZE_MAX \<Longrightarrow>
     Walk_loop pf walker backlog t = t\<lparr>m_Trace := m_Trace t @ map (FrameEntry pf t) walker\<rparr>"
proof (induction walker arbitrary: t backlog)
  case Nil
  show ?case by simp
next
  case (Cons f fs)
  show ?case using Cons.prems by (simp add: Cons.IH) (simp add: AddFrame_def)
qed

lemma Walk_loop_run:
  "m_MaxRecursion t \<noteq> SIZE_MAX \<Longrightarrow> list_all (\<lambda>f. AddrPC f = AddrReturn f) rs
     \<Longrightarrow> AddrPC d \<noteq> AddrReturn d \<Longrightarrow>
   Walk_loop pf (rs @ d # rest) backlog t =
     (if backlog @ rs = [] then Walk_loop pf rest [] (AddFrame pf d t)
      else Walk_loop pf rest []
            (if unat (m_MaxRecursion t) \<le> length (backlog @ rs)
             then AddRecursion pf (backlog @ rs) t
             else fold (AddFrame pf) (backlog @ rs) t))"
  by (induction rs arbitrary: backlog) simp_all

lemma Walk_loop_append_recursive:
  "m_MaxRecursion t \<noteq> SIZE_MAX \<Longrightarrow> list_all (\<lambda>f. AddrPC f = AddrReturn f) rs
     \<Longrightarrow> Walk_loop pf (ws @ rs) backlog t = Walk_loop pf ws backlog t"
proof (induction ws arbitrary: backlog t)
  case Nil
  then show ?case by (simp add: Walk_loop_recursive_only)
next
  case (Cons f fs)
  have *: "m_MaxRecursion (AddRecursion pf backlog t) \<noteq> SIZE_MAX"
    "m_MaxRecursion (fold (AddFrame pf) backlog t) \<noteq> SIZE_MAX"
    using Cons.prems by (simp_all add: AddRecursion_def fold_AddFrame)
  show ?case using Cons.prems * by (simp add: Cons.IH)
qed

text \<open>
  Claim C2, evaluated at a failing input. The walker yields one frame that returns to its
  own program counter (0x1000) and then a distinct frame (0x2000); the trace is built with
  \<open>max_recursion = 5\<close>. The claim (and the rule as the specification words it) has both
  frames in the trace. \<open>Walk\<close> emits the backlogged frame and then leaves the iteration
  with \<open>continue\<close>, so the distinct frame never reaches \<open>AddFrame\<close>: the trace holds the
  frame at 0x1000 only.
\<close>

theorem Walk_loses_frame_after_backlog:
  "map Address (m_Trace (DebugStackTrace_new no_symbols [recursive_frame, distinct_frame]
       True ModuleCollection_empty 5 0)) = [0x1000]
   \<and> map Address (m_Trace (spec_Walk_loop no_symbols [recursive_frame, distinct_frame] []
       \<lparr>m_ContextIs64 = True, m_TraceModules = ModuleCollection_empty, m_Trace = [],
        m_MaxRecursion = 5, m_MaxInstruction = 0\<rparr>)) = [0x1000, 0x2000]"
  by (simp add: DebugStackTrace_new_def Walk_def recursive_frame_def distinct_frame_def
      SIZE_MAX_def fold_AddFrame spec_emit_backlog_def)

text \<open>
  What \<open>Walk\<close> does on a run of recursive frames followed by a distinct frame, in general:
  for a non-empty run \<open>rs\<close> and a finite \<open>max_recursion\<close> the trace is the marker with
  the length of the run and the last frame of the run when the run holds at least
  \<open>max_recursion\<close> frames, and the frames of the run otherwise. The distinct frame is in
  neither.
\<close>

theorem Walk_recursion_run:
  assumes "max_recursion \<noteq> SIZE_MAX" and "rs \<noteq> []"
    and "list_all (\<lambda>f. AddrPC f = AddrReturn f) rs" and "AddrPC d \<noteq> AddrReturn d"
  shows "m_Trace (DebugStackTrace_new pf (rs @ [d]) is64 collection max_recursion max_instruction) =
     (let t0 = \<lparr>m_ContextIs64 = is64, m_TraceModules = collection, m_Trace = [],
                m_MaxRecursion = max_recursion, m_MaxInstruction = max_instruction\<rparr>
      in if unat max_recursion \<le> length rs
         then [RecursionEntry (length rs), FrameEntry pf t0 (last rs)]
         else map (FrameEntry pf t0) rs)"
  using assms
  by (simp add: DebugStackTrace_new_def Walk_def Walk_loop_run AddRecursion_def fold_AddFrame)

theorem Walk_recursion_run_witness:
  "(5 :: u64) \<noteq> SIZE_MAX \<and> [recursive_frame] \<noteq> []
   \<and> list_all (\<lambda>f. AddrPC f = AddrReturn f) [recursive_frame]
   \<and> AddrPC distinct_frame \<noteq> AddrReturn distinct_frame
   \<and> length (m_Trace (DebugStackTrace_new no_symbols ([recursive_frame] @ [distinct_frame])
        True ModuleCollection_empty 5 0)) = 1"
proof -
  have h: "(5 :: u64) \<noteq> SIZE_MAX" "[recursive_frame] \<noteq> []"
    "list_all (\<lambda>f. AddrPC f = AddrReturn f) [recursive_frame]"
    "AddrPC distinct_frame \<noteq> AddrReturn distinct_frame"
    by (simp_all add: SIZE_MAX_def recursive_frame_def distinct_frame_def)
  show ?thesis
    using h Walk_recursion_run [OF h, of no_symbols True ModuleCollection_empty 0]
    by simp
qed

text \<open>
  Claim C5 at a failing input. The walker yields a single frame that returns to its own
  program counter (0x1000) and then stops; the trace is built with \<open>max_recursion = 5\<close>.
  The claim (and the rule as the specification words it) emits the backlogged frame after
  the loop. \<open>Walk\<close> has nothing behind its loop: the frame stays in the backlog and the
  trace is empty. The same frame is shown when a distinct frame follows it in the walk,
  and when \<open>max_recursion\<close> is \<open>SIZE_MAX\<close>.
\<close>

theorem Walk_drops_leftover_backlog:
  "m_Trace (DebugStackTrace_new no_symbols [recursive_frame] True ModuleCollection_empty 5 0) = []
   \<and> m_Trace (DebugStackTrace_new no_symbols [recursive_frame] True ModuleCollection_empty 5 0) \<noteq>
      m_Trace (spec_emit_backlog no_symbols [recursive_frame]
        \<lparr>m_ContextIs64 = True, m_TraceModules = ModuleCollection_empty, m_Trace = [],
         m_MaxRecursion = 5, m_MaxInstruction = 0\<rparr>)
   \<and> map Address (m_Trace (spec_Walk_loop no_symbols [recursive_frame] []
        \<lparr>m_ContextIs64 = True, m_TraceModules = ModuleCollection_empty, m_Trace = [],
         m_MaxRecursion = 5, m_MaxInstruction = 0\<rparr>)) = [0x1000]
   \<and> map Address (m_Trace (DebugStackTrace_new no_symbols [recursive_frame, distinct_frame]
        True ModuleCollection_empty 5 0)) = [0x1000]
   \<and> map Address (m_Trace (DebugStackTrace_new no_symbols [recursive_frame] True
        ModuleCollection_empty SIZE_MAX 0)) = [0x1000]"
  by (simp add: DebugStackTrace_new_def Walk_def recursive_frame_def distinct_frame_def
      SIZE_MAX_def fold_AddFrame spec_emit_backlog_def)

text \<open>
  The same for every walk: with a finite \<open>max_recursion\<close>, frames that return to their own
  program counter at the end of the walk never leave the backlog, and the trace object is
  what it would be without them.
\<close>

theorem Walk_discards_leftover_backlog:
  assumes "max_recursion \<noteq> SIZE_MAX" and "list_all (\<lambda>f. AddrPC f = AddrReturn f) rs"
  shows "DebugStackTrace_new pf (ws @ rs) is64 collection max_recursion max_instruction =
         DebugStackTrace_new pf ws is64 collection max_recursion max_instruction"
  using assms by (simp add: DebugStackTrace_new_def Walk_def Walk_loop_append_recursive)

theorem Walk_discards_leftover_backlog_witness:
  "(5 :: u64) \<noteq> SIZE_MAX \<and> list_all (\<lambda>f. AddrPC f = AddrReturn f) [recursive_frame]
   \<and> DebugStackTrace_new no_symbols ([distinct_frame] @ [recursive_frame]) True
        ModuleCollection_empty 5 0 =
      DebugStackTrace_new no_symbols [distinct_frame] True ModuleCollection_empty 5 0"
proof -
  have h: "(5 :: u64) \<noteq> SIZE_MAX" "list_all (\<lambda>f. AddrPC f = AddrReturn f) [recursive_frame]"
    by (simp_all add: SIZE_MAX_def recursive_frame_def)
  show ?thesis
    using h Walk_discards_leftover_backlog [OF h, of no_symbols "[distinct_frame]" True
        ModuleCollection_empty 0]
    by simp
qed

text \<open>
  Claim C6: a trace built with \<open>max_recursion = 0\<close> never collapses. The commands turn 0
  into \<open>SIZE_MAX\<close> before the trace is built, and with \<open>SIZE_MAX\<close> the walk skips the
  recursion test: whatever frames the walker yields, each becomes a normal entry, in order,
  and no entry of the trace is a recursion marker.
\<close>

theorem max_recursion_zero_never_collapses:
  "m_Trace (DebugStackTrace_new pf walker is64 collection (LaunchCommand_MaxRecursion 0)
       max_instruction)
     = map (FrameEntry pf
              \<lparr>m_ContextIs64 = is64, m_TraceModules = collection, m_Trace = [],
               m_MaxRecursion = SIZE_MAX, m_MaxInstruction = max_instruction\<rparr>) walker
   \<and> filter Recursion
       (m_Trace (DebugStackTrace_new pf walker is64 collection (LaunchCommand_MaxRecursion 0)
          max_instruction)) = []"
  by (simp add: DebugStackTrace_new_def Walk_def LaunchCommand_MaxRecursion_def
      Walk_loop_unlimited filter_empty_conv)

theorem max_recursion_zero_never_collapses_witness:
  "length (m_Trace (DebugStackTrace_new no_symbols
       [recursive_frame, recursive_frame, distinct_frame] True ModuleCollection_empty
       (LaunchCommand_MaxRecursion 0) 0)) = 3
   \<and> filter Recursion (m_Trace (DebugStackTrace_new no_symbols
       [recursive_frame, recursive_frame, distinct_frame] True ModuleCollection_empty
       (LaunchCommand_MaxRecursion 0) 0)) = []"
  using max_recursion_zero_never_collapses [of no_symbols
      "[recursive_frame, recursive_frame, distinct_frame]" True ModuleCollection_empty 0]
  by simp

section \<open>CRC-32\<close>

text \<open>
  \<open>struct LookupTable\<close>: the constructor fills entry \<open>i\<close> with \<open>i\<close> after eight rounds of
  "shift right, and exclusive-or the polynomial in when the bit shifted out was set".
  \<open>Crc32::Update\<close> starts from \<open>initial ^ 0xFFFFFFFF\<close>, folds the bytes of the buffer
  through the table and returns the state exclusive-or \<open>0xFFFFFFFF\<close>.
\<close>

definition LookupTable_step :: "u32 \<Rightarrow> u32 \<Rightarrow> u32" where
  "LookupTable_step polynomial c =
     (if c AND 1 \<noteq> 0 then polynomial XOR drop_bit 1 c else drop_bit 1 c)"

definition LookupTable :: "u32 \<Rightarrow> u32 list" where
  "LookupTable polynomial =
     map (\<lambda>i. (LookupTable_step polynomial ^^ 8) (of_nat i)) [0..<256]"

definition Default :: "u32 list" where
  "Default = LookupTable 0xEDB88320"

definition Crc32_Update_table :: "bytes \<Rightarrow> u32 list \<Rightarrow> u32 \<Rightarrow> u32" where
  "Crc32_Update_table buf table initial =
     fold (\<lambda>u c. table ! unat ((c XOR ucast u) AND 0xFF) XOR drop_bit 8 c) buf
       (initial XOR 0xFFFFFFFF) XOR 0xFFFFFFFF"

definition Crc32_Update :: "bytes \<Rightarrow> u32 \<Rightarrow> u32" where
  "Crc32_Update buf initial = Crc32_Update_table buf Default initial"

subsection \<open>One changed byte changes the checksum\<close>

text \<open>
  A round of the table construction is linear over exclusive-or and, the polynomial
  having its top bit set, injective. The table-driven step of \<open>Update\<close> is eight rounds
  applied to \<open>c XOR u\<close>, hence injective in the state and in the byte.
\<close>

lemma bit0_conv: "(c AND 1 \<noteq> 0) = bit (c::u32) 0"
  by (simp add: and_one_eq bit_0 mod_2_eq_odd)

lemma xor_eq_0D: "(a::u32) XOR b = 0 \<Longrightarrow> a = b"
proof -
  assume h: "a XOR b = 0"
  have "a = (a XOR b) XOR b" by (simp add: xor.assoc)
  also have "\<dots> = b" by (simp add: h)
  finally show ?thesis .
qed

lemma step_linear: "LookupTable_step p (a XOR b) = LookupTable_step p a XOR LookupTable_step p b"
proof -
  have d: "drop_bit 1 (a XOR b) = drop_bit 1 a XOR drop_bit 1 b" by (simp add: drop_bit_xor)
  have b: "bit (a XOR b) 0 = (bit a 0 \<noteq> bit b 0)" by (simp add: bit_xor_iff)
  show ?thesis
    unfolding LookupTable_step_def bit0_conv d b
    by (cases "bit a 0"; cases "bit b 0") (simp_all add: xor.assoc xor.left_commute)
qed

lemma step_zero [simp]: "LookupTable_step p 0 = 0"
  by (simp add: LookupTable_step_def)

lemma drop_bit_1_not_bit_31: "\<not> bit (drop_bit 1 (x::u32)) 31"
proof
  assume "bit (drop_bit 1 x) 31"
  then have "bit x 32" by (simp add: bit_drop_bit_eq)
  then have "32 < LENGTH(32)" by (rule bit_imp_le_length)
  then show False by simp
qed

lemma step_kernel:
  assumes "bit p 31" "LookupTable_step p x = 0" shows "x = 0"
proof (cases "bit x 0")
  case True
  then have "p XOR drop_bit 1 x = 0" using assms(2) by (simp add: LookupTable_step_def bit0_conv)
  then have "p = drop_bit 1 x" by (rule xor_eq_0D)
  then show ?thesis using assms(1) drop_bit_1_not_bit_31[of x] by simp
next
  case False
  then have z: "drop_bit 1 x = 0" using assms(2) by (simp add: LookupTable_step_def bit0_conv)
  show ?thesis
  proof (rule bit_word_eqI)
    fix n assume "n < LENGTH(32)"
    show "bit x n = bit (0::u32) n"
    proof (cases n)
      case 0 then show ?thesis using False by simp
    next
      case (Suc m)
      have "bit (drop_bit 1 x) m = bit x (Suc m)" by (simp add: bit_drop_bit_eq)
      then show ?thesis using z Suc by simp
    qed
  qed
qed

lemma step_inj: assumes "bit p 31" "LookupTable_step p a = LookupTable_step p b" shows "a = b"
proof -
  have "LookupTable_step p (a XOR b) = 0" by (simp add: step_linear assms(2))
  then have "a XOR b = 0" by (rule step_kernel[OF assms(1)])
  then show ?thesis by (rule xor_eq_0D)
qed

lemma steps_linear:
  "(LookupTable_step p ^^ k) (a XOR b) = (LookupTable_step p ^^ k) a XOR (LookupTable_step p ^^ k) b"
  by (induction k) (simp_all add: step_linear)

lemma steps_inj:
  "bit p 31 \<Longrightarrow> (LookupTable_step p ^^ k) a = (LookupTable_step p ^^ k) b \<Longrightarrow> a = b"
  by (induction k) (auto dest: step_inj)

lemma steps_shift:
  "take_bit k y = 0 \<Longrightarrow> (LookupTable_step p ^^ k) y = drop_bit k (y::u32)"
proof (induction k)
  case 0 show ?case by simp
next
  case (Suc k)
  have t: "take_bit k y = 0" using Suc.prems
    by (metis take_bit_of_0 take_bit_take_bit min.absorb1 le_SucI le_refl)
  have "\<not> bit y k"
  proof
    assume "bit y k"
    then have "bit (take_bit (Suc k) y) k" by (simp add: bit_take_bit_iff)
    then show False using Suc.prems by simp
  qed
  then have "\<not> bit (drop_bit k y) 0" by (simp add: bit_drop_bit_eq)
  then have "LookupTable_step p (drop_bit k y) = drop_bit 1 (drop_bit k y)"
    by (simp add: LookupTable_step_def bit0_conv)
  then show ?case using Suc.IH[OF t] by (simp add: drop_bit_drop_bit)
qed

lemma xFF_mask: "(0xFF::u32) = mask 8"
  by (simp add: mask_eq_exp_minus_1)

lemma split_low_byte: "(x::u32) = (x AND 0xFF) XOR push_bit 8 (drop_bit 8 x)"
  unfolding xFF_mask
  by (rule bit_word_eqI) (auto simp: bit_and_iff bit_xor_iff bit_push_bit_iff bit_drop_bit_eq bit_mask_iff)

lemma low_byte_step:
  "(LookupTable_step p ^^ 8) x = (LookupTable_step p ^^ 8) (x AND 0xFF) XOR drop_bit 8 x"
proof -
  have "take_bit 8 (push_bit 8 (drop_bit 8 x)) = (0::u32)"
    by (simp add: take_bit_push_bit)
  then have "(LookupTable_step p ^^ 8) (push_bit 8 (drop_bit 8 x)) = drop_bit 8 (push_bit 8 (drop_bit 8 x))"
    by (rule steps_shift)
  also have "\<dots> = drop_bit 8 x"
    by (rule bit_word_eqI) (auto simp: bit_push_bit_iff bit_drop_bit_eq dest: bit_imp_le_length)
  finally have "(LookupTable_step p ^^ 8) ((x AND 0xFF) XOR push_bit 8 (drop_bit 8 x)) =
      (LookupTable_step p ^^ 8) (x AND 0xFF) XOR drop_bit 8 x"
    by (simp add: steps_linear)
  then show ?thesis using split_low_byte[of x] by simp
qed

lemma LookupTable_nth:
  "i < 256 \<Longrightarrow> LookupTable p ! i = (LookupTable_step p ^^ 8) (of_nat i)"
  by (simp add: LookupTable_def)

lemma low_byte_bound: "unat ((x::u32) AND 0xFF) < 256"
proof -
  have "x AND 0xFF \<le> 0xFF" by (rule word_and_le1)
  then show ?thesis by (simp add: word_le_nat_alt)
qed

lemma table_step:
  "LookupTable p ! unat ((c XOR ucast u) AND 0xFF) XOR drop_bit 8 c =
     (LookupTable_step p ^^ 8) (c XOR ucast (u::u8))"
proof -
  have z: "drop_bit 8 (ucast u :: u32) = 0"
    by (rule bit_word_eqI) (auto simp: bit_drop_bit_eq bit_ucast_iff dest: bit_imp_le_length)
  have d: "drop_bit 8 (c XOR ucast u) = drop_bit 8 c" by (simp add: drop_bit_xor z)
  show ?thesis
    unfolding low_byte_step[of p "c XOR ucast u"] d
    by (simp add: LookupTable_nth low_byte_bound)
qed



lemma byte_step_inj_state:
  assumes "bit p 31"
    and "LookupTable p ! unat ((c XOR ucast (u::u8)) AND 0xFF) XOR drop_bit 8 c =
         LookupTable p ! unat ((c' XOR ucast u) AND 0xFF) XOR drop_bit 8 c'"
  shows "c = c'"
proof -
  have "c XOR ucast u = c' XOR ucast (u::u8)"
    using assms(2) unfolding table_step by (rule steps_inj[OF assms(1)])
  then have "(c XOR ucast u) XOR ucast u = (c' XOR ucast u) XOR ucast u" by simp
  then show ?thesis by (simp add: xor.assoc)
qed

lemma byte_step_inj_byte:
  assumes "bit p 31"
    and "LookupTable p ! unat ((c XOR ucast (u::u8)) AND 0xFF) XOR drop_bit 8 c =
         LookupTable p ! unat ((c XOR ucast (u'::u8)) AND 0xFF) XOR drop_bit 8 c"
  shows "u = (u'::u8)"
proof -
  have "c XOR ucast u = c XOR ucast u'"
    using assms(2) unfolding table_step by (rule steps_inj[OF assms(1)])
  then have "c XOR (c XOR ucast u) = c XOR (c XOR (ucast u' :: u32))" by simp
  then have "(ucast u :: u32) = ucast u'" by (simp add: xor.assoc[symmetric])
  then have "(ucast (ucast u :: u32) :: u8) = ucast (ucast u' :: u32)" by simp
  then show ?thesis by (simp add: ucast_up_ucast_id is_up)
qed

lemma poly_top: "bit (0xEDB88320 :: u32) 31"
  by (simp add: bit_iff_odd)


lemma xor_cancel_right: "(a::u32) XOR m = b XOR m \<Longrightarrow> a = b"
proof -
  assume "a XOR m = b XOR m"
  then have "(a XOR m) XOR m = (b XOR m) XOR m" by simp
  then show ?thesis by (simp add: xor.assoc)
qed

lemma fold_step_inj:
  assumes "bit p 31"
  shows "fold (\<lambda>u c. LookupTable p ! unat ((c XOR ucast (u::u8)) AND 0xFF) XOR drop_bit 8 c) buf c =
         fold (\<lambda>u c. LookupTable p ! unat ((c XOR ucast u) AND 0xFF) XOR drop_bit 8 c) buf c'
         \<Longrightarrow> c = c'"
proof (induction buf arbitrary: c c')
  case Nil then show ?case by simp
next
  case (Cons u buf)
  from Cons.prems have "LookupTable p ! unat ((c XOR ucast u) AND 0xFF) XOR drop_bit 8 c =
     LookupTable p ! unat ((c' XOR ucast u) AND 0xFF) XOR drop_bit 8 c'"
    by (simp add: Cons.IH)
  then show ?case by (rule byte_step_inj_state[OF assms])
qed

lemma Crc32_Update_append:
  "Crc32_Update (a @ b) initial = Crc32_Update b (Crc32_Update a initial)"
  by (simp add: Crc32_Update_def Crc32_Update_table_def xor.assoc)

lemma Crc32_Update_Nil [simp]: "Crc32_Update [] initial = initial"
  by (simp add: Crc32_Update_def Crc32_Update_table_def xor.assoc)

lemma Crc32_Update_inj_initial:
  assumes "Crc32_Update buf i = Crc32_Update buf i'" shows "i = i'"
proof -
  from assms have "fold (\<lambda>u c. Default ! unat ((c XOR ucast u) AND 0xFF) XOR drop_bit 8 c) buf (i XOR 0xFFFFFFFF)
      = fold (\<lambda>u c. Default ! unat ((c XOR ucast u) AND 0xFF) XOR drop_bit 8 c) buf (i' XOR 0xFFFFFFFF)"
    unfolding Crc32_Update_def Crc32_Update_table_def by (rule xor_cancel_right)
  then have "i XOR 0xFFFFFFFF = i' XOR 0xFFFFFFFF"
    unfolding Default_def by (rule fold_step_inj[OF poly_top])
  then show ?thesis by (rule xor_cancel_right)
qed

lemma Crc32_Update_inj_byte:
  assumes "Crc32_Update [u] i = Crc32_Update [u'] i" shows "u = u'"
proof -
  from assms have "fold (\<lambda>u c. Default ! unat ((c XOR ucast u) AND 0xFF) XOR drop_bit 8 c) [u] (i XOR 0xFFFFFFFF)
      = fold (\<lambda>u c. Default ! unat ((c XOR ucast u) AND 0xFF) XOR drop_bit 8 c) [u'] (i XOR 0xFFFFFFFF)"
    unfolding Crc32_Update_def Crc32_Update_table_def by (rule xor_cancel_right)
  then have "Default ! unat (((i XOR 0xFFFFFFFF) XOR ucast u) AND 0xFF) XOR drop_bit 8 (i XOR 0xFFFFFFFF) =
     Default ! unat (((i XOR 0xFFFFFFFF) XOR ucast u') AND 0xFF) XOR drop_bit 8 (i XOR 0xFFFFFFFF)"
    unfolding fold_simps id_o o_id o_apply .
  then show ?thesis unfolding Default_def by (rule byte_step_inj_byte[OF poly_top])
qed

lemma Crc32_single_byte_change:
  assumes "u \<noteq> u'"
  shows "Crc32_Update (xs @ u # ys) initial \<noteq> Crc32_Update (xs @ u' # ys) initial"
proof
  assume "Crc32_Update (xs @ u # ys) initial = Crc32_Update (xs @ u' # ys) initial"
  then have "Crc32_Update ys (Crc32_Update [u] (Crc32_Update xs initial)) =
      Crc32_Update ys (Crc32_Update [u'] (Crc32_Update xs initial))"
    using Crc32_Update_append[of xs "u # ys" initial] Crc32_Update_append[of xs "u' # ys" initial]
      Crc32_Update_append[of "[u]" ys] Crc32_Update_append[of "[u']" ys]
    by simp
  then have "Crc32_Update [u] (Crc32_Update xs initial) = Crc32_Update [u'] (Crc32_Update xs initial)"
    by (rule Crc32_Update_inj_initial)
  then show False using assms by (auto dest: Crc32_Update_inj_byte)
qed

section \<open>The binary log file format\<close>

text \<open>
  All structures of the log are packed (\<open>#pragma pack(push, 1)\<close>) and written as their
  object image, so every member lies at the sum of the sizes of the members before it,
  least significant byte first.
\<close>

fun le_bytes :: "nat \<Rightarrow> 'a::len word \<Rightarrow> bytes" where
  "le_bytes 0 w = []"
| "le_bytes (Suc n) w = ucast w # le_bytes n (drop_bit 8 w)"

fun word_le :: "bytes \<Rightarrow> 'a::len word" where
  "word_le [] = 0"
| "word_le (b # bs) = ucast b OR push_bit 8 (word_le bs)"

text \<open>The member of \<open>n\<close> bytes at offset \<open>off\<close> of an object image.\<close>

definition member :: "nat \<Rightarrow> nat \<Rightarrow> bytes \<Rightarrow> 'a::len word" where
  "member off n img = word_le (take n (drop off img))"

text \<open>The bytes of a wide string (two per code unit) and back.\<close>

definition wchars_bytes :: "wstring \<Rightarrow> bytes" where
  "wchars_bytes ws = concat (map (le_bytes 2) ws)"

fun bytes_wchars :: "bytes \<Rightarrow> wstring" where
  "bytes_wchars (a # b # rest) = word_le [a, b] # bytes_wchars rest"
| "bytes_wchars _ = []"

text \<open>A four-character signature as the 32-bit value its bytes form.\<close>

definition signature :: "string \<Rightarrow> u32" where
  "signature s = word_le (astr s)"

text \<open>\<open>hindsight_version_int\<close> of Version.hpp: major 0, minor 6, revision 2, build 0.\<close>

definition hindsight_version_int :: u32 where
  "hindsight_version_int = push_bit 24 0 OR push_bit 16 6 OR push_bit 8 2 OR 0"

text \<open>\<open>struct FileHeader\<close>; \<open>time_t\<close> is the 64-bit type.\<close>

record FileHeader =
  Signature :: u32
  Version :: u32
  ProcessId :: u32
  ThreadId :: u32
  PathLength :: u64
  WorkingDirectoryLength :: u64
  Arguments :: u64
  StartTime :: u64
  Crc32 :: u32

definition FileHeader_default :: FileHeader where
  "FileHeader_default =
     \<lparr>Signature = signature ''HIND'', Version = hindsight_version_int, ProcessId = 0,
      ThreadId = 0, PathLength = 0, WorkingDirectoryLength = 0, Arguments = 0,
      StartTime = 0, Crc32 = 0\<rparr>"

definition sizeof_FileHeader :: nat where
  "sizeof_FileHeader = 52"

definition FileHeader_bytes :: "FileHeader \<Rightarrow> bytes" where
  "FileHeader_bytes h =
     le_bytes 4 (Signature h) @ le_bytes 4 (Version h) @ le_bytes 4 (ProcessId h) @
     le_bytes 4 (ThreadId h) @ le_bytes 8 (PathLength h) @
     le_bytes 8 (WorkingDirectoryLength h) @ le_bytes 8 (Arguments h) @
     le_bytes 8 (StartTime h) @ le_bytes 4 (Crc32 h)"

definition FileHeader_of :: "bytes \<Rightarrow> FileHeader" where
  "FileHeader_of img =
     \<lparr>Signature = member 0 4 img, Version = member 4 4 img,
      ProcessId = member 8 4 img, ThreadId = member 12 4 img,
      PathLength = member 16 8 img, WorkingDirectoryLength = member 24 8 img,
      Arguments = member 32 8 img, StartTime = member 40 8 img,
      Crc32 = member 48 4 img\<rparr>"

text \<open>
  \<open>PROCESS_INFORMATION\<close> and its fixed-size twin \<open>EventEntryProcessInformation\<close> hold the
  same four values (handles are 64-bit); one record stands for both.
\<close>

record PROCESS_INFORMATION =
  hProcess :: u64
  hThread :: u64
  dwProcessId :: u32
  dwThreadId :: u32

definition PROCESS_INFORMATION_bytes :: "PROCESS_INFORMATION \<Rightarrow> bytes" where
  "PROCESS_INFORMATION_bytes pi =
     le_bytes 8 (hProcess pi) @ le_bytes 8 (hThread pi) @ le_bytes 4 (dwProcessId pi) @
     le_bytes 4 (dwThreadId pi)"

text \<open>\<open>struct EventEntry\<close> and the event entries derived from it.\<close>

record EventEntry =
  EvSignature :: u32
  Time :: u64
  EventId :: u32
  EvSize :: u64
  ProcessInformation :: PROCESS_INFORMATION

record ExceptionEventEntry = EventEntry +
  EventAddress :: u64
  EventOffset :: u64
  ExModuleIndex :: u64
  EventCode :: u32
  Wow64 :: u8
  IsBreakpoint :: u8
  IsFirstChance :: u8

record CreateProcessEventEntry = EventEntry +
  CpPathLength :: u64
  CpModuleBase :: u64
  CpModuleSize :: u64

record CreateThreadEventEntry = EventEntry +
  EntryPointAddress :: u64
  CtModuleIndex :: u64
  EntryPointOffset :: u64

record ExitProcessEventEntry = EventEntry +
  EpExitCode :: u32

record ExitThreadEventEntry = EventEntry +
  EtExitCode :: u32

record DllLoadEventEntry = EventEntry +
  DlModuleIndex :: u64
  DlModuleBase :: u64
  DlModuleSize :: u64
  ModulePathSize :: u64

record DebugStringEventEntry = EventEntry +
  IsUnicode :: u8
  Length :: u64

record RipEventEntry = EventEntry +
  RipType :: u32
  RipError :: u32

record DllUnloadEventEntry = EventEntry +
  DuModuleBase :: u64

text \<open>The debug event codes of Windows, as the specification lists them.\<close>

definition EXCEPTION_DEBUG_EVENT :: u32 where "EXCEPTION_DEBUG_EVENT = 1"
definition CREATE_THREAD_DEBUG_EVENT :: u32 where "CREATE_THREAD_DEBUG_EVENT = 2"
definition CREATE_PROCESS_DEBUG_EVENT :: u32 where "CREATE_PROCESS_DEBUG_EVENT = 3"
definition EXIT_THREAD_DEBUG_EVENT :: u32 where "EXIT_THREAD_DEBUG_EVENT = 4"
definition EXIT_PROCESS_DEBUG_EVENT :: u32 where "EXIT_PROCESS_DEBUG_EVENT = 5"
definition LOAD_DLL_DEBUG_EVENT :: u32 where "LOAD_DLL_DEBUG_EVENT = 6"
definition UNLOAD_DLL_DEBUG_EVENT :: u32 where "UNLOAD_DLL_DEBUG_EVENT = 7"
definition OUTPUT_DEBUG_STRING_EVENT :: u32 where "OUTPUT_DEBUG_STRING_EVENT = 8"
definition RIP_EVENT :: u32 where "RIP_EVENT = 9"

definition sizeof_EventEntry :: nat where "sizeof_EventEntry = 48"
definition sizeof_ExceptionEventEntry :: nat where "sizeof_ExceptionEventEntry = 79"
definition sizeof_CreateProcessEventEntry :: nat where "sizeof_CreateProcessEventEntry = 72"
definition sizeof_CreateThreadEventEntry :: nat where "sizeof_CreateThreadEventEntry = 72"
definition sizeof_ExitProcessEventEntry :: nat where "sizeof_ExitProcessEventEntry = 52"
definition sizeof_ExitThreadEventEntry :: nat where "sizeof_ExitThreadEventEntry = 52"
definition sizeof_DllLoadEventEntry :: nat where "sizeof_DllLoadEventEntry = 80"
definition sizeof_DebugStringEventEntry :: nat where "sizeof_DebugStringEventEntry = 57"
definition sizeof_RipEventEntry :: nat where "sizeof_RipEventEntry = 56"
definition sizeof_DllUnloadEventEntry :: nat where "sizeof_DllUnloadEventEntry = 56"

text \<open>
  The constructor \<open>EventEntry(pi, eventId, size)\<close>; \<open>now\<close> is what the system clock
  returns when the entry is built.
\<close>

definition EventEntry_new :: "u64 \<Rightarrow> PROCESS_INFORMATION \<Rightarrow> u32 \<Rightarrow> nat \<Rightarrow> EventEntry" where
  "EventEntry_new now pi eventId sz =
     \<lparr>EvSignature = signature ''EVNT'', Time = now, EventId = eventId,
      EvSize = of_nat sz, ProcessInformation = pi\<rparr>"

definition EventEntry_bytes :: "'a EventEntry_scheme \<Rightarrow> bytes" where
  "EventEntry_bytes e =
     le_bytes 4 (EvSignature e) @ le_bytes 8 (Time e) @ le_bytes 4 (EventId e) @
     le_bytes 8 (EvSize e) @ PROCESS_INFORMATION_bytes (ProcessInformation e)"

definition EventEntry_of :: "bytes \<Rightarrow> EventEntry" where
  "EventEntry_of img =
     \<lparr>EvSignature = member 0 4 img, Time = member 4 8 img, EventId = member 12 4 img,
      EvSize = member 16 8 img,
      ProcessInformation =
        \<lparr>hProcess = member 24 8 img, hThread = member 32 8 img,
         dwProcessId = member 40 4 img, dwThreadId = member 44 4 img\<rparr>\<rparr>"

definition ExceptionEventEntry_bytes :: "ExceptionEventEntry \<Rightarrow> bytes" where
  "ExceptionEventEntry_bytes e =
     EventEntry_bytes e @ le_bytes 8 (EventAddress e) @ le_bytes 8 (EventOffset e) @
     le_bytes 8 (ExModuleIndex e) @ le_bytes 4 (EventCode e) @ [Wow64 e, IsBreakpoint e,
     IsFirstChance e]"

definition ExceptionEventEntry_of :: "bytes \<Rightarrow> ExceptionEventEntry" where
  "ExceptionEventEntry_of img =
     EventEntry.extend (EventEntry_of img)
       (ExceptionEventEntry.fields (member 48 8 img) (member 56 8 img)
          (member 64 8 img) (member 72 4 img) (member 76 1 img) (member 77 1 img)
          (member 78 1 img))"

definition CreateProcessEventEntry_bytes :: "CreateProcessEventEntry \<Rightarrow> bytes" where
  "CreateProcessEventEntry_bytes e =
     EventEntry_bytes e @ le_bytes 8 (CpPathLength e) @ le_bytes 8 (CpModuleBase e) @
     le_bytes 8 (CpModuleSize e)"

definition CreateProcessEventEntry_of :: "bytes \<Rightarrow> CreateProcessEventEntry" where
  "CreateProcessEventEntry_of img =
     EventEntry.extend (EventEntry_of img)
       (CreateProcessEventEntry.fields (member 48 8 img) (member 56 8 img)
          (member 64 8 img))"

definition CreateThreadEventEntry_bytes :: "CreateThreadEventEntry \<Rightarrow> bytes" where
  "CreateThreadEventEntry_bytes e =
     EventEntry_bytes e @ le_bytes 8 (EntryPointAddress e) @ le_bytes 8 (CtModuleIndex e) @
     le_bytes 8 (EntryPointOffset e)"

definition CreateThreadEventEntry_of :: "bytes \<Rightarrow> CreateThreadEventEntry" where
  "CreateThreadEventEntry_of img =
     EventEntry.extend (EventEntry_of img)
       (CreateThreadEventEntry.fields (member 48 8 img) (member 56 8 img)
          (member 64 8 img))"

definition ExitProcessEventEntry_bytes :: "ExitProcessEventEntry \<Rightarrow> bytes" where
  "ExitProcessEventEntry_bytes e = EventEntry_bytes e @ le_bytes 4 (EpExitCode e)"

definition ExitProcessEventEntry_of :: "bytes \<Rightarrow> ExitProcessEventEntry" where
  "ExitProcessEventEntry_of img =
     EventEntry.extend (EventEntry_of img) (ExitProcessEventEntry.fields (member 48 4 img))"

definition ExitThreadEventEntry_bytes :: "ExitThreadEventEntry \<Rightarrow> bytes" where
  "ExitThreadEventEntry_bytes e = EventEntry_bytes e @ le_bytes 4 (EtExitCode e)"

definition ExitThreadEventEntry_of :: "bytes \<Rightarrow> ExitThreadEventEntry" where
  "ExitThreadEventEntry_of img =
     EventEntry.extend (EventEntry_of img) (ExitThreadEventEntry.fields (member 48 4 img))"

definition DllLoadEventEntry_bytes :: "DllLoadEventEntry \<Rightarrow> bytes" where
  "DllLoadEventEntry_bytes e =
     EventEntry_bytes e @ le_bytes 8 (DlModuleIndex e) @ le_bytes 8 (DlModuleBase e) @
     le_bytes 8 (DlModuleSize e) @ le_bytes 8 (ModulePathSize e)"

definition DllLoadEventEntry_of :: "bytes \<Rightarrow> DllLoadEventEntry" where
  "DllLoadEventEntry_of img =
     EventEntry.extend (EventEntry_of img)
       (DllLoadEventEntry.fields (member 48 8 img) (member 56 8 img) (member 64 8 img)
          (member 72 8 img))"

definition DebugStringEventEntry_bytes :: "DebugStringEventEntry \<Rightarrow> bytes" where
  "DebugStringEventEntry_bytes e = EventEntry_bytes e @ [IsUnicode e] @ le_bytes 8 (Length e)"

definition DebugStringEventEntry_of :: "bytes \<Rightarrow> DebugStringEventEntry" where
  "DebugStringEventEntry_of img =
     EventEntry.extend (EventEntry_of img)
       (DebugStringEventEntry.fields (member 48 1 img) (member 49 8 img))"

definition RipEventEntry_bytes :: "RipEventEntry \<Rightarrow> bytes" where
  "RipEventEntry_bytes e = EventEntry_bytes e @ le_bytes 4 (RipType e) @ le_bytes 4 (RipError e)"

definition RipEventEntry_of :: "bytes \<Rightarrow> RipEventEntry" where
  "RipEventEntry_of img =
     EventEntry.extend (EventEntry_of img)
       (RipEventEntry.fields (member 48 4 img) (member 52 4 img))"

definition DllUnloadEventEntry_bytes :: "DllUnloadEventEntry \<Rightarrow> bytes" where
  "DllUnloadEventEntry_bytes e = EventEntry_bytes e @ le_bytes 8 (DuModuleBase e)"

definition DllUnloadEventEntry_of :: "bytes \<Rightarrow> DllUnloadEventEntry" where
  "DllUnloadEventEntry_of img =
     EventEntry.extend (EventEntry_of img) (DllUnloadEventEntry.fields (member 48 8 img))"

text \<open>The stack trace header, a stack trace entry and a decoded instruction.\<close>

record StackTrace =
  StSignature :: u32
  MaxRecursion :: u64
  MaxInstructions :: u64
  TraceEntries :: u64

record StackTraceEntry =
  SteModuleIndex :: u64
  SteModuleBase :: u64
  SteAddress :: u64
  SteAbsoluteAddress :: u64
  SteAbsoluteLineAddress :: u64
  SteLineAddress :: u64
  NameSymbolLength :: u64
  StePathLength :: u64
  LineNumber64 :: u64
  IsRecursion :: u8
  SteRecursionCount :: u64
  InstructionCount :: u64

record StackTraceEntryInstruction =
  SiIs64BitAddress :: u8
  SiOffset :: u64
  SiSize :: u64
  HexSize :: u64
  MnemonicSize :: u64
  OperandsSize :: u64

definition sizeof_StackTrace :: nat where "sizeof_StackTrace = 28"
definition sizeof_StackTraceEntry :: nat where "sizeof_StackTraceEntry = 89"
definition sizeof_StackTraceEntryInstruction :: nat where "sizeof_StackTraceEntryInstruction = 41"

definition StackTrace_bytes :: "StackTrace \<Rightarrow> bytes" where
  "StackTrace_bytes t =
     le_bytes 4 (StSignature t) @ le_bytes 8 (MaxRecursion t) @ le_bytes 8 (MaxInstructions t) @
     le_bytes 8 (TraceEntries t)"

definition StackTrace_of :: "bytes \<Rightarrow> StackTrace" where
  "StackTrace_of img =
     \<lparr>StSignature = member 0 4 img, MaxRecursion = member 4 8 img,
      MaxInstructions = member 12 8 img, TraceEntries = member 20 8 img\<rparr>"

definition StackTraceEntry_bytes :: "StackTraceEntry \<Rightarrow> bytes" where
  "StackTraceEntry_bytes e =
     le_bytes 8 (SteModuleIndex e) @ le_bytes 8 (SteModuleBase e) @ le_bytes 8 (SteAddress e) @
     le_bytes 8 (SteAbsoluteAddress e) @ le_bytes 8 (SteAbsoluteLineAddress e) @
     le_bytes 8 (SteLineAddress e) @ le_bytes 8 (NameSymbolLength e) @
     le_bytes 8 (StePathLength e) @ le_bytes 8 (LineNumber64 e) @ [IsRecursion e] @
     le_bytes 8 (SteRecursionCount e) @ le_bytes 8 (InstructionCount e)"

definition StackTraceEntry_of :: "bytes \<Rightarrow> StackTraceEntry" where
  "StackTraceEntry_of img =
     \<lparr>SteModuleIndex = member 0 8 img, SteModuleBase = member 8 8 img,
      SteAddress = member 16 8 img, SteAbsoluteAddress = member 24 8 img,
      SteAbsoluteLineAddress = member 32 8 img, SteLineAddress = member 40 8 img,
      NameSymbolLength = member 48 8 img, StePathLength = member 56 8 img,
      LineNumber64 = member 64 8 img, IsRecursion = member 72 1 img,
      SteRecursionCount = member 73 8 img, InstructionCount = member 81 8 img\<rparr>"

definition StackTraceEntryInstruction_bytes :: "StackTraceEntryInstruction \<Rightarrow> bytes" where
  "StackTraceEntryInstruction_bytes i =
     [SiIs64BitAddress i] @ le_bytes 8 (SiOffset i) @ le_bytes 8 (SiSize i) @
     le_bytes 8 (HexSize i) @ le_bytes 8 (MnemonicSize i) @ le_bytes 8 (OperandsSize i)"

definition StackTraceEntryInstruction_of :: "bytes \<Rightarrow> StackTraceEntryInstruction" where
  "StackTraceEntryInstruction_of img =
     \<lparr>SiIs64BitAddress = member 0 1 img, SiOffset = member 1 8 img,
      SiSize = member 9 8 img, HexSize = member 17 8 img,
      MnemonicSize = member 25 8 img, OperandsSize = member 33 8 img\<rparr>"

section \<open>The event handler interface\<close>

text \<open>
  \<open>class Process\<close> (process handles and ids, path, working directory and arguments as
  narrow strings) and the Windows event records, reduced to the members the program reads
  or sets.
\<close>

record Process =
  ProcInformation :: PROCESS_INFORMATION
  ProcPath :: bytes
  ProcWorkingDirectory :: bytes
  ProcArguments :: "bytes list"

record EXCEPTION_DEBUG_INFO =
  ExceptionCode :: u32
  ExceptionAddress :: u64
  ExceptionInformation :: "u64 list"
  dwFirstChance :: u32

record CREATE_PROCESS_DEBUG_INFO =
  CpiProcess :: u64
  CpiThread :: u64
  lpBaseOfImage :: u64

record OUTPUT_DEBUG_STRING_INFO =
  fUnicode :: u16
  nDebugStringLength :: u16

record RIP_INFO =
  dwError :: u32
  dwType :: u32

text \<open>
  \<open>class DebugContext\<close>: the flag and the two register sets. In the program the register
  sets share storage (a union); every reader picks the member by the flag, so they are
  kept as two members here. A register set is its object image: \<open>sizeof(CONTEXT)\<close> is
  1232 bytes and \<open>sizeof(WOW64_CONTEXT)\<close> is 716 bytes.
\<close>

record DebugContext =
  IsWow64 :: bool
  X64 :: bytes
  X86 :: bytes

definition Is64 :: "DebugContext \<Rightarrow> bool" where
  "Is64 c \<longleftrightarrow> \<not> IsWow64 c"

definition sizeof_CONTEXT :: nat where "sizeof_CONTEXT = 1232"
definition sizeof_WOW64_CONTEXT :: nat where "sizeof_WOW64_CONTEXT = 716"

text \<open>
  The calls of \<open>IDebuggerEventHandler\<close>, with their arguments in the order of the
  interface; a \<open>const ModuleCollection&\<close> argument is the collection as it is at the call.
\<close>

datatype handler_call =
    OnInitialization u64 Process
  | OnBreakpointHit u64 EXCEPTION_DEBUG_INFO PROCESS_INFORMATION DebugContext DebugStackTrace
      ModuleCollection
  | OnException u64 EXCEPTION_DEBUG_INFO PROCESS_INFORMATION bool wstring DebugContext
      DebugStackTrace ModuleCollection
  | OnCreateProcess u64 CREATE_PROCESS_DEBUG_INFO PROCESS_INFORMATION wstring ModuleCollection
  | OnCreateThread u64 u64 PROCESS_INFORMATION ModuleCollection
  | OnExitProcess u64 u32 PROCESS_INFORMATION ModuleCollection
  | OnExitThread u64 u32 PROCESS_INFORMATION ModuleCollection
  | OnDllLoad u64 u64 PROCESS_INFORMATION wstring int ModuleCollection
  | OnDebugString u64 OUTPUT_DEBUG_STRING_INFO PROCESS_INFORMATION bytes
  | OnDebugStringW u64 OUTPUT_DEBUG_STRING_INFO PROCESS_INFORMATION wstring
  | OnRip u64 RIP_INFO PROCESS_INFORMATION wstring
  | OnDllUnload u64 u64 PROCESS_INFORMATION wstring int ModuleCollection
  | OnModuleCollectionComplete u64 ModuleCollection

text \<open>The calls that report a debug event, as opposed to the first and the last call.\<close>

fun is_debug_event :: "handler_call \<Rightarrow> bool" where
  "is_debug_event (OnInitialization _ _) = False"
| "is_debug_event (OnModuleCollectionComplete _ _) = False"
| "is_debug_event _ = True"

section \<open>WriterDebuggerEventHandler\<close>

text \<open>
  The writer holds the output stream (its content and its put position) and the header.
  \<open>stream_write\<close> is \<open>std::ofstream::write\<close> at the put position: it overwrites what
  is there and extends the file at its end.
\<close>

record WriterDebuggerEventHandler =
  m_Stream :: bytes
  m_StreamPos :: nat
  m_Header :: FileHeader

definition WriterDebuggerEventHandler_new :: WriterDebuggerEventHandler where
  "WriterDebuggerEventHandler_new =
     \<lparr>m_Stream = [], m_StreamPos = 0, m_Header = FileHeader_default\<rparr>"

definition stream_write :: "nat \<Rightarrow> bytes \<Rightarrow> bytes \<Rightarrow> bytes" where
  "stream_write pos data content = take pos content @ data @ drop (pos + length data) content"

text \<open>\<open>Write(const char* data, size_t size, bool updateChecksum)\<close>.\<close>

definition Write :: "bytes \<Rightarrow> bool \<Rightarrow> WriterDebuggerEventHandler \<Rightarrow> WriterDebuggerEventHandler" where
  "Write data updateChecksum w =
     (let w1 = w\<lparr>m_Stream := stream_write (m_StreamPos w) data (m_Stream w),
                  m_StreamPos := m_StreamPos w + length data\<rparr>
      in if updateChecksum
         then w1\<lparr>m_Header := (m_Header w1)\<lparr>Crc32 := Crc32_Update data (Crc32 (m_Header w1))\<rparr>\<rparr>
         else w1)"

text \<open>
  What the typed overloads of \<open>Write\<close> are called with: a structure (written as its
  object image of \<open>sizeof(T)\<close> bytes), the characters of a narrow or of a wide string, or
  the 32-bit length that precedes a string.
\<close>

datatype written =
    W_FileHeader FileHeader
  | W_length u32
  | W_chars bytes
  | W_wchars wstring
  | W_ExceptionEventEntry ExceptionEventEntry
  | W_CreateProcessEventEntry CreateProcessEventEntry
  | W_CreateThreadEventEntry CreateThreadEventEntry
  | W_ExitProcessEventEntry ExitProcessEventEntry
  | W_ExitThreadEventEntry ExitThreadEventEntry
  | W_DllLoadEventEntry DllLoadEventEntry
  | W_DebugStringEventEntry DebugStringEventEntry
  | W_RipEventEntry RipEventEntry
  | W_DllUnloadEventEntry DllUnloadEventEntry
  | W_CONTEXT bytes
  | W_WOW64_CONTEXT bytes
  | W_StackTrace StackTrace
  | W_StackTraceEntry StackTraceEntry
  | W_StackTraceEntryInstruction StackTraceEntryInstruction

fun written_bytes :: "written \<Rightarrow> bytes" where
  "written_bytes (W_FileHeader h) = FileHeader_bytes h"
| "written_bytes (W_length n) = le_bytes 4 n"
| "written_bytes (W_chars s) = s"
| "written_bytes (W_wchars s) = wchars_bytes s"
| "written_bytes (W_ExceptionEventEntry e) = ExceptionEventEntry_bytes e"
| "written_bytes (W_CreateProcessEventEntry e) = CreateProcessEventEntry_bytes e"
| "written_bytes (W_CreateThreadEventEntry e) = CreateThreadEventEntry_bytes e"
| "written_bytes (W_ExitProcessEventEntry e) = ExitProcessEventEntry_bytes e"
| "written_bytes (W_ExitThreadEventEntry e) = ExitThreadEventEntry_bytes e"
| "written_bytes (W_DllLoadEventEntry e) = DllLoadEventEntry_bytes e"
| "written_bytes (W_DebugStringEventEntry e) = DebugStringEventEntry_bytes e"
| "written_bytes (W_RipEventEntry e) = RipEventEntry_bytes e"
| "written_bytes (W_DllUnloadEventEntry e) = DllUnloadEventEntry_bytes e"
| "written_bytes (W_CONTEXT c) = c"
| "written_bytes (W_WOW64_CONTEXT c) = c"
| "written_bytes (W_StackTrace t) = StackTrace_bytes t"
| "written_bytes (W_StackTraceEntry e) = StackTraceEntry_bytes e"
| "written_bytes (W_StackTraceEntryInstruction i) = StackTraceEntryInstruction_bytes i"

text \<open>\<open>template Write(T s)\<close> and the others all end in \<open>Write(data, size)\<close> with the
  checksum updated.\<close>

definition Write_object :: "written \<Rightarrow> WriterDebuggerEventHandler \<Rightarrow> WriterDebuggerEventHandler" where
  "Write_object x w = Write (written_bytes x) True w"

definition Write_objects :: "written list \<Rightarrow> WriterDebuggerEventHandler \<Rightarrow> WriterDebuggerEventHandler" where
  "Write_objects xs w = fold Write_object xs w"

text \<open>
  \<open>Write(const std::string& s, bool writeLength)\<close> and its wide twin: nothing at all for
  an empty string, else the length (as \<open>uint32_t\<close>) when asked for, then the characters.
\<close>

definition Write_string :: "bytes \<Rightarrow> bool \<Rightarrow> written list" where
  "Write_string s writeLength =
     (if s = [] then []
      else (if writeLength then [W_length (of_nat (length s))] else []) @ [W_chars s])"

definition Write_wstring :: "wstring \<Rightarrow> bool \<Rightarrow> written list" where
  "Write_wstring s writeLength =
     (if s = [] then []
      else (if writeLength then [W_length (of_nat (length s))] else []) @ [W_wchars s])"

text \<open>\<open>OnInitialization\<close>; \<open>now\<close> is the value of \<open>std::time(nullptr)\<close>.\<close>

definition Writer_OnInitialization ::
  "u64 \<Rightarrow> Process \<Rightarrow> WriterDebuggerEventHandler \<Rightarrow> WriterDebuggerEventHandler" where
  "Writer_OnInitialization now p w =
     (let w1 = w\<lparr>m_Header := (m_Header w)
                  \<lparr>ProcessId := dwProcessId (ProcInformation p),
                   ThreadId := dwThreadId (ProcInformation p),
                   PathLength := of_nat (length (ProcPath p)),
                   WorkingDirectoryLength := of_nat (length (ProcWorkingDirectory p)),
                   Arguments := of_nat (length (ProcArguments p)),
                   StartTime := now,
                   Crc32 := 0\<rparr>\<rparr>;
          w2 = Write (FileHeader_bytes (m_Header w1)) False w1
      in Write_objects
           (Write_string (ProcPath p) False @ Write_string (ProcWorkingDirectory p) False @
            concat (map (\<lambda>argument. Write_string argument True) (ProcArguments p))) w2)"

text \<open>The constructors of the event entries.\<close>

definition ExceptionEventEntry_new ::
  "u64 \<Rightarrow> PROCESS_INFORMATION \<Rightarrow> u64 \<Rightarrow> u32 \<Rightarrow> bool \<Rightarrow> bool \<Rightarrow> bool \<Rightarrow> ExceptionEventEntry" where
  "ExceptionEventEntry_new now pi addr code iswow64 breakpoint firstChance =
     EventEntry.extend (EventEntry_new now pi EXCEPTION_DEBUG_EVENT sizeof_ExceptionEventEntry)
       (ExceptionEventEntry.fields addr 0 0 code (of_bool iswow64) (of_bool breakpoint)
          (of_bool firstChance))"

definition CreateProcessEventEntry_new ::
  "u64 \<Rightarrow> PROCESS_INFORMATION \<Rightarrow> wstring \<Rightarrow> u64 \<Rightarrow> u64 \<Rightarrow> CreateProcessEventEntry" where
  "CreateProcessEventEntry_new now pi path base sz =
     EventEntry.extend
       (EventEntry_new now pi CREATE_PROCESS_DEBUG_EVENT sizeof_CreateProcessEventEntry)
       (CreateProcessEventEntry.fields (of_nat (length path)) base sz)"

definition CreateThreadEventEntry_new :: "u64 \<Rightarrow> PROCESS_INFORMATION \<Rightarrow> u64 \<Rightarrow> CreateThreadEventEntry" where
  "CreateThreadEventEntry_new now pi entryPoint =
     EventEntry.extend
       (EventEntry_new now pi CREATE_THREAD_DEBUG_EVENT sizeof_CreateThreadEventEntry)
       (CreateThreadEventEntry.fields entryPoint 0 0)"

definition ExitProcessEventEntry_new :: "u64 \<Rightarrow> PROCESS_INFORMATION \<Rightarrow> u32 \<Rightarrow> ExitProcessEventEntry" where
  "ExitProcessEventEntry_new now pi exitCode =
     EventEntry.extend
       (EventEntry_new now pi EXIT_PROCESS_DEBUG_EVENT sizeof_ExitProcessEventEntry)
       (ExitProcessEventEntry.fields exitCode)"

definition ExitThreadEventEntry_new :: "u64 \<Rightarrow> PROCESS_INFORMATION \<Rightarrow> u32 \<Rightarrow> ExitThreadEventEntry" where
  "ExitThreadEventEntry_new now pi exitCode =
     EventEntry.extend
       (EventEntry_new now pi EXIT_THREAD_DEBUG_EVENT sizeof_ExitThreadEventEntry)
       (ExitThreadEventEntry.fields exitCode)"

definition DllLoadEventEntry_new ::
  "u64 \<Rightarrow> PROCESS_INFORMATION \<Rightarrow> u64 \<Rightarrow> u64 \<Rightarrow> u64 \<Rightarrow> u64 \<Rightarrow> DllLoadEventEntry" where
  "DllLoadEventEntry_new now pi index base sz pathSize =
     EventEntry.extend (EventEntry_new now pi LOAD_DLL_DEBUG_EVENT sizeof_DllLoadEventEntry)
       (DllLoadEventEntry.fields index base sz pathSize)"

definition DebugStringEventEntry_new ::
  "u64 \<Rightarrow> PROCESS_INFORMATION \<Rightarrow> u8 \<Rightarrow> u64 \<Rightarrow> DebugStringEventEntry" where
  "DebugStringEventEntry_new now pi unicode len =
     EventEntry.extend
       (EventEntry_new now pi OUTPUT_DEBUG_STRING_EVENT sizeof_DebugStringEventEntry)
       (DebugStringEventEntry.fields unicode len)"

definition RipEventEntry_new :: "u64 \<Rightarrow> PROCESS_INFORMATION \<Rightarrow> u32 \<Rightarrow> u32 \<Rightarrow> RipEventEntry" where
  "RipEventEntry_new now pi type error =
     EventEntry.extend (EventEntry_new now pi RIP_EVENT sizeof_RipEventEntry)
       (RipEventEntry.fields type error)"

definition DllUnloadEventEntry_new :: "u64 \<Rightarrow> PROCESS_INFORMATION \<Rightarrow> u64 \<Rightarrow> DllUnloadEventEntry" where
  "DllUnloadEventEntry_new now pi base =
     EventEntry.extend
       (EventEntry_new now pi UNLOAD_DLL_DEBUG_EVENT sizeof_DllUnloadEventEntry)
       (DllUnloadEventEntry.fields base)"

text \<open>\<open>Write(std::shared_ptr<const DebugContext> context)\<close>.\<close>

definition Write_context :: "DebugContext \<Rightarrow> written list" where
  "Write_context c = (if Is64 c then [W_CONTEXT (X64 c)] else [W_WOW64_CONTEXT (X86 c)])"

text \<open>
  \<open>Write(trace, collection)\<close>: the header, then for every entry of the trace the entry,
  its symbol name, its source file and its instructions.
\<close>

definition Write_instruction :: "DebugStackTraceInstruction \<Rightarrow> written list" where
  "Write_instruction instr =
     [W_StackTraceEntryInstruction
        \<lparr>SiIs64BitAddress = of_bool (Is64BitAddress instr), SiOffset = Offset instr,
         SiSize = InstrSize instr, HexSize = of_nat (length (InstructionHex instr)),
         MnemonicSize = of_nat (length (InstructionMnemonic instr)),
         OperandsSize = of_nat (length (Operands instr))\<rparr>] @
     Write_string (InstructionHex instr) False @
     Write_string (InstructionMnemonic instr) False @
     Write_string (Operands instr) False"

definition stackTraceEntry :: "ModuleCollection \<Rightarrow> DebugStackTraceEntry \<Rightarrow> StackTraceEntry" where
  "stackTraceEntry collection entry =
     \<lparr>SteModuleIndex =
        (if Base (EntryModule entry) \<noteq> 0 \<and> Path (EntryModule entry) \<noteq> []
         then word_of_int (GetIndex collection (Path (EntryModule entry))) else 0),
      SteModuleBase = Base (EntryModule entry),
      SteAddress = Address entry,
      SteAbsoluteAddress = AbsoluteAddress entry,
      SteAbsoluteLineAddress = AbsoluteLineAddress entry,
      SteLineAddress = LineAddress entry,
      NameSymbolLength = of_nat (length (Name entry)),
      StePathLength = of_nat (length (File entry)),
      LineNumber64 = ucast (Line entry),
      IsRecursion = of_bool (Recursion entry),
      SteRecursionCount = RecursionCount entry,
      InstructionCount = of_nat (length (Instructions entry))\<rparr>"

definition Write_entry :: "ModuleCollection \<Rightarrow> DebugStackTraceEntry \<Rightarrow> written list" where
  "Write_entry collection entry =
     [W_StackTraceEntry (stackTraceEntry collection entry)] @
     Write_string (Name entry) False @ Write_wstring (File entry) False @
     concat (map Write_instruction (Instructions entry))"

definition Write_trace :: "DebugStackTrace \<Rightarrow> ModuleCollection \<Rightarrow> written list" where
  "Write_trace trace collection =
     [W_StackTrace
        \<lparr>StSignature = signature ''STCK'', MaxRecursion = m_MaxRecursion trace,
         MaxInstructions = m_MaxInstruction trace,
         TraceEntries = of_nat (length (m_Trace trace))\<rparr>] @
     concat (map (Write_entry collection) (m_Trace trace))"

text \<open>
  \<open>Write(info, pi, context, trace, collection, isBreak)\<close>: the exception entry, the
  thread context, the stack trace.
\<close>

definition exceptionEventEntry ::
  "u64 \<Rightarrow> EXCEPTION_DEBUG_INFO \<Rightarrow> PROCESS_INFORMATION \<Rightarrow> DebugContext \<Rightarrow> ModuleCollection
     \<Rightarrow> bool \<Rightarrow> ExceptionEventEntry" where
  "exceptionEventEntry now info pi c collection isBreak =
     (let event = ExceptionEventEntry_new now pi (ExceptionAddress info) (ExceptionCode info)
                    (\<not> Is64 c) isBreak (dwFirstChance info \<noteq> 0)
      in case GetModuleAtAddress collection (ExceptionAddress info) of
           Some m \<Rightarrow>
             event\<lparr>ExModuleIndex := word_of_int (GetIndex collection (Path m)),
                   EventOffset := ExceptionAddress info - Base m\<rparr>
         | None \<Rightarrow> event\<lparr>ExModuleIndex := - 1, EventOffset := 0\<rparr>)"

definition Write_exception ::
  "u64 \<Rightarrow> EXCEPTION_DEBUG_INFO \<Rightarrow> PROCESS_INFORMATION \<Rightarrow> DebugContext \<Rightarrow> DebugStackTrace
     \<Rightarrow> ModuleCollection \<Rightarrow> bool \<Rightarrow> written list" where
  "Write_exception now info pi c trace collection isBreak =
     [W_ExceptionEventEntry (exceptionEventEntry now info pi c collection isBreak)] @
     Write_context c @ Write_trace trace collection"

text \<open>
  What each handler of the writer writes for a debug event, in order. \<open>OnCreateProcess\<close>
  dereferences the module found at the image base without a test: \<open>None\<close> is the crash
  when there is none. \<open>now\<close> is the system clock read by the \<open>EventEntry\<close> constructor.
\<close>

fun Writer_event :: "u64 \<Rightarrow> handler_call \<Rightarrow> written list option" where
  "Writer_event now (OnBreakpointHit time info pi c trace collection) =
     Some (Write_exception now info pi c trace collection True)"
| "Writer_event now (OnException time info pi firstChance name c trace collection) =
     Some (Write_exception now info pi c trace collection False)"
| "Writer_event now (OnCreateProcess time info pi path collection) =
     (case GetModuleAtAddress collection (lpBaseOfImage info) of
        None \<Rightarrow> None
      | Some m \<Rightarrow>
          Some ([W_CreateProcessEventEntry
                   (CreateProcessEventEntry_new now pi path (Base m) (Size m))] @
                Write_wstring path False))"
| "Writer_event now (OnCreateThread time lpStartAddress pi collection) =
     (let e = CreateThreadEventEntry_new now pi lpStartAddress
      in Some [W_CreateThreadEventEntry
           (case GetModuleAtAddress collection lpStartAddress of
              Some m \<Rightarrow>
                e\<lparr>CtModuleIndex := word_of_int (GetIndex collection (Path m)),
                   EntryPointOffset := lpStartAddress - Base m\<rparr>
            | None \<Rightarrow> e\<lparr>CtModuleIndex := - 1, EntryPointOffset := 0\<rparr>)])"
| "Writer_event now (OnExitProcess time dwExitCode pi collection) =
     Some [W_ExitProcessEventEntry (ExitProcessEventEntry_new now pi dwExitCode)]"
| "Writer_event now (OnExitThread time dwExitCode pi collection) =
     Some [W_ExitThreadEventEntry (ExitThreadEventEntry_new now pi dwExitCode)]"
| "Writer_event now (OnDllLoad time lpBaseOfDll pi path moduleIndex collection) =
     (let moduleSize = (case GetModuleAtAddress collection lpBaseOfDll of
                          Some m \<Rightarrow> Size m | None \<Rightarrow> 0)
      in Some ([W_DllLoadEventEntry
                  (DllLoadEventEntry_new now pi (word_of_int moduleIndex) lpBaseOfDll moduleSize
                     (of_nat (length path)))] @
               Write_wstring path False))"
| "Writer_event now (OnDebugString time info pi string) =
     Some ([W_DebugStringEventEntry
              (DebugStringEventEntry_new now pi 0 (of_nat (length string)))] @
           Write_string string False)"
| "Writer_event now (OnDebugStringW time info pi string) =
     Some ([W_DebugStringEventEntry
              (DebugStringEventEntry_new now pi 1 (of_nat (length string)))] @
           Write_wstring string False)"
| "Writer_event now (OnRip time info pi errorMessage) =
     Some [W_RipEventEntry (RipEventEntry_new now pi (dwType info) (dwError info))]"
| "Writer_event now (OnDllUnload time lpBaseOfDll pi path moduleIndex collection) =
     Some [W_DllUnloadEventEntry (DllUnloadEventEntry_new now pi lpBaseOfDll)]"
| "Writer_event now (OnInitialization time p) = Some []"
| "Writer_event now (OnModuleCollectionComplete time collection) = Some []"

text \<open>
  \<open>OnModuleCollectionComplete\<close>: seek to the start, write the header, seek to the end.
  The header goes through \<open>template Write(T s)\<close>, which writes a copy of it and then
  updates the checksum member of \<open>m_Header\<close> with the bytes written.
\<close>

definition Writer_OnModuleCollectionComplete ::
  "WriterDebuggerEventHandler \<Rightarrow> WriterDebuggerEventHandler" where
  "Writer_OnModuleCollectionComplete w =
     (let w1 = Write_object (W_FileHeader (m_Header w)) (w\<lparr>m_StreamPos := 0\<rparr>)
      in w1\<lparr>m_StreamPos := length (m_Stream w1)\<rparr>)"

text \<open>The writer as an event handler: one call, and a sequence of calls each with the
  clock value read while it is handled.\<close>

fun Writer_call ::
  "u64 \<Rightarrow> handler_call \<Rightarrow> WriterDebuggerEventHandler \<Rightarrow> WriterDebuggerEventHandler option" where
  "Writer_call now (OnInitialization time p) w = Some (Writer_OnInitialization now p w)"
| "Writer_call now (OnModuleCollectionComplete time collection) w =
     Some (Writer_OnModuleCollectionComplete w)"
| "Writer_call now call w = map_option (\<lambda>xs. Write_objects xs w) (Writer_event now call)"

fun Writer_calls ::
  "(u64 \<times> handler_call) list \<Rightarrow> WriterDebuggerEventHandler \<Rightarrow> WriterDebuggerEventHandler option" where
  "Writer_calls [] w = Some w"
| "Writer_calls ((now, call) # rest) w =
     (case Writer_call now call w of None \<Rightarrow> None | Some w' \<Rightarrow> Writer_calls rest w')"

text \<open>
  A whole session of the writer: \<open>OnInitialization\<close>, the debug events, and
  \<open>OnModuleCollectionComplete\<close>; the result is the log file.
\<close>

definition Writer_session ::
  "u64 \<Rightarrow> Process \<Rightarrow> (u64 \<times> handler_call) list \<Rightarrow> bytes option" where
  "Writer_session start p events =
     (case Writer_calls events (Writer_OnInitialization start p WriterDebuggerEventHandler_new) of
        None \<Rightarrow> None
      | Some w \<Rightarrow> Some (m_Stream (Writer_OnModuleCollectionComplete w)))"

section \<open>BinaryLogPlayer\<close>

text \<open>
  What ends a replay early: a \<open>std::runtime_error\<close> of the player (named by what its
  message says), the \<open>std::length_error\<close> of a string resized beyond \<open>max_size()\<close>,
  \<open>exit(0)\<close> chosen at a break prompt, or a prompt that waits for a key that never comes.
\<close>

datatype error =
    VersionMismatch
  | FileDamaged
  | NotAllDataRead
  | UnexpectedFrame
  | UnexpectedEventType u32
  | UnexpectedEnd
  | StackTraceExpected
  | LengthError

datatype stop = Throw error | Exit | AwaitKey

text \<open>The options of \<open>Hindsight::State\<close> that the player reads.\<close>

record State =
  NoSanityCheck :: bool
  BreakOnBreakpoints :: bool
  BreakOnExceptions :: bool
  BreakOnFirstChanceOnly :: bool
  ReplayEventFilter :: "string list"

text \<open>
  The player: the input stream (content and get position), the members of the class, the
  keys the console will deliver to \<open>_getch()\<close>, and for every handler added the calls it
  has received so far.
\<close>

record BinaryLogPlayer =
  p_Stream :: bytes
  p_StreamPos :: nat
  m_StreamSize :: nat
  m_State :: State
  m_ShouldFilter :: bool
  m_Filter :: "string set"
  p_Header :: FileHeader
  m_Crc32 :: u32
  m_Handlers :: "handler_call list list"
  m_PlayerModules :: ModuleCollection
  console :: bytes

text \<open>What the player takes from its surroundings: the system's message for an error
  code, the table of exception names, and the clock at the end of the replay.\<close>

record player_env =
  GetErrorMessageW :: "u32 \<Rightarrow> wstring"
  ExceptionNames :: "u32 \<rightharpoonup> wstring"
  time_now :: u64

type_synonym 'a player = "BinaryLogPlayer \<Rightarrow> (stop + 'a) \<times> BinaryLogPlayer"

definition returnP :: "'a \<Rightarrow> 'a player" where
  "returnP x st = (Inr x, st)"

definition throwP :: "error \<Rightarrow> 'a player" where
  "throwP e st = (Inl (Throw e), st)"

definition bindP :: "'a player \<Rightarrow> ('a \<Rightarrow> 'b player) \<Rightarrow> 'b player" where
  "bindP m f st = (case m st of (Inl e, st') \<Rightarrow> (Inl e, st') | (Inr x, st') \<Rightarrow> f x st')"

definition thenP :: "'a player \<Rightarrow> 'b player \<Rightarrow> 'b player" where
  "thenP m k = bindP m (\<lambda>_. k)"

definition getP :: "BinaryLogPlayer player" where
  "getP st = (Inr st, st)"

definition modifyP :: "(BinaryLogPlayer \<Rightarrow> BinaryLogPlayer) \<Rightarrow> unit player" where
  "modifyP f st = (Inr (), f st)"

text \<open>\<open>SizeLeft\<close>, \<open>AssertSizeLeft\<close> and \<open>Read(char* buffer, size_t size, bool updateChecksum)\<close>;
  the get position never passes the end of the stream.\<close>

definition SizeLeft :: "BinaryLogPlayer \<Rightarrow> nat" where
  "SizeLeft st = m_StreamSize st - p_StreamPos st"

definition AssertSizeLeft :: "nat \<Rightarrow> unit player" where
  "AssertSizeLeft required st =
     (if SizeLeft st < required then throwP UnexpectedEnd st else returnP () st)"

definition Read :: "nat \<Rightarrow> bool \<Rightarrow> bytes player" where
  "Read n updateChecksum =
     thenP (AssertSizeLeft n)
       (\<lambda>st. let buffer = take n (drop (p_StreamPos st) (p_Stream st));
                 st1 = st\<lparr>p_StreamPos := p_StreamPos st + n\<rparr>
             in (Inr buffer,
                 if updateChecksum then st1\<lparr>m_Crc32 := Crc32_Update buffer (m_Crc32 st1)\<rparr>
                 else st1))"

text \<open>\<open>m_Stream.seekg(off, std::ios::cur)\<close>.\<close>

definition seekg_cur :: "int \<Rightarrow> unit player" where
  "seekg_cur off = modifyP (\<lambda>st. st\<lparr>p_StreamPos := nat (int (p_StreamPos st) + off)\<rparr>)"

text \<open>
  \<open>Read(std::string& result, int64_t size)\<close>: a size of -1 means that the length is read
  first, as a \<open>uint32_t\<close>. The string is resized, which fails beyond \<open>max_size()\<close>, and
  filled. The wide twin reads two bytes per character.
\<close>

definition string_max_size :: nat where "string_max_size = 2 ^ 63 - 1"
definition wstring_max_size :: nat where "wstring_max_size = 2 ^ 63 - 2"

definition Read_size :: "u64 \<Rightarrow> nat player" where
  "Read_size sz =
     (if sz = - 1 then bindP (Read 4 True) (\<lambda>readSize. returnP (unat (word_le readSize :: u32)))
      else returnP (unat sz))"

definition Read_string :: "u64 \<Rightarrow> bytes player" where
  "Read_string sz =
     bindP (Read_size sz) (\<lambda>n.
       if n > string_max_size then throwP LengthError else Read n True)"

definition Read_wstring :: "u64 \<Rightarrow> wstring player" where
  "Read_wstring sz =
     bindP (Read_size sz) (\<lambda>n.
       if n > wstring_max_size then throwP LengthError
       else bindP (Read (n * 2) True) (\<lambda>data. returnP (bytes_wchars data)))"

text \<open>\<open>Read(std::vector<std::string>& result, size_t count)\<close>.\<close>

fun Read_strings :: "nat \<Rightarrow> bytes list player" where
  "Read_strings 0 = returnP []"
| "Read_strings (Suc count) =
     bindP (Read_string (- 1)) (\<lambda>s. bindP (Read_strings count) (\<lambda>rest. returnP (s # rest)))"

text \<open>Every handler is invoked with the call, in the order the handlers were added.\<close>

definition emit :: "handler_call \<Rightarrow> unit player" where
  "emit call = modifyP (\<lambda>st. st\<lparr>m_Handlers := map (\<lambda>received. received @ [call]) (m_Handlers st)\<rparr>)"

text \<open>\<open>_strnicmp(a, b, 4)\<close> on four characters neither of which ends \<open>b\<close>: not 0 iff they
  differ after lower-casing.\<close>

definition tolower :: "u8 \<Rightarrow> u8" where
  "tolower c = (if 0x41 \<le> c \<and> c \<le> 0x5A then c + 0x20 else c)"

definition strnicmp_differs :: "bytes \<Rightarrow> string \<Rightarrow> bool" where
  "strnicmp_differs a b \<longleftrightarrow> map tolower a \<noteq> map tolower (astr b)"

text \<open>\<open>HandleBreakpointOptions\<close>: keys are read until one is \<open>c\<close> or \<open>a\<close>.\<close>

fun HandleBreakpointOptions_keys :: "bytes \<Rightarrow> stop option \<times> bytes" where
  "HandleBreakpointOptions_keys [] = (Some AwaitKey, [])"
| "HandleBreakpointOptions_keys (key # keys) =
     (if tolower key = 0x63 then (None, keys)
      else if tolower key = 0x61 then (Some Exit, keys)
      else HandleBreakpointOptions_keys keys)"

definition HandleBreakpointOptions :: "unit player" where
  "HandleBreakpointOptions st =
     (case HandleBreakpointOptions_keys (console st) of
        (None, keys) \<Rightarrow> (Inr (), st\<lparr>console := keys\<rparr>)
      | (Some halt, keys) \<Rightarrow> (Inl halt, st\<lparr>console := keys\<rparr>))"

text \<open>The stack trace structures with their strings and children read in.\<close>

record StackTraceEntryInstructionConcrete = StackTraceEntryInstruction +
  Hex :: bytes
  Mnemonic :: bytes
  OperandsText :: bytes

record StackTraceEntryConcrete = StackTraceEntry +
  ConcreteName :: bytes
  ConcretePath :: wstring
  ConcreteInstructions :: "StackTraceEntryInstructionConcrete list"

definition Read_instruction :: "StackTraceEntryInstructionConcrete player" where
  "Read_instruction =
     bindP (Read sizeof_StackTraceEntryInstruction True) (\<lambda>raw.
       let i = StackTraceEntryInstruction_of raw in
       bindP (Read_string (HexSize i)) (\<lambda>hex.
       bindP (Read_string (MnemonicSize i)) (\<lambda>mnemonic.
       bindP (Read_string (OperandsSize i)) (\<lambda>operands.
         returnP (StackTraceEntryInstruction.extend i
           (StackTraceEntryInstructionConcrete.fields hex mnemonic operands))))))"

fun Read_instructions :: "nat \<Rightarrow> StackTraceEntryInstructionConcrete list player" where
  "Read_instructions 0 = returnP []"
| "Read_instructions (Suc n) =
     bindP Read_instruction (\<lambda>i. bindP (Read_instructions n) (\<lambda>rest. returnP (i # rest)))"

definition Read_entry :: "StackTraceEntryConcrete player" where
  "Read_entry =
     bindP (Read sizeof_StackTraceEntry True) (\<lambda>raw.
       let e = StackTraceEntry_of raw in
       bindP (Read_string (NameSymbolLength e)) (\<lambda>name.
       bindP (Read_wstring (StePathLength e)) (\<lambda>path.
       bindP (Read_instructions (unat (InstructionCount e))) (\<lambda>instructions.
         returnP (StackTraceEntry.extend e
           (StackTraceEntryConcrete.fields name path instructions))))))"

fun Read_entries :: "nat \<Rightarrow> StackTraceEntryConcrete list player" where
  "Read_entries 0 = returnP []"
| "Read_entries (Suc n) =
     bindP Read_entry (\<lambda>e. bindP (Read_entries n) (\<lambda>rest. returnP (e # rest)))"

text \<open>The constructor of \<open>DebugStackTrace\<close> from a trace read from a log.\<close>

definition DebugStackTraceEntry_of ::
  "ModuleCollection \<Rightarrow> StackTraceEntryConcrete \<Rightarrow> DebugStackTraceEntry" where
  "DebugStackTraceEntry_of collection entryConcrete =
     \<lparr>EntryModule = (case GetModuleAtAddress collection (SteAddress entryConcrete) of
                       Some m \<Rightarrow> m | None \<Rightarrow> Module_default),
      ModuleBase = SteModuleBase entryConcrete,
      Address = SteAddress entryConcrete,
      AbsoluteAddress = SteAbsoluteAddress entryConcrete,
      AbsoluteLineAddress = SteAbsoluteLineAddress entryConcrete,
      LineAddress = SteLineAddress entryConcrete,
      Name = ConcreteName entryConcrete,
      File = ConcretePath entryConcrete,
      Line = ucast (LineNumber64 entryConcrete),
      Recursion = (IsRecursion entryConcrete \<noteq> 0),
      RecursionCount = SteRecursionCount entryConcrete,
      Instructions =
        map (\<lambda>i. \<lparr>Is64BitAddress = (SiIs64BitAddress i \<noteq> 0), Offset = SiOffset i,
                  InstrSize = SiSize i, InstructionHex = Hex i,
                  InstructionMnemonic = Mnemonic i, Operands = OperandsText i\<rparr>)
            (ConcreteInstructions entryConcrete)\<rparr>"

definition DebugStackTrace_of ::
  "DebugContext \<Rightarrow> ModuleCollection \<Rightarrow> StackTrace \<Rightarrow> StackTraceEntryConcrete list
     \<Rightarrow> DebugStackTrace" where
  "DebugStackTrace_of c collection trace entries =
     \<lparr>m_ContextIs64 = Is64 c, m_TraceModules = collection,
      m_Trace = map (DebugStackTraceEntry_of collection) entries,
      m_MaxRecursion = MaxRecursion trace, m_MaxInstruction = MaxInstructions trace\<rparr>"

text \<open>\<open>EmitException\<close>. The thread context is read first: the 32-bit register set when
  the \<open>Wow64\<close> byte of the entry is not 0, the 64-bit register set otherwise.\<close>

definition Read_context :: "ExceptionEventEntry \<Rightarrow> DebugContext player" where
  "Read_context frame =
     (if Wow64 frame \<noteq> 0
      then bindP (Read sizeof_WOW64_CONTEXT True) (\<lambda>ctx32.
             returnP \<lparr>IsWow64 = True, X64 = [], X86 = ctx32\<rparr>)
      else bindP (Read sizeof_CONTEXT True) (\<lambda>ctx64.
             returnP \<lparr>IsWow64 = False, X64 = ctx64, X86 = []\<rparr>))"

definition EmitException :: "player_env \<Rightarrow> u64 \<Rightarrow> ExceptionEventEntry \<Rightarrow> unit player" where
  "EmitException env time frame =
     (let pi = ProcessInformation frame;
          info = \<lparr>ExceptionCode = EventCode frame, ExceptionAddress = EventAddress frame,
                  ExceptionInformation = [], dwFirstChance = ucast (IsFirstChance frame)\<rparr>
      in
      bindP (Read_context frame) (\<lambda>c.
      bindP (Read 4 False) (\<lambda>sig.
        if strnicmp_differs sig ''STCK'' then throwP StackTraceExpected else
      thenP (seekg_cur (- 4)) (
      bindP (Read sizeof_StackTrace True) (\<lambda>raw.
        let traceConcrete = StackTrace_of raw in
      bindP (Read_entries (unat (TraceEntries traceConcrete))) (\<lambda>entries.
      bindP getP (\<lambda>st.
        if m_ShouldFilter st \<and>
           ((IsBreakpoint frame \<noteq> 0 \<and> ''breakpoint'' \<notin> m_Filter st) \<or>
            (IsBreakpoint frame = 0 \<and> ''exception'' \<notin> m_Filter st))
        then returnP ()
        else
          let trace = DebugStackTrace_of c (m_PlayerModules st) traceConcrete entries in
          if IsBreakpoint frame \<noteq> 0 then
            thenP (emit (OnBreakpointHit time info pi c trace (m_PlayerModules st)))
              (if BreakOnBreakpoints (m_State st) then HandleBreakpointOptions
               else returnP ())
          else
            thenP (emit (OnException time info pi (IsFirstChance frame \<noteq> 0)
                     (case ExceptionNames env (EventCode frame) of
                        Some name \<Rightarrow> name | None \<Rightarrow> [])
                     c trace (m_PlayerModules st)))
              (if BreakOnExceptions (m_State st) \<and>
                  (\<not> BreakOnFirstChanceOnly (m_State st) \<or> IsFirstChance frame \<noteq> 0)
               then HandleBreakpointOptions else returnP ()))))))))"

text \<open>The emitters of the other events.\<close>

definition EmitCreateProcess :: "u64 \<Rightarrow> CreateProcessEventEntry \<Rightarrow> unit player" where
  "EmitCreateProcess time frame =
     bindP (Read_wstring (CpPathLength frame)) (\<lambda>path.
     thenP (modifyP (\<lambda>st. st\<lparr>m_PlayerModules :=
              Load path (CpModuleBase frame) (CpModuleSize frame) (m_PlayerModules st)\<rparr>)) (
     bindP getP (\<lambda>st.
       if m_ShouldFilter st \<and> ''create_process'' \<notin> m_Filter st then returnP ()
       else emit (OnCreateProcess time
              \<lparr>CpiProcess = hProcess (ProcessInformation frame),
               CpiThread = hThread (ProcessInformation frame),
               lpBaseOfImage = CpModuleBase frame\<rparr>
              (ProcessInformation frame) path (m_PlayerModules st)))))"

definition EmitCreateThread :: "u64 \<Rightarrow> CreateThreadEventEntry \<Rightarrow> unit player" where
  "EmitCreateThread time frame =
     bindP getP (\<lambda>st.
       if m_ShouldFilter st \<and> ''create_thread'' \<notin> m_Filter st then returnP ()
       else emit (OnCreateThread time (EntryPointAddress frame) (ProcessInformation frame)
              (m_PlayerModules st)))"

definition EmitDllLoad :: "u64 \<Rightarrow> DllLoadEventEntry \<Rightarrow> unit player" where
  "EmitDllLoad time frame =
     bindP (Read_wstring (ModulePathSize frame)) (\<lambda>path.
     thenP (modifyP (\<lambda>st. st\<lparr>m_PlayerModules :=
              Load path (DlModuleBase frame) (DlModuleSize frame) (m_PlayerModules st)\<rparr>)) (
     bindP getP (\<lambda>st.
       if m_ShouldFilter st \<and> ''load_dll'' \<notin> m_Filter st then returnP ()
       else emit (OnDllLoad time (DlModuleBase frame) (ProcessInformation frame) path
              (GetIndex (m_PlayerModules st) path) (m_PlayerModules st)))))"

definition EmitExitProcess :: "u64 \<Rightarrow> ExitProcessEventEntry \<Rightarrow> unit player" where
  "EmitExitProcess time frame =
     bindP getP (\<lambda>st.
       if m_ShouldFilter st \<and> ''exit_process'' \<notin> m_Filter st then returnP ()
       else emit (OnExitProcess time (EpExitCode frame) (ProcessInformation frame)
              (m_PlayerModules st)))"

definition EmitExitThread :: "u64 \<Rightarrow> ExitThreadEventEntry \<Rightarrow> unit player" where
  "EmitExitThread time frame =
     bindP getP (\<lambda>st.
       if m_ShouldFilter st \<and> ''exit_thread'' \<notin> m_Filter st then returnP ()
       else emit (OnExitThread time (EtExitCode frame) (ProcessInformation frame)
              (m_PlayerModules st)))"

definition EmitDebugString :: "u64 \<Rightarrow> DebugStringEventEntry \<Rightarrow> unit player" where
  "EmitDebugString time frame =
     (let info = \<lparr>fUnicode = ucast (IsUnicode frame), nDebugStringLength = ucast (Length frame)\<rparr>
      in if IsUnicode frame \<noteq> 0 then
           bindP (Read_wstring (Length frame)) (\<lambda>message.
           bindP getP (\<lambda>st.
             if m_ShouldFilter st \<and> ''debug'' \<notin> m_Filter st then returnP ()
             else emit (OnDebugStringW time info (ProcessInformation frame) message)))
         else
           bindP (Read_string (Length frame)) (\<lambda>message.
           bindP getP (\<lambda>st.
             if m_ShouldFilter st \<and> ''debug'' \<notin> m_Filter st then returnP ()
             else emit (OnDebugString time info (ProcessInformation frame) message))))"

definition EmitRip :: "player_env \<Rightarrow> u64 \<Rightarrow> RipEventEntry \<Rightarrow> unit player" where
  "EmitRip env time frame =
     bindP getP (\<lambda>st.
       if m_ShouldFilter st \<and> ''rip'' \<notin> m_Filter st then returnP ()
       else emit (OnRip time \<lparr>dwError = RipError frame, dwType = RipType frame\<rparr>
              (ProcessInformation frame) (GetErrorMessageW env (RipError frame))))"

text \<open>\<open>EmitDllUnload\<close>: the handlers are invoked first (unless the filter leaves the
  event out), then the module is unloaded from the collection of the player.\<close>

definition EmitDllUnload :: "u64 \<Rightarrow> DllUnloadEventEntry \<Rightarrow> unit player" where
  "EmitDllUnload time frame =
     thenP
       (bindP getP (\<lambda>st.
          if \<not> m_ShouldFilter st \<or> (m_ShouldFilter st \<and> ''unload_dll'' \<in> m_Filter st) then
            (let path = Get (m_PlayerModules st) (DuModuleBase frame)
             in emit (OnDllUnload time (DuModuleBase frame) (ProcessInformation frame) path
                  (GetIndex (m_PlayerModules st) path) (m_PlayerModules st)))
          else returnP ()))
       (modifyP (\<lambda>st. st\<lparr>m_PlayerModules := Unload (DuModuleBase frame) (m_PlayerModules st)\<rparr>))"

text \<open>
  \<open>Next\<close>: stop when fewer than four bytes are left; look at the signature and at the
  base entry without consuming them; read the entry of the type the event id names and
  emit it.
\<close>

definition Next :: "player_env \<Rightarrow> bool player" where
  "Next env =
     bindP getP (\<lambda>st0.
       if SizeLeft st0 < 4 then returnP False else
     bindP (Read 4 False) (\<lambda>sig.
       if strnicmp_differs sig ''EVNT'' then throwP UnexpectedFrame else
     thenP (seekg_cur (- 4)) (
     bindP (Read sizeof_EventEntry False) (\<lambda>raw.
     thenP (seekg_cur (- int sizeof_EventEntry)) (
       let e = EventEntry_of raw in
       thenP
         (if EventId e = EXCEPTION_DEBUG_EVENT then
            bindP (Read sizeof_ExceptionEventEntry True) (\<lambda>d.
              EmitException env (Time e) (ExceptionEventEntry_of d))
          else if EventId e = CREATE_PROCESS_DEBUG_EVENT then
            bindP (Read sizeof_CreateProcessEventEntry True) (\<lambda>d.
              EmitCreateProcess (Time e) (CreateProcessEventEntry_of d))
          else if EventId e = CREATE_THREAD_DEBUG_EVENT then
            bindP (Read sizeof_CreateThreadEventEntry True) (\<lambda>d.
              EmitCreateThread (Time e) (CreateThreadEventEntry_of d))
          else if EventId e = EXIT_PROCESS_DEBUG_EVENT then
            bindP (Read sizeof_ExitProcessEventEntry True) (\<lambda>d.
              EmitExitProcess (Time e) (ExitProcessEventEntry_of d))
          else if EventId e = EXIT_THREAD_DEBUG_EVENT then
            bindP (Read sizeof_ExitThreadEventEntry True) (\<lambda>d.
              EmitExitThread (Time e) (ExitThreadEventEntry_of d))
          else if EventId e = LOAD_DLL_DEBUG_EVENT then
            bindP (Read sizeof_DllLoadEventEntry True) (\<lambda>d.
              EmitDllLoad (Time e) (DllLoadEventEntry_of d))
          else if EventId e = OUTPUT_DEBUG_STRING_EVENT then
            bindP (Read sizeof_DebugStringEventEntry True) (\<lambda>d.
              EmitDebugString (Time e) (DebugStringEventEntry_of d))
          else if EventId e = RIP_EVENT then
            bindP (Read sizeof_RipEventEntry True) (\<lambda>d.
              EmitRip env (Time e) (RipEventEntry_of d))
          else if EventId e = UNLOAD_DLL_DEBUG_EVENT then
            bindP (Read sizeof_DllUnloadEventEntry True) (\<lambda>d.
              EmitDllUnload (Time e) (DllUnloadEventEntry_of d))
          else throwP (UnexpectedEventType (EventId e)))
         (returnP True))))))"

subsection \<open>How the player moves through the stream\<close>

text \<open>
  \<open>tracks m\<close>: whatever \<open>m\<close> returns, it leaves the stream, its size and the header
  alone and never moves the get position backwards or past the end, and when it returns
  normally the running checksum has been updated with exactly the bytes between the old
  and the new position. \<open>advances P m\<close>: when \<open>m\<close> returns a value satisfying \<open>P\<close>, the
  position has moved forward.
\<close>

definition tracks :: "'a player \<Rightarrow> bool" where
  "tracks m \<longleftrightarrow>
     (\<forall>st r st'. m st = (r, st') \<longrightarrow>
        p_Stream st' = p_Stream st \<and> m_StreamSize st' = m_StreamSize st \<and>
        p_Header st' = p_Header st \<and>
        p_StreamPos st \<le> p_StreamPos st' \<and>
        (p_StreamPos st \<le> m_StreamSize st \<longrightarrow> p_StreamPos st' \<le> m_StreamSize st) \<and>
        (\<forall>x. r = Inr x \<longrightarrow>
           m_Crc32 st' =
             Crc32_Update (take (p_StreamPos st' - p_StreamPos st)
                             (drop (p_StreamPos st) (p_Stream st))) (m_Crc32 st)))"

definition advances :: "('a \<Rightarrow> bool) \<Rightarrow> 'a player \<Rightarrow> bool" where
  "advances P m \<longleftrightarrow>
     (\<forall>st x st'. m st = (Inr x, st') \<longrightarrow> P x \<longrightarrow> p_StreamPos st < p_StreamPos st')"

named_theorems tracks_intros

lemma tracks_returnP [tracks_intros]: "tracks (returnP x)"
  by (simp add: tracks_def returnP_def)

lemma tracks_throwP [tracks_intros]: "tracks (throwP e)"
  by (simp add: tracks_def throwP_def)

lemma tracks_getP [tracks_intros]: "tracks getP"
  by (simp add: tracks_def getP_def)

lemma take_drop_split:
  "a \<le> b \<Longrightarrow> b \<le> c \<Longrightarrow>
   take (b - a) (drop a s) @ take (c - b) (drop b s) = take (c - a) (drop a (s::'a list))"
proof -
  assume h: "a \<le> b" "b \<le> c"
  have "take (c - a) (drop a s) = take ((b - a) + (c - b)) (drop a s)" using h by simp
  also have "\<dots> = take (b - a) (drop a s) @ take (c - b) (drop (b - a) (drop a s))"
    by (rule take_add)
  also have "drop (b - a) (drop a s) = drop b s" using h by simp
  finally show ?thesis by simp
qed

lemma tracks_bindP [tracks_intros]:
  assumes "tracks m" and "\<And>x. tracks (f x)"
  shows "tracks (bindP m f)"
  unfolding tracks_def
proof (intro allI impI)
  fix st r st' assume run: "bindP m f st = (r, st')"
  obtain r1 st1 where m: "m st = (r1, st1)" by (cases "m st")
  note t1 = assms(1)[unfolded tracks_def, rule_format, OF m]
  show "p_Stream st' = p_Stream st \<and> m_StreamSize st' = m_StreamSize st \<and>
        p_Header st' = p_Header st \<and>
        p_StreamPos st \<le> p_StreamPos st' \<and>
        (p_StreamPos st \<le> m_StreamSize st \<longrightarrow> p_StreamPos st' \<le> m_StreamSize st) \<and>
        (\<forall>x. r = Inr x \<longrightarrow>
           m_Crc32 st' =
             Crc32_Update (take (p_StreamPos st' - p_StreamPos st)
                             (drop (p_StreamPos st) (p_Stream st))) (m_Crc32 st))"
  proof (cases r1)
    case (Inl e)
    then have "r = Inl e" "st' = st1" using run m by (simp_all add: bindP_def)
    then show ?thesis using t1 by simp
  next
    case (Inr x)
    then have f: "f x st1 = (r, st')" using run m by (simp add: bindP_def)
    note t2 = assms(2)[unfolded tracks_def, rule_format, OF f]
    have c1: "m_Crc32 st1 = Crc32_Update (take (p_StreamPos st1 - p_StreamPos st)
                             (drop (p_StreamPos st) (p_Stream st))) (m_Crc32 st)"
      using t1 Inr by simp
    show ?thesis
    proof (intro conjI allI impI)
      fix y assume "r = Inr y"
      then have "m_Crc32 st' = Crc32_Update (take (p_StreamPos st' - p_StreamPos st1)
                             (drop (p_StreamPos st1) (p_Stream st))) (m_Crc32 st1)"
        using t2 t1 by simp
      then show "m_Crc32 st' = Crc32_Update (take (p_StreamPos st' - p_StreamPos st)
                             (drop (p_StreamPos st) (p_Stream st))) (m_Crc32 st)"
        using t1 t2 take_drop_split[of "p_StreamPos st" "p_StreamPos st1" "p_StreamPos st'" "p_Stream st"]
        by (simp add: c1 Crc32_Update_append[symmetric])
    qed (use t1 t2 in auto)
  qed
qed

lemma tracks_thenP [tracks_intros]: "tracks m \<Longrightarrow> tracks k \<Longrightarrow> tracks (thenP m k)"
  by (simp add: thenP_def tracks_bindP)

lemma tracks_if [tracks_intros]: "tracks a \<Longrightarrow> tracks b \<Longrightarrow> tracks (if c then a else b)"
  by simp

lemma tracks_AssertSizeLeft [tracks_intros]: "tracks (AssertSizeLeft n)"
  by (simp add: tracks_def AssertSizeLeft_def returnP_def throwP_def)

lemma tracks_Read [tracks_intros]: "tracks (Read n True)"
  by (auto simp add: tracks_def Read_def thenP_def bindP_def AssertSizeLeft_def returnP_def throwP_def SizeLeft_def Let_def split: if_splits)

lemma tracks_modifyP:
  assumes "\<And>st. p_Stream (f st) = p_Stream st \<and> m_StreamSize (f st) = m_StreamSize st \<and>
     p_Header (f st) = p_Header st \<and> p_StreamPos (f st) = p_StreamPos st \<and>
     m_Crc32 (f st) = m_Crc32 st"
  shows "tracks (modifyP f)"
  using assms by (simp add: tracks_def modifyP_def)

lemma tracks_emit [tracks_intros]: "tracks (emit call)"
  unfolding emit_def by (rule tracks_modifyP) simp

lemma tracks_modules [tracks_intros]:
  "tracks (modifyP (\<lambda>st. st\<lparr>m_PlayerModules := g st\<rparr>))"
  by (rule tracks_modifyP) simp

lemma tracks_HandleBreakpointOptions [tracks_intros]: "tracks HandleBreakpointOptions"
  by (auto simp add: tracks_def HandleBreakpointOptions_def split: prod.splits option.splits)

lemma tracks_let [tracks_intros]: "(\<And>x. tracks (f x)) \<Longrightarrow> tracks (let x = v in f x)"
  by simp

text \<open>Looking at the next bytes: a read without checksum, then a seek back over it.\<close>

lemma peek_run:
  "bindP (Read n False) (\<lambda>x. thenP (seekg_cur (- int n)) (k x)) st =
     (if SizeLeft st < n then (Inl (Throw UnexpectedEnd), st)
      else k (take n (drop (p_StreamPos st) (p_Stream st))) st)"
  by (simp add: Read_def thenP_def bindP_def AssertSizeLeft_def returnP_def throwP_def
      seekg_cur_def modifyP_def Let_def)

lemma tracks_peek [tracks_intros]:
  assumes "\<And>x. tracks (k x)"
  shows "tracks (bindP (Read n False) (\<lambda>x. thenP (seekg_cur (- int n)) (k x)))"
  using assms unfolding tracks_def peek_run
  by (auto split: if_splits)

lemma peek_test_run:
  "bindP (Read n False) (\<lambda>x. if c x then throwP e else thenP (seekg_cur (- int n)) (k x)) st =
     (if SizeLeft st < n then (Inl (Throw UnexpectedEnd), st)
      else if c (take n (drop (p_StreamPos st) (p_Stream st)))
      then (Inl (Throw e), st\<lparr>p_StreamPos := p_StreamPos st + n\<rparr>)
      else k (take n (drop (p_StreamPos st) (p_Stream st))) st)"
  by (simp add: Read_def thenP_def bindP_def AssertSizeLeft_def returnP_def throwP_def
      seekg_cur_def modifyP_def Let_def)

lemma tracks_peek_test [tracks_intros]:
  assumes "\<And>x. tracks (k x)"
  shows "tracks (bindP (Read n False)
           (\<lambda>x. if c x then throwP e else thenP (seekg_cur (- int n)) (k x)))"
  unfolding tracks_def
proof (intro allI impI)
  fix st r st'
  assume run: "bindP (Read n False)
      (\<lambda>x. if c x then throwP e else thenP (seekg_cur (- int n)) (k x)) st = (r, st')"
  show "p_Stream st' = p_Stream st \<and> m_StreamSize st' = m_StreamSize st \<and>
        p_Header st' = p_Header st \<and>
        p_StreamPos st \<le> p_StreamPos st' \<and>
        (p_StreamPos st \<le> m_StreamSize st \<longrightarrow> p_StreamPos st' \<le> m_StreamSize st) \<and>
        (\<forall>x. r = Inr x \<longrightarrow>
           m_Crc32 st' =
             Crc32_Update (take (p_StreamPos st' - p_StreamPos st)
                             (drop (p_StreamPos st) (p_Stream st))) (m_Crc32 st))"
    using run assms[unfolded tracks_def, rule_format, of _ st r st'] unfolding peek_test_run
    by (auto simp: SizeLeft_def split: if_splits)
qed

lemma tracks_Read_size [tracks_intros]: "tracks (Read_size sz)"
  unfolding Read_size_def by (intro tracks_intros)

lemma tracks_Read_string [tracks_intros]: "tracks (Read_string sz)"
  unfolding Read_string_def by (intro tracks_intros)

lemma tracks_Read_wstring [tracks_intros]: "tracks (Read_wstring sz)"
  unfolding Read_wstring_def by (intro tracks_intros)

lemma tracks_Read_strings [tracks_intros]: "tracks (Read_strings n)"
  by (induction n) (simp_all add: tracks_intros)

lemma tracks_Read_instruction [tracks_intros]: "tracks Read_instruction"
  unfolding Read_instruction_def by (intro tracks_intros)

lemma tracks_Read_instructions [tracks_intros]: "tracks (Read_instructions n)"
  by (induction n) (simp_all add: tracks_intros)

lemma tracks_Read_entry [tracks_intros]: "tracks Read_entry"
  unfolding Read_entry_def by (intro tracks_intros)

lemma tracks_Read_entries [tracks_intros]: "tracks (Read_entries n)"
  by (induction n) (simp_all add: tracks_intros)

lemma tracks_Read_context [tracks_intros]: "tracks (Read_context frame)"
  unfolding Read_context_def by (intro tracks_intros)

lemma int4: "(- 4 :: int) = - int 4" by simp

lemma tracks_EmitException [tracks_intros]: "tracks (EmitException env time frame)"
  unfolding EmitException_def int4 by (intro tracks_intros)

lemma tracks_EmitCreateProcess [tracks_intros]: "tracks (EmitCreateProcess time frame)"
  unfolding EmitCreateProcess_def by (intro tracks_intros)

lemma tracks_EmitCreateThread [tracks_intros]: "tracks (EmitCreateThread time frame)"
  unfolding EmitCreateThread_def by (intro tracks_intros)

lemma tracks_EmitDllLoad [tracks_intros]: "tracks (EmitDllLoad time frame)"
  unfolding EmitDllLoad_def by (intro tracks_intros)

lemma tracks_EmitExitProcess [tracks_intros]: "tracks (EmitExitProcess time frame)"
  unfolding EmitExitProcess_def by (intro tracks_intros)

lemma tracks_EmitExitThread [tracks_intros]: "tracks (EmitExitThread time frame)"
  unfolding EmitExitThread_def by (intro tracks_intros)

lemma tracks_EmitDebugString [tracks_intros]: "tracks (EmitDebugString time frame)"
  unfolding EmitDebugString_def by (intro tracks_intros)

lemma tracks_EmitRip [tracks_intros]: "tracks (EmitRip env time frame)"
  unfolding EmitRip_def by (intro tracks_intros)

lemma tracks_EmitDllUnload [tracks_intros]: "tracks (EmitDllUnload time frame)"
  unfolding EmitDllUnload_def by (intro tracks_intros)

lemma tracks_Next [tracks_intros]: "tracks (Next env)"
  unfolding Next_def int4 by (intro tracks_intros)

lemma tracksD_pos: "tracks m \<Longrightarrow> m st = (r, st') \<Longrightarrow> p_StreamPos st \<le> p_StreamPos st'"
  by (simp add: tracks_def)

named_theorems advances_intros

lemma advances_returnP_not [advances_intros]: "\<not> P x \<Longrightarrow> advances P (returnP x)"
  by (simp add: advances_def returnP_def)

lemma advances_throwP [advances_intros]: "advances P (throwP e)"
  by (simp add: advances_def throwP_def)

lemma advances_if [advances_intros]:
  "advances P a \<Longrightarrow> advances P b \<Longrightarrow> advances P (if c then a else b)"
  by simp

lemma advances_let [advances_intros]: "(\<And>x. advances P (f x)) \<Longrightarrow> advances P (let x = v in f x)"
  by simp

lemma advances_Read [advances_intros]: "0 < n \<Longrightarrow> advances P (Read n b)"
  by (auto simp add: advances_def Read_def thenP_def bindP_def AssertSizeLeft_def returnP_def
      throwP_def Let_def split: if_splits)

lemma advances_bindP_first:
  assumes "advances (\<lambda>_. True) m" and "\<And>x. tracks (f x)"
  shows "advances P (bindP m f)"
  unfolding advances_def
proof (intro allI impI)
  fix st x st' assume run: "bindP m f st = (Inr x, st')"
  obtain r1 st1 where m: "m st = (r1, st1)" by (cases "m st")
  with run obtain y where y: "r1 = Inr y" "f y st1 = (Inr x, st')"
    by (cases r1) (simp_all add: bindP_def)
  have "p_StreamPos st < p_StreamPos st1" using assms(1) m y by (simp add: advances_def)
  moreover have "p_StreamPos st1 \<le> p_StreamPos st'" using assms(2) y(2) by (rule tracksD_pos)
  ultimately show "p_StreamPos st < p_StreamPos st'" by simp
qed

lemma advances_bindP_second:
  assumes "tracks m" and "\<And>x. advances P (f x)"
  shows "advances P (bindP m f)"
  unfolding advances_def
proof (intro allI impI)
  fix st x st' assume run: "bindP m f st = (Inr x, st')" and P: "P x"
  obtain r1 st1 where m: "m st = (r1, st1)" by (cases "m st")
  with run obtain y where y: "r1 = Inr y" "f y st1 = (Inr x, st')"
    by (cases r1) (simp_all add: bindP_def)
  have "p_StreamPos st \<le> p_StreamPos st1" using assms(1) m by (rule tracksD_pos)
  moreover have "p_StreamPos st1 < p_StreamPos st'" using assms(2) y(2) P by (simp add: advances_def)
  ultimately show "p_StreamPos st < p_StreamPos st'" by simp
qed

lemma advances_thenP_first:
  "advances (\<lambda>_. True) m \<Longrightarrow> tracks k \<Longrightarrow> advances P (thenP m k)"
  by (simp add: thenP_def advances_bindP_first)

lemma advances_peek:
  assumes "\<And>x. advances P (k x)"
  shows "advances P (bindP (Read n False) (\<lambda>x. thenP (seekg_cur (- int n)) (k x)))"
  using assms unfolding advances_def peek_run by (auto split: if_splits)

lemma advances_peek_test:
  assumes "\<And>x. advances P (k x)"
  shows "advances P (bindP (Read n False)
           (\<lambda>x. if c x then throwP e else thenP (seekg_cur (- int n)) (k x)))"
  using assms unfolding advances_def peek_test_run by (auto split: if_splits)

lemmas sizeof_defs = sizeof_EventEntry_def sizeof_ExceptionEventEntry_def
  sizeof_CreateProcessEventEntry_def sizeof_CreateThreadEventEntry_def
  sizeof_ExitProcessEventEntry_def sizeof_ExitThreadEventEntry_def sizeof_DllLoadEventEntry_def
  sizeof_DebugStringEventEntry_def sizeof_RipEventEntry_def sizeof_DllUnloadEventEntry_def

lemma advances_Next: "advances (\<lambda>again. again) (Next env)"
  unfolding Next_def int4
  apply (rule advances_bindP_second, rule tracks_getP)
  apply (rule advances_if, rule advances_returnP_not, simp)
  apply (rule advances_peek_test)
  apply (rule advances_peek)
  apply (rule advances_let)
  apply (rule advances_thenP_first)
   apply (intro advances_if advances_throwP advances_bindP_first advances_Read tracks_intros)
           apply (simp_all add: sizeof_defs tracks_returnP)
  done

lemma Next_more:
  assumes "Next env st = (Inr True, st')"
  shows "SizeLeft st' < SizeLeft st"
proof -
  have pos: "p_StreamPos st < p_StreamPos st'"
    using advances_Next assms by (simp add: advances_def)
  have size: "m_StreamSize st' = m_StreamSize st"
    using tracks_Next assms by (simp add: tracks_def)
  have "\<not> SizeLeft st < 4"
  proof
    assume "SizeLeft st < 4"
    then have "Next env st = (Inr False, st)"
      by (simp add: Next_def bindP_def getP_def returnP_def)
    with assms show False by simp
  qed
  then show ?thesis using pos size by (simp add: SizeLeft_def)
qed


text \<open>
  The loop of \<open>Play\<close>, \<open>while (Next());\<close>. It terminates because every call of \<open>Next\<close>
  that returns true has consumed an entry.
\<close>

function Play_loop :: "player_env \<Rightarrow> unit player" where
  "Play_loop env st =
     (case Next env st of
        (Inl e, st') \<Rightarrow> (Inl e, st')
      | (Inr again, st') \<Rightarrow> if again then Play_loop env st' else (Inr (), st'))"
  by pat_completeness auto
termination
proof (relation "measure (\<lambda>(env, st). SizeLeft st)")
  show "wf (measure (\<lambda>(env, st). SizeLeft st))" by simp
next
  fix env st x1 x2 again
  assume "(x1, x2) = Next env st" "x1 = Inr again" "again"
  then have "Next env st = (Inr True, x2)" by simp
  then show "((env, x2), (env, st)) \<in> measure (\<lambda>(env, st). SizeLeft st)"
    by (simp add: Next_more)
qed

declare Play_loop.simps [simp del]

text \<open>
  \<open>CheckSanity\<close>: from the current position to the end of the file the stream is read in
  blocks of \<open>ChecksumBufferSize\<close> bytes (the last one shorter: \<open>size\<close> is the smaller
  of 2048 and what is left) and run through the checksum, starting from \<open>m_Crc32\<close>; the
  position is restored and the result compared with the header.
\<close>

definition ChecksumBufferSize :: nat where
  "ChecksumBufferSize = 2048"

function CheckSanity_loop :: "bytes \<Rightarrow> nat \<Rightarrow> nat \<Rightarrow> u32 \<Rightarrow> u32" where
  "CheckSanity_loop stream pos left check =
     (if left > 0 then
        (let size = min left ChecksumBufferSize;
             buf = take size (drop pos stream)
         in CheckSanity_loop stream (pos + size) (left - size) (Crc32_Update buf check))
      else check)"
  by pat_completeness auto
termination
  by (relation "measure (\<lambda>(stream, pos, left, check). left)")
     (simp_all add: ChecksumBufferSize_def)

definition CheckSanity :: "unit player" where
  "CheckSanity st =
     (let pos = p_StreamPos st;
          left = m_StreamSize st - pos;
          check = CheckSanity_loop (p_Stream st) pos left (m_Crc32 st)
      in if check \<noteq> Crc32 (p_Header st) then throwP FileDamaged st else returnP () st)"

text \<open>
  The constructor, given the content of the file at \<open>path\<close>: read the header (without
  checksum), compare major and minor version with those of the program, and check the
  sanity of the file unless \<open>NoSanityCheck\<close> is set. \<open>keys\<close> is what the console will
  deliver.
\<close>

definition BinaryLogPlayer_new :: "bytes \<Rightarrow> State \<Rightarrow> bytes \<Rightarrow> (stop + unit) \<times> BinaryLogPlayer" where
  "BinaryLogPlayer_new content state keys =
     bindP (Read sizeof_FileHeader False) (\<lambda>raw.
     thenP (modifyP (\<lambda>st. st\<lparr>p_Header := FileHeader_of raw\<rparr>)) (
     bindP getP (\<lambda>st.
       if drop_bit 16 (Version (p_Header st)) \<noteq> drop_bit 16 hindsight_version_int
       then throwP VersionMismatch
       else if \<not> NoSanityCheck state then CheckSanity else returnP ())))
     \<lparr>p_Stream = content, p_StreamPos = 0, m_StreamSize = length content, m_State = state,
      m_ShouldFilter = (ReplayEventFilter state \<noteq> []),
      m_Filter = set (ReplayEventFilter state), p_Header = FileHeader_default, m_Crc32 = 0,
      m_Handlers = [], m_PlayerModules = ModuleCollection_empty, console = keys\<rparr>"

definition AddHandler :: "BinaryLogPlayer \<Rightarrow> BinaryLogPlayer" where
  "AddHandler st = st\<lparr>m_Handlers := m_Handlers st @ [[]]\<rparr>"

text \<open>
  \<open>Play\<close>: path, working directory and arguments are read from behind the header,
  \<open>OnInitialization\<close> is emitted, the events are replayed, \<open>OnModuleCollectionComplete\<close>
  is emitted, and then the checksum of what was read is compared with the header.
\<close>

definition Play :: "player_env \<Rightarrow> unit player" where
  "Play env =
     bindP getP (\<lambda>st0.
     bindP (Read_string (PathLength (p_Header st0))) (\<lambda>path.
     bindP (Read_string (WorkingDirectoryLength (p_Header st0))) (\<lambda>workingDirectory.
     bindP (Read_strings (unat (Arguments (p_Header st0)))) (\<lambda>arguments.
     thenP (emit (OnInitialization (StartTime (p_Header st0))
              \<lparr>ProcInformation =
                 \<lparr>hProcess = 0, hThread = 0, dwProcessId = ProcessId (p_Header st0),
                  dwThreadId = ThreadId (p_Header st0)\<rparr>,
               ProcPath = path, ProcWorkingDirectory = workingDirectory,
               ProcArguments = arguments\<rparr>)) (
     thenP (Play_loop env) (
     bindP getP (\<lambda>st1.
     thenP (emit (OnModuleCollectionComplete (time_now env) (m_PlayerModules st1))) (
     bindP getP (\<lambda>st2.
       if Crc32 (p_Header st2) \<noteq> m_Crc32 st2 then throwP NotAllDataRead
       else returnP ())))))))))"

section \<open>The checksum of a finished log\<close>

subsection \<open>Encoding and decoding\<close>

lemma length_le_bytes [simp]: "length (le_bytes n w) = n"
  by (induction n arbitrary: w) simp_all

lemma word_le_le_bytes: "word_le (le_bytes n w) = take_bit (8 * n) (w :: 'a::len word)"
proof (induction n arbitrary: w)
  case 0 show ?case by simp
next
  case (Suc n)
  show ?case
    apply (simp add: Suc.IH)
    apply (rule bit_word_eqI)
    apply (auto simp add: bit_or_iff bit_ucast_iff bit_push_bit_iff bit_take_bit_iff bit_drop_bit_eq)
    done
qed

lemma word_le_le_bytes_u32 [simp]: "word_le (le_bytes 4 w) = (w :: u32)"
  by (simp add: word_le_le_bytes take_bit_word_eq_self)

lemma word_le_le_bytes_u64 [simp]: "word_le (le_bytes 8 w) = (w :: u64)"
  by (simp add: word_le_le_bytes take_bit_word_eq_self)

lemma word_le_le_bytes_u16 [simp]: "word_le (le_bytes 2 w) = (w :: u16)"
  by (simp add: word_le_le_bytes take_bit_word_eq_self)

lemma length_FileHeader_bytes [simp]: "length (FileHeader_bytes h) = 52"
  by (simp add: FileHeader_bytes_def)

lemma FileHeader_of_bytes [simp]: "FileHeader_of (FileHeader_bytes h @ rest) = h"
  by (simp add: FileHeader_of_def FileHeader_bytes_def member_def)

subsection \<open>What a session of the writer leaves in the file\<close>

text \<open>
  \<open>written_so_far h0 w body\<close>: the stream holds the header with a zero checksum followed
  by \<open>body\<close>, the put position is at the end, and the header kept in memory is \<open>h0\<close> with
  the checksum of \<open>body\<close>.
\<close>

definition written_so_far :: "FileHeader \<Rightarrow> WriterDebuggerEventHandler \<Rightarrow> bytes \<Rightarrow> bool" where
  "written_so_far h0 w body \<longleftrightarrow>
     m_Header w = h0\<lparr>Crc32 := Crc32_Update body 0\<rparr> \<and>
     m_Stream w = FileHeader_bytes (h0\<lparr>Crc32 := 0\<rparr>) @ body \<and>
     m_StreamPos w = length (m_Stream w)"

definition initial_header :: "u64 \<Rightarrow> Process \<Rightarrow> FileHeader" where
  "initial_header now p =
     FileHeader_default
       \<lparr>ProcessId := dwProcessId (ProcInformation p), ThreadId := dwThreadId (ProcInformation p),
        PathLength := of_nat (length (ProcPath p)),
        WorkingDirectoryLength := of_nat (length (ProcWorkingDirectory p)),
        Arguments := of_nat (length (ProcArguments p)), StartTime := now, Crc32 := 0\<rparr>"

definition initial_objects :: "Process \<Rightarrow> written list" where
  "initial_objects p =
     Write_string (ProcPath p) False @ Write_string (ProcWorkingDirectory p) False @
     concat (map (\<lambda>argument. Write_string argument True) (ProcArguments p))"

definition objects_bytes :: "written list \<Rightarrow> bytes" where
  "objects_bytes xs = concat (map written_bytes xs)"

lemma objects_bytes_append [simp]: "objects_bytes (xs @ ys) = objects_bytes xs @ objects_bytes ys"
  by (simp add: objects_bytes_def)

lemma objects_bytes_Nil [simp]: "objects_bytes [] = []"
  by (simp add: objects_bytes_def)

lemma Write_at_end:
  "m_StreamPos w = length (m_Stream w) \<Longrightarrow>
   Write data True w =
     w\<lparr>m_Stream := m_Stream w @ data, m_StreamPos := length (m_Stream w) + length data,
       m_Header := (m_Header w)\<lparr>Crc32 := Crc32_Update data (Crc32 (m_Header w))\<rparr>\<rparr>"
  by (simp add: Write_def stream_write_def)

lemma written_so_far_Write:
  "written_so_far h0 w body \<Longrightarrow> written_so_far h0 (Write data True w) (body @ data)"
  by (simp add: written_so_far_def Write_at_end Crc32_Update_append)

lemma written_so_far_Write_objects:
  "written_so_far h0 w body \<Longrightarrow>
   written_so_far h0 (Write_objects xs w) (body @ objects_bytes xs)"
  unfolding Write_objects_def
proof (induction xs arbitrary: w body)
  case Nil then show ?case by simp
next
  case (Cons x xs)
  have "written_so_far h0 (Write_object x w) (body @ written_bytes x)"
    unfolding Write_object_def using Cons.prems by (rule written_so_far_Write)
  from Cons.IH[OF this] show ?case by (simp add: objects_bytes_def)
qed

lemma written_so_far_OnInitialization:
  "written_so_far (initial_header now p)
     (Writer_OnInitialization now p WriterDebuggerEventHandler_new)
     (objects_bytes (initial_objects p))"
proof -
  let ?h = "initial_header now p"
  let ?w2 = "Write (FileHeader_bytes ?h) False (WriterDebuggerEventHandler_new\<lparr>m_Header := ?h\<rparr>)"
  have "written_so_far ?h ?w2 []"
    by (simp add: written_so_far_def Write_def stream_write_def WriterDebuggerEventHandler_new_def
        initial_header_def)
  from written_so_far_Write_objects[OF this, of "initial_objects p"]
  show ?thesis
    unfolding Writer_OnInitialization_def Let_def initial_objects_def
    by (simp add: WriterDebuggerEventHandler_new_def initial_header_def)
qed

text \<open>The objects a sequence of debug events makes the writer write, if none crashes it.\<close>

fun events_objects :: "(u64 \<times> handler_call) list \<Rightarrow> written list option" where
  "events_objects [] = Some []"
| "events_objects ((now, call) # rest) =
     (case Writer_event now call of
        None \<Rightarrow> None
      | Some xs \<Rightarrow> map_option (\<lambda>ys. xs @ ys) (events_objects rest))"

lemma written_so_far_calls:
  assumes "written_so_far h0 w body" "list_all (\<lambda>e. is_debug_event (snd e)) events"
    "Writer_calls events w = Some w'"
  shows "\<exists>xs. events_objects events = Some xs \<and> written_so_far h0 w' (body @ objects_bytes xs)"
  using assms
proof (induction events arbitrary: w body)
  case Nil then show ?case by auto
next
  case (Cons e events)
  obtain now call where e: "e = (now, call)" by (cases e)
  from Cons.prems(3) e obtain w1 where w1: "Writer_call now call w = Some w1"
    "Writer_calls events w1 = Some w'" by (auto split: option.splits)
  from Cons.prems(2) e have ev: "is_debug_event call" by simp
  from ev w1(1) obtain xs where xs: "Writer_event now call = Some xs" "w1 = Write_objects xs w"
    by (cases call) auto
  have "written_so_far h0 w1 (body @ objects_bytes xs)"
    unfolding xs(2) using Cons.prems(1) by (rule written_so_far_Write_objects)
  from Cons.IH[OF this _ w1(2)] Cons.prems(2)
  obtain ys where "events_objects events = Some ys"
    "written_so_far h0 w' ((body @ objects_bytes xs) @ objects_bytes ys)" by auto
  then show ?case using e xs(1) by simp
qed

lemma Writer_OnModuleCollectionComplete_stream:
  assumes "written_so_far h0 w body"
  shows "m_Stream (Writer_OnModuleCollectionComplete w) =
           FileHeader_bytes (h0\<lparr>Crc32 := Crc32_Update body 0\<rparr>) @ body"
  using assms
  by (simp add: Writer_OnModuleCollectionComplete_def Write_object_def Write_def Let_def
      stream_write_def written_so_far_def)

lemma Writer_session_file:
  assumes "list_all (\<lambda>e. is_debug_event (snd e)) events"
    and "Writer_session start p events = Some file"
  shows "\<exists>xs. events_objects events = Some xs \<and>
           file = FileHeader_bytes ((initial_header start p)
                     \<lparr>Crc32 := Crc32_Update (objects_bytes (initial_objects p @ xs)) 0\<rparr>) @
                  objects_bytes (initial_objects p @ xs)"
proof -
  from assms(2) obtain w where w:
    "Writer_calls events (Writer_OnInitialization start p WriterDebuggerEventHandler_new) = Some w"
    "file = m_Stream (Writer_OnModuleCollectionComplete w)"
    by (auto simp: Writer_session_def split: option.splits)
  from written_so_far_calls[OF written_so_far_OnInitialization assms(1) w(1)]
  obtain xs where xs: "events_objects events = Some xs"
    "written_so_far (initial_header start p) w (objects_bytes (initial_objects p) @ objects_bytes xs)"
    by auto
  show ?thesis
    using xs(1) Writer_OnModuleCollectionComplete_stream[OF xs(2)] w(2) by simp
qed

lemma CheckSanity_loop_eq:
  "CheckSanity_loop stream pos left check = Crc32_Update (take left (drop pos stream)) check"
proof (induction stream pos left check rule: CheckSanity_loop.induct)
  case (1 stream pos left check)
  show ?case
  proof (cases "left > 0")
    case False then show ?thesis by simp
  next
    case True
    let ?size = "min left ChecksumBufferSize"
    have "take left (drop pos stream) =
          take ?size (drop pos stream) @ take (left - ?size) (drop (pos + ?size) stream)"
      using take_add[of ?size "left - ?size" "drop pos stream"] by (simp add: add.commute)
    then show ?thesis
      using True "1.IH"[OF True refl refl]
      by (subst CheckSanity_loop.simps) (simp add: Let_def Crc32_Update_append[symmetric] del: CheckSanity_loop.simps)
  qed
qed

lemma Write_objects_append: "Write_objects (xs @ ys) w = Write_objects ys (Write_objects xs w)"
  by (simp add: Write_objects_def)

lemma Writer_calls_eq:
  "list_all (\<lambda>e. is_debug_event (snd e)) events \<Longrightarrow>
   Writer_calls events w = map_option (\<lambda>xs. Write_objects xs w) (events_objects events)"
proof (induction events arbitrary: w)
  case Nil show ?case by (simp add: Write_objects_def)
next
  case (Cons e events)
  obtain now call where e: "e = (now, call)" by (cases e)
  from Cons.prems e have ev: "is_debug_event call" and rest: "list_all (\<lambda>e. is_debug_event (snd e)) events"
    by simp_all
  have c: "Writer_call now call w = map_option (\<lambda>xs. Write_objects xs w) (Writer_event now call)"
    using ev by (cases call) simp_all
  show ?case
    unfolding e
    by (cases "Writer_event now call"; cases "events_objects events")
       (simp_all add: c Cons.IH[OF rest] Write_objects_append)
qed

lemma Writer_session_eq:
  assumes "list_all (\<lambda>e. is_debug_event (snd e)) events"
  shows "Writer_session start p events =
     map_option (\<lambda>xs. FileHeader_bytes ((initial_header start p)
                     \<lparr>Crc32 := Crc32_Update (objects_bytes (initial_objects p @ xs)) 0\<rparr>) @
                  objects_bytes (initial_objects p @ xs)) (events_objects events)"
proof (cases "events_objects events")
  case None
  then show ?thesis by (simp add: Writer_session_def Writer_calls_eq[OF assms])
next
  case (Some xs)
  have "written_so_far (initial_header start p)
          (Write_objects xs (Writer_OnInitialization start p WriterDebuggerEventHandler_new))
          (objects_bytes (initial_objects p) @ objects_bytes xs)"
    using written_so_far_OnInitialization by (rule written_so_far_Write_objects)
  from Writer_OnModuleCollectionComplete_stream[OF this]
  show ?thesis by (simp add: Writer_session_def Writer_calls_eq[OF assms] Some)
qed

text \<open>What the constructor of the player does with a file of at least 52 bytes.\<close>

lemma BinaryLogPlayer_new_result:
  assumes "52 \<le> length content"
  shows "fst (BinaryLogPlayer_new content state keys) =
     (if drop_bit 16 (Version (FileHeader_of (take 52 content))) \<noteq> drop_bit 16 hindsight_version_int
      then Inl (Throw VersionMismatch)
      else if \<not> NoSanityCheck state \<and>
              Crc32_Update (drop 52 content) 0 \<noteq> Crc32 (FileHeader_of (take 52 content))
      then Inl (Throw FileDamaged)
      else Inr ())"
  using assms
  by (simp add: BinaryLogPlayer_new_def Read_def thenP_def bindP_def AssertSizeLeft_def
      SizeLeft_def returnP_def throwP_def modifyP_def getP_def sizeof_FileHeader_def Let_def
      CheckSanity_def CheckSanity_loop_eq del: CheckSanity_loop.simps)

lemma FileHeader_of_take: "FileHeader_of (take 52 content) = FileHeader_of content"
  by (simp add: FileHeader_of_def member_def take_drop min_def) 


text \<open>
  The checksum of every session. Take any process and any sequence of debug events that
  the writer handles, and let the session end with \<open>OnModuleCollectionComplete\<close>. Opening
  the file with the sanity check enabled succeeds; the checksum that \<open>CheckSanity\<close>
  accumulates over the bytes behind the header is the one stored in the header; and if any
  one byte behind the header is replaced by a different value, opening the file fails with
  "file has been damaged".
\<close>

theorem crc_round_trip:
  assumes "list_all (\<lambda>e. is_debug_event (snd e)) events"
    and "Writer_session start p events = Some file"
    and "\<not> NoSanityCheck state"
  shows "fst (BinaryLogPlayer_new file state keys) = Inr () \<and>
         CheckSanity_loop file sizeof_FileHeader (length file - sizeof_FileHeader) 0 =
           Crc32 (FileHeader_of file) \<and>
         (\<forall>i b. sizeof_FileHeader \<le> i \<and> i < length file \<and> b \<noteq> file ! i \<longrightarrow>
            fst (BinaryLogPlayer_new (file[i := b]) state keys) = Inl (Throw FileDamaged))"
proof -
  from Writer_session_file[OF assms(1,2)] obtain h body where
    f_eq: "file = FileHeader_bytes h @ body" and crc: "Crc32 h = Crc32_Update body 0"
    and ver: "Version h = hindsight_version_int"
    by (auto simp: initial_header_def FileHeader_default_def)
  have len: "52 \<le> length file" by (simp add: f_eq)
  have a: "fst (BinaryLogPlayer_new file state keys) = Inr ()"
    by (simp add: BinaryLogPlayer_new_result[OF len] FileHeader_of_take) (simp add: f_eq crc ver)
  have b: "CheckSanity_loop file sizeof_FileHeader (length file - sizeof_FileHeader) 0 =
           Crc32 (FileHeader_of file)"
    by (simp add: CheckSanity_loop_eq sizeof_FileHeader_def f_eq crc del: CheckSanity_loop.simps)
  have c: "fst (BinaryLogPlayer_new (file[i := b]) state keys) = Inl (Throw FileDamaged)"
    if i: "sizeof_FileHeader \<le> i" "i < length file" "b \<noteq> file ! i" for i b
  proof -
    let ?j = "i - 52"
    have j: "?j < length body" and ij: "i = 52 + ?j" using i by (simp_all add: f_eq sizeof_FileHeader_def)
    have upd: "file[i := b] = FileHeader_bytes h @ body[?j := b]"
      using i by (simp add: f_eq list_update_append sizeof_FileHeader_def)
    have nth: "file ! i = body ! ?j" using i by (simp add: f_eq nth_append sizeof_FileHeader_def)
    have "Crc32_Update (take ?j body @ b # drop (Suc ?j) body) 0 \<noteq>
          Crc32_Update (take ?j body @ body ! ?j # drop (Suc ?j) body) 0"
      using i(3) nth by (intro Crc32_single_byte_change) simp
    then have ne: "Crc32_Update (body[?j := b]) 0 \<noteq> Crc32_Update body 0"
      using j by (simp add: upd_conv_take_nth_drop id_take_nth_drop[symmetric])
    have len': "52 \<le> length (file[i := b])" using len by simp
    show ?thesis
      by (simp add: BinaryLogPlayer_new_result[OF len'] FileHeader_of_take)
         (simp add: upd crc ver ne assms(3))
  qed
  show ?thesis using a b c by blast
qed

section \<open>The replay of a log\<close>

text \<open>The loop of \<open>Play\<close> moves through the stream like every single \<open>Next\<close>.\<close>

lemma tracks_Play_loop [tracks_intros]: "tracks (Play_loop env)"
  unfolding tracks_def
proof (intro allI impI)
  fix st r st' assume "Play_loop env st = (r, st')"
  then show "p_Stream st' = p_Stream st \<and> m_StreamSize st' = m_StreamSize st \<and>
        p_Header st' = p_Header st \<and>
        p_StreamPos st \<le> p_StreamPos st' \<and>
        (p_StreamPos st \<le> m_StreamSize st \<longrightarrow> p_StreamPos st' \<le> m_StreamSize st) \<and>
        (\<forall>x. r = Inr x \<longrightarrow>
           m_Crc32 st' =
             Crc32_Update (take (p_StreamPos st' - p_StreamPos st)
                             (drop (p_StreamPos st) (p_Stream st))) (m_Crc32 st))"
  proof (induction env st arbitrary: r st' rule: Play_loop.induct)
    case (1 env st)
    obtain r1 st1 where n: "Next env st = (r1, st1)" by (cases "Next env st")
    note t1 = tracks_Next[unfolded tracks_def, rule_format, OF n]
    show ?case
    proof (cases r1)
      case (Inl e)
      then have "r = Inl e" "st' = st1"
        using "1.prems" n by (simp_all add: Play_loop.simps[of env st])
      then show ?thesis using t1 by simp
    next
      case (Inr again)
      show ?thesis
      proof (cases again)
        case False
        then have "r = Inr ()" "st' = st1"
          using "1.prems" n Inr by (simp_all add: Play_loop.simps[of env st])
        then show ?thesis using t1 Inr by simp
      next
        case True
        then have run: "Play_loop env st1 = (r, st')"
          using "1.prems" n Inr by (simp add: Play_loop.simps[of env st])
        note t2 = "1.IH"[OF n[symmetric] Inr True run]
        have c1: "m_Crc32 st1 = Crc32_Update (take (p_StreamPos st1 - p_StreamPos st)
                             (drop (p_StreamPos st) (p_Stream st))) (m_Crc32 st)"
          using t1 Inr by simp
        show ?thesis
        proof (intro conjI allI impI)
          fix y assume "r = Inr y"
          then have "m_Crc32 st' = Crc32_Update (take (p_StreamPos st' - p_StreamPos st1)
                             (drop (p_StreamPos st1) (p_Stream st))) (m_Crc32 st1)"
            using t2 t1 by simp
          then show "m_Crc32 st' = Crc32_Update (take (p_StreamPos st' - p_StreamPos st)
                             (drop (p_StreamPos st) (p_Stream st))) (m_Crc32 st)"
            using t1 t2 take_drop_split[of "p_StreamPos st" "p_StreamPos st1" "p_StreamPos st'" "p_Stream st"]
            by (simp add: c1 Crc32_Update_append[symmetric])
        qed (use t1 t2 in auto)
      qed
    qed
  qed
qed

text \<open>
  The statements of \<open>Play\<close> before its last one: everything up to and including the
  emission of \<open>OnModuleCollectionComplete\<close>. \<open>Play\<close> is this followed by the comparison
  of the checksum of what was read with the checksum of the header.
\<close>

definition Play_replay :: "player_env \<Rightarrow> unit player" where
  "Play_replay env =
     bindP getP (\<lambda>st0.
     bindP (Read_string (PathLength (p_Header st0))) (\<lambda>path.
     bindP (Read_string (WorkingDirectoryLength (p_Header st0))) (\<lambda>workingDirectory.
     bindP (Read_strings (unat (Arguments (p_Header st0)))) (\<lambda>arguments.
     thenP (emit (OnInitialization (StartTime (p_Header st0))
              \<lparr>ProcInformation =
                 \<lparr>hProcess = 0, hThread = 0, dwProcessId = ProcessId (p_Header st0),
                  dwThreadId = ThreadId (p_Header st0)\<rparr>,
               ProcPath = path, ProcWorkingDirectory = workingDirectory,
               ProcArguments = arguments\<rparr>)) (
     thenP (Play_loop env) (
     bindP getP (\<lambda>st1.
       emit (OnModuleCollectionComplete (time_now env) (m_PlayerModules st1)))))))))"

lemma bindP_assoc: "bindP (bindP m f) g = bindP m (\<lambda>x. bindP (f x) g)"
  by (rule ext) (simp add: bindP_def split: prod.split sum.split)

lemma Play_eq:
  "Play env =
     thenP (Play_replay env)
       (bindP getP (\<lambda>st2. if Crc32 (p_Header st2) \<noteq> m_Crc32 st2 then throwP NotAllDataRead
                          else returnP ()))"
  by (simp add: Play_def Play_replay_def thenP_def bindP_assoc)

lemma tracks_Play_replay: "tracks (Play_replay env)"
  unfolding Play_replay_def by (intro tracks_intros)

lemma Crc32_Update_list_update:
  assumes "j < length body" "b \<noteq> body ! j"
  shows "Crc32_Update (body[j := b]) c \<noteq> Crc32_Update body c"
proof -
  have "Crc32_Update (take j body @ b # drop (Suc j) body) c \<noteq>
        Crc32_Update (take j body @ body ! j # drop (Suc j) body) c"
    using assms(2) by (intro Crc32_single_byte_change) simp
  then show ?thesis
    using assms(1) by (simp add: upd_conv_take_nth_drop id_take_nth_drop[symmetric])
qed

text \<open>What the constructor of the player leaves when the sanity check is disabled.\<close>

lemma BinaryLogPlayer_new_state:
  assumes "52 \<le> length content" "NoSanityCheck state"
    "drop_bit 16 (Version (FileHeader_of content)) = drop_bit 16 hindsight_version_int"
  shows "BinaryLogPlayer_new content state keys =
     (Inr (), \<lparr>p_Stream = content, p_StreamPos = 52, m_StreamSize = length content, m_State = state,
      m_ShouldFilter = (ReplayEventFilter state \<noteq> []),
      m_Filter = set (ReplayEventFilter state), p_Header = FileHeader_of content, m_Crc32 = 0,
      m_Handlers = [], m_PlayerModules = ModuleCollection_empty, console = keys\<rparr>)"
  using assms
  by (simp add: BinaryLogPlayer_new_def Read_def thenP_def bindP_def AssertSizeLeft_def
      SizeLeft_def returnP_def throwP_def modifyP_def getP_def sizeof_FileHeader_def Let_def
      FileHeader_of_take)

text \<open>
  Claim C4 as amended. Take the log of any session of the writer, replace any one byte
  behind the header by a different value, and open it with the sanity check disabled:
  the constructor succeeds. If \<open>Play\<close> then reads the whole file through (the process
  strings and the events parse, every handler receives what was read, wrong data included,
  and \<open>OnModuleCollectionComplete\<close>, and the get position is at the end of the file),
  \<open>Play\<close> ends by throwing "not all data that was originally written has been read":
  the comparison at the end of \<open>Play\<close> does not look at \<open>NoSanityCheck\<close>. The handlers
  keep what they received.
\<close>

theorem Play_checks_checksum_without_sanity_check:
  assumes "list_all (\<lambda>e. is_debug_event (snd e)) events"
    and "Writer_session start p events = Some file"
    and "sizeof_FileHeader \<le> i" and "i < length file" and "b \<noteq> file ! i"
    and "NoSanityCheck state"
    and "BinaryLogPlayer_new (file[i := b]) state keys = (opened, st0)"
    and "Play_replay env (st0\<lparr>m_Handlers := handlers\<rparr>) = (Inr (), st')"
    and "p_StreamPos st' = length file"
  shows "opened = Inr () \<and>
         Play env (st0\<lparr>m_Handlers := handlers\<rparr>) = (Inl (Throw NotAllDataRead), st')"
proof -
  from Writer_session_file[OF assms(1,2)] obtain h body where
    f_eq: "file = FileHeader_bytes h @ body" and crc: "Crc32 h = Crc32_Update body 0"
    and ver: "Version h = hindsight_version_int"
    by (auto simp: initial_header_def FileHeader_default_def)
  let ?j = "i - 52"
  have j: "?j < length body" using assms(3,4) by (simp add: f_eq sizeof_FileHeader_def)
  have upd: "file[i := b] = FileHeader_bytes h @ body[?j := b]"
    using assms(3) by (simp add: f_eq list_update_append sizeof_FileHeader_def)
  have nth: "file ! i = body ! ?j" using assms(3) by (simp add: f_eq nth_append sizeof_FileHeader_def)
  have ne: "Crc32_Update (body[?j := b]) 0 \<noteq> Crc32_Update body 0"
    using j assms(5) nth by (intro Crc32_Update_list_update) simp_all
  have new: "BinaryLogPlayer_new (file[i := b]) state keys =
     (Inr (), \<lparr>p_Stream = file[i := b], p_StreamPos = 52, m_StreamSize = length (file[i := b]),
      m_State = state, m_ShouldFilter = (ReplayEventFilter state \<noteq> []),
      m_Filter = set (ReplayEventFilter state), p_Header = FileHeader_of (file[i := b]), m_Crc32 = 0,
      m_Handlers = [], m_PlayerModules = ModuleCollection_empty, console = keys\<rparr>)"
    by (rule BinaryLogPlayer_new_state) (simp_all add: assms(6) upd ver)
  from new assms(7) have opened: "opened = Inr ()"
    and st0: "p_Stream st0 = file[i := b]" "p_StreamPos st0 = 52" "p_Header st0 = h" "m_Crc32 st0 = 0"
    by (auto simp: upd)
  note t = tracks_Play_replay[unfolded tracks_def, rule_format, OF assms(8)]
  have hdr: "p_Header st' = h" using t st0 by simp
  have "m_Crc32 st' = Crc32_Update (take (length file - 52) (drop 52 (file[i := b]))) 0"
    using t st0 assms(9) by simp
  moreover have "drop 52 (file[i := b]) = body[?j := b]" by (simp add: upd)
  moreover have "length file - 52 = length body" by (simp add: f_eq)
  ultimately have sum: "m_Crc32 st' = Crc32_Update (body[?j := b]) 0" by simp
  have "Play env (st0\<lparr>m_Handlers := handlers\<rparr>) = (Inl (Throw NotAllDataRead), st')"
    using assms(8) ne by (simp add: Play_eq thenP_def bindP_def getP_def throwP_def hdr sum crc)
  with opened show ?thesis by simp
qed

section \<open>A recorded session and its replay\<close>

text \<open>
  A session of the writer: a process with id 0x1234 and thread id 0x5678 started at
  1700000000, one DLL loaded at 0x7FF000000000 (size 0x10000) from \<open>C:\k.dll\<close>, and the
  exit of the process with code 0. \<open>S1_file\<close> is its log. \<open>S5_file\<close> is the same log
  with the last byte of the DLL path (offset 154 of the file) changed from 0 to 0xFF,
  replayed with the sanity check disabled into one handler.
\<close>

definition S1_pi :: PROCESS_INFORMATION where
  "S1_pi = \<lparr>hProcess = 0x1A4, hThread = 0x1A8, dwProcessId = 0x1234, dwThreadId = 0x5678\<rparr>"

definition S1_process :: Process where
  "S1_process =
     \<lparr>ProcInformation = S1_pi, ProcPath = astr ''a.exe'', ProcWorkingDirectory = astr ''C:'',
      ProcArguments = []\<rparr>"

definition k_dll :: wstring where
  "k_dll = wstr ''C:'' @ [0x5C] @ wstr ''k.dll''"

definition S1_modules :: ModuleCollection where
  "S1_modules = Load k_dll 0x7FF000000000 0x10000 ModuleCollection_empty"

definition S1_events :: "(u64 \<times> handler_call) list" where
  "S1_events =
     [(1700000001, OnDllLoad 1700000001 0x7FF000000000 S1_pi k_dll 0 S1_modules),
      (1700000002, OnExitProcess 1700000002 0 S1_pi S1_modules)]"

definition S1_objects :: "written list" where
  "S1_objects =
     [W_chars (astr ''a.exe''), W_chars (astr ''C:''),
      W_DllLoadEventEntry (DllLoadEventEntry_new 1700000001 S1_pi 0 0x7FF000000000 0x10000 8),
      W_wchars k_dll,
      W_ExitProcessEventEntry (ExitProcessEventEntry_new 1700000002 S1_pi 0)]"

definition S1_body :: bytes where
  "S1_body = objects_bytes S1_objects"

definition S1_header :: FileHeader where
  "S1_header = (initial_header 1700000000 S1_process)\<lparr>Crc32 := Crc32_Update S1_body 0\<rparr>"

definition S1_file :: bytes where
  "S1_file = FileHeader_bytes S1_header @ S1_body"

definition S1_state :: State where
  "S1_state = \<lparr>NoSanityCheck = False, BreakOnBreakpoints = False, BreakOnExceptions = False,
     BreakOnFirstChanceOnly = False, ReplayEventFilter = []\<rparr>"

definition S5_file :: bytes where
  "S5_file = S1_file[154 := 0xFF]"

definition S5_state :: State where
  "S5_state = S1_state\<lparr>NoSanityCheck := True\<rparr>"

definition S5_env :: player_env where
  "S5_env = \<lparr>GetErrorMessageW = (\<lambda>_. []), ExceptionNames = Map.empty, time_now = 1700000100\<rparr>"

definition S5_opened :: BinaryLogPlayer where
  "S5_opened =
     \<lparr>p_Stream = S5_file, p_StreamPos = 52, m_StreamSize = 207, m_State = S5_state,
      m_ShouldFilter = False, m_Filter = {}, p_Header = S1_header, m_Crc32 = 0,
      m_Handlers = [], m_PlayerModules = ModuleCollection_empty, console = []\<rparr>"

definition S5_modules :: ModuleCollection where
  "S5_modules = Load (k_dll[7 := 0xFF6C]) 0x7FF000000000 0x10000 ModuleCollection_empty"

definition S5_log :: "handler_call list" where
  "S5_log =
     [OnInitialization 1700000000
        \<lparr>ProcInformation = \<lparr>hProcess = 0, hThread = 0, dwProcessId = 0x1234, dwThreadId = 0x5678\<rparr>,
         ProcPath = astr ''a.exe'', ProcWorkingDirectory = astr ''C:'', ProcArguments = []\<rparr>,
      OnDllLoad 1700000001 0x7FF000000000 S1_pi (k_dll[7 := 0xFF6C]) 0 S5_modules,
      OnExitProcess 1700000002 0 S1_pi S5_modules,
      OnModuleCollectionComplete 1700000100 S5_modules]"

definition S5_final :: BinaryLogPlayer where
  "S5_final =
     S5_opened\<lparr>p_StreamPos := 207, m_Crc32 := Crc32_Update (S1_body[102 := 0xFF]) 0,
       m_Handlers := [S5_log], m_PlayerModules := S5_modules\<rparr>"

text \<open>Evaluation of the session.\<close>

lemma le_bytes_numeral:
  "le_bytes (numeral k) w = ucast w # le_bytes (pred_numeral k) (drop_bit 8 w)"
  by (simp add: numeral_eq_Suc)

lemma GetIndex_Load_first [simp]: "GetIndex (Load path base sz ModuleCollection_empty) path = 0"
  by (simp add: GetIndex_def Load_def Contains_def ModuleCollection_empty_def)

lemma S1_GetModule:
  "GetModuleAtAddress S1_modules 0x7FF000000000 =
     Some \<lparr>Base = 0x7FF000000000, Size = 0x10000, Path = k_dll\<rparr>"
  by (simp add: S1_modules_def GetModuleAtAddress_def Load_def ModuleCollection_empty_def
      Contains_def ContainsAddress_def)

lemma S1_events_objects: "events_objects S1_events = Some (drop 2 S1_objects)"
  by (simp add: S1_events_def S1_objects_def S1_GetModule Write_wstring_def k_dll_def wstr_def)

lemma S1_initial_objects: "initial_objects S1_process = take 2 S1_objects"
  by (simp add: initial_objects_def S1_process_def S1_objects_def Write_string_def astr_def)

lemma S1_session: "Writer_session 1700000000 S1_process S1_events = Some S1_file"
proof -
  have "list_all (\<lambda>e. is_debug_event (snd e)) S1_events" by (simp add: S1_events_def)
  from Writer_session_eq[OF this, of 1700000000 S1_process]
  show ?thesis
    by (simp add: S1_events_objects S1_initial_objects S1_file_def S1_header_def S1_body_def
        del: objects_bytes_append)
qed

lemmas S1_defs = le_bytes_numeral S1_objects_def objects_bytes_def astr_def wstr_def k_dll_def
  DllLoadEventEntry_bytes_def ExitProcessEventEntry_bytes_def EventEntry_bytes_def
  PROCESS_INFORMATION_bytes_def wchars_bytes_def DllLoadEventEntry_new_def
  ExitProcessEventEntry_new_def EventEntry_new_def signature_def S1_pi_def EventEntry.defs
  DllLoadEventEntry.defs ExitProcessEventEntry.defs sizeof_defs LOAD_DLL_DEBUG_EVENT_def
  EXIT_PROCESS_DEBUG_EVENT_def

lemma length_S1_body: "length S1_body = 155"
  by (simp add: S1_body_def S1_defs)

lemma length_S1_file: "length S1_file = 207"
  by (simp add: S1_file_def length_S1_body)

lemma S1_body_102: "S1_body ! 102 = 0"
  by (simp add: S1_body_def S1_defs)

lemma S1_file_154: "S1_file ! 154 = 0"
  by (simp add: S1_file_def nth_append S1_body_102)

lemma S5_file_eq: "S5_file = FileHeader_bytes S1_header @ S1_body[102 := 0xFF]"
  by (simp add: S5_file_def S1_file_def list_update_append)

lemma S5_open: "BinaryLogPlayer_new S5_file S5_state [] = (Inr (), S5_opened)"
  apply (subst BinaryLogPlayer_new_state)
     apply (simp_all add: S5_file_eq length_S1_body S5_opened_def)
   apply (simp_all add: S5_state_def S1_state_def S1_header_def initial_header_def FileHeader_default_def)
  done

lemmas player_defs = bindP_def thenP_def returnP_def throwP_def getP_def modifyP_def Read_def
  Read_string_def Read_size_def Read_wstring_def AssertSizeLeft_def SizeLeft_def emit_def
  seekg_cur_def Let_def string_max_size_def wstring_max_size_def

lemmas next_defs = Next_def EmitDllLoad_def EmitExitProcess_def strnicmp_differs_def tolower_def
  EventEntry_of_def DllLoadEventEntry_of_def ExitProcessEventEntry_of_def member_def
  EventEntry.defs DllLoadEventEntry.defs ExitProcessEventEntry.defs sizeof_defs
  EXCEPTION_DEBUG_EVENT_def CREATE_THREAD_DEBUG_EVENT_def CREATE_PROCESS_DEBUG_EVENT_def
  EXIT_THREAD_DEBUG_EVENT_def EXIT_PROCESS_DEBUG_EVENT_def LOAD_DLL_DEBUG_EVENT_def
  UNLOAD_DLL_DEBUG_EVENT_def OUTPUT_DEBUG_STRING_EVENT_def RIP_EVENT_def

lemma drop_header [simp]: "drop (52 + k) (FileHeader_bytes h @ body) = drop k body"
  by simp

lemma S5_replay: "Play_replay S5_env (S5_opened\<lparr>m_Handlers := [[]]\<rparr>) = (Inr (), S5_final)"
  apply (simp add: Play_replay_def S5_final_def S5_opened_def S5_log_def S5_modules_def S5_file_eq
      player_defs S1_header_def initial_header_def S1_process_def S5_env_def S1_body_def S1_defs)
  apply (subst Play_loop.simps)
  apply (simp add: player_defs next_defs astr_def)
  apply (subst Play_loop.simps)
  apply (simp add: player_defs next_defs astr_def)
  apply (subst Play_loop.simps)
  apply (simp add: player_defs next_defs astr_def Crc32_Update_append[symmetric])
  done

lemma S1_events_debug: "list_all (\<lambda>e. is_debug_event (snd e)) S1_events"
  by (simp add: S1_events_def)

lemma S1_tampered_byte:
  "sizeof_FileHeader \<le> 154 \<and> 154 < length S1_file \<and> 0xFF \<noteq> S1_file ! 154"
  by (simp add: sizeof_FileHeader_def length_S1_file S1_file_154)

theorem crc_round_trip_witness:
  "list_all (\<lambda>e. is_debug_event (snd e)) S1_events \<and>
   Writer_session 1700000000 S1_process S1_events = Some S1_file \<and>
   \<not> NoSanityCheck S1_state \<and>
   fst (BinaryLogPlayer_new S1_file S1_state []) = Inr () \<and>
   CheckSanity_loop S1_file sizeof_FileHeader (length S1_file - sizeof_FileHeader) 0 =
     Crc32 (FileHeader_of S1_file) \<and>
   (sizeof_FileHeader \<le> 154 \<and> 154 < length S1_file \<and> 0xFF \<noteq> S1_file ! 154) \<and>
   fst (BinaryLogPlayer_new (S1_file[154 := 0xFF]) S1_state []) = Inl (Throw FileDamaged)"
proof -
  have ns: "\<not> NoSanityCheck S1_state" by (simp add: S1_state_def)
  note r = crc_round_trip[OF S1_events_debug S1_session ns, of "[]"]
  show ?thesis using r S1_events_debug S1_session ns S1_tampered_byte by blast
qed

lemma S5_checksums_differ: "Crc32_Update (S1_body[102 := 0xFF]) 0 \<noteq> Crc32_Update S1_body 0"
  by (rule Crc32_Update_list_update) (simp_all add: length_S1_body S1_body_102)

lemma S5_AddHandler: "AddHandler S5_opened = S5_opened\<lparr>m_Handlers := [[]]\<rparr>"
  by (simp add: AddHandler_def S5_opened_def)

text \<open>
  Claim C4 as stated fails on \<open>S5_file\<close>: with the sanity check disabled the file opens,
  \<open>Play\<close> delivers the altered path to the handler with \<open>OnDllLoad\<close>, reads the file
  to its end, delivers \<open>OnModuleCollectionComplete\<close>, and then throws "not all data that
  was originally written has been read" instead of completing.
\<close>

theorem Play_tampered_counterexample:
  "Writer_session 1700000000 S1_process S1_events = Some S1_file \<and>
   S5_file = S1_file[154 := 0xFF] \<and> S1_file ! 154 = 0 \<and> NoSanityCheck S5_state \<and>
   BinaryLogPlayer_new S5_file S5_state [] = (Inr (), S5_opened) \<and>
   Play S5_env (AddHandler S5_opened) = (Inl (Throw NotAllDataRead), S5_final) \<and>
   m_Handlers S5_final = [S5_log] \<and> p_StreamPos S5_final = length S5_file"
proof -
  have "Play S5_env (AddHandler S5_opened) = (Inl (Throw NotAllDataRead), S5_final)"
    using S5_checksums_differ
    by (simp add: Play_eq thenP_def bindP_def S5_AddHandler S5_replay getP_def throwP_def)
       (simp add: S5_final_def S5_opened_def S1_header_def)
  moreover have "NoSanityCheck S5_state" by (simp add: S5_state_def)
  moreover have "m_Handlers S5_final = [S5_log]" "p_StreamPos S5_final = length S5_file"
    by (simp_all add: S5_final_def S5_opened_def S5_file_def length_S1_file)
  ultimately show ?thesis
    using S1_session S5_open S1_file_154 by (simp add: S5_file_def)
qed

theorem Play_checks_checksum_without_sanity_check_witness:
  "list_all (\<lambda>e. is_debug_event (snd e)) S1_events \<and>
   Writer_session 1700000000 S1_process S1_events = Some S1_file \<and>
   (sizeof_FileHeader \<le> 154 \<and> 154 < length S1_file \<and> 0xFF \<noteq> S1_file ! 154) \<and>
   NoSanityCheck S5_state \<and>
   BinaryLogPlayer_new (S1_file[154 := 0xFF]) S5_state [] = (Inr (), S5_opened) \<and>
   Play_replay S5_env (S5_opened\<lparr>m_Handlers := [[]]\<rparr>) = (Inr (), S5_final) \<and>
   p_StreamPos S5_final = length S1_file \<and>
   Play S5_env (S5_opened\<lparr>m_Handlers := [[]]\<rparr>) = (Inl (Throw NotAllDataRead), S5_final)"
proof -
  have ns: "NoSanityCheck S5_state" by (simp add: S5_state_def)
  have opn: "BinaryLogPlayer_new (S1_file[154 := 0xFF]) S5_state [] = (Inr (), S5_opened)"
    using S5_open by (simp add: S5_file_def)
  have pos: "p_StreamPos S5_final = length S1_file"
    by (simp add: S5_final_def S5_opened_def length_S1_file)
  from S1_tampered_byte have b: "sizeof_FileHeader \<le> 154" "154 < length S1_file"
    "0xFF \<noteq> S1_file ! 154" by simp_all
  note r = Play_checks_checksum_without_sanity_check[OF S1_events_debug S1_session b ns opn
      S5_replay pos]
  show ?thesis using r S1_events_debug S1_session S1_tampered_byte ns opn S5_replay pos by blast
qed

text \<open>
  Claim C3 as amended. The header is 52 bytes long and its checksum member lies at
  offset 48. Until the session is closed the file holds the header with a zero checksum
  followed by the process path and everything written after it. \<open>OnModuleCollectionComplete\<close>
  writes the header once more at offset 0 as the last write of the session: the length
  of the file, its first 48 bytes and everything from offset 52 on stay as they were, and
  the four bytes at offset 48 become the checksum of the bytes from offset 52 on.
\<close>

theorem header_layout:
  assumes "list_all (\<lambda>e. is_debug_event (snd e)) events"
    and "Writer_calls events (Writer_OnInitialization start p WriterDebuggerEventHandler_new) = Some w"
  shows "Writer_session start p events = Some (m_Stream (Writer_OnModuleCollectionComplete w)) \<and>
         length (m_Stream (Writer_OnModuleCollectionComplete w)) = length (m_Stream w) \<and>
         take 48 (m_Stream (Writer_OnModuleCollectionComplete w)) = take 48 (m_Stream w) \<and>
         drop 52 (m_Stream (Writer_OnModuleCollectionComplete w)) = drop 52 (m_Stream w) \<and>
         take (length (ProcPath p)) (drop 52 (m_Stream w)) = ProcPath p \<and>
         member 48 4 (m_Stream w) = (0::u32) \<and>
         member 48 4 (m_Stream (Writer_OnModuleCollectionComplete w)) =
           Crc32_Update (drop 52 (m_Stream w)) 0 \<and>
         FileHeader_of (m_Stream (Writer_OnModuleCollectionComplete w)) =
           (initial_header start p)\<lparr>Crc32 := Crc32_Update (drop 52 (m_Stream w)) 0\<rparr>"
proof -
  let ?h = "initial_header start p"
  from written_so_far_calls[OF written_so_far_OnInitialization assms]
  obtain xs where xs: "events_objects events = Some xs"
    "written_so_far ?h w (objects_bytes (initial_objects p) @ objects_bytes xs)"
    by auto
  let ?body = "objects_bytes (initial_objects p) @ objects_bytes xs"
  have before: "m_Stream w = FileHeader_bytes (?h\<lparr>Crc32 := 0\<rparr>) @ ?body"
    using xs(2) by (simp add: written_so_far_def)
  have after: "m_Stream (Writer_OnModuleCollectionComplete w) =
      FileHeader_bytes (?h\<lparr>Crc32 := Crc32_Update ?body 0\<rparr>) @ ?body"
    by (rule Writer_OnModuleCollectionComplete_stream[OF xs(2)])
  have path: "take (length (ProcPath p)) ?body = ProcPath p"
    by (simp add: initial_objects_def Write_string_def objects_bytes_def)
  have "Writer_session start p events = Some (m_Stream (Writer_OnModuleCollectionComplete w))"
    using assms(2) by (simp add: Writer_session_def)
  moreover have "take 48 (m_Stream (Writer_OnModuleCollectionComplete w)) = take 48 (m_Stream w)"
    unfolding before after by (simp add: FileHeader_bytes_def)
  moreover have "member 48 4 (m_Stream w) = (0::u32)"
    unfolding before by (simp add: member_def FileHeader_bytes_def)
  moreover have "member 48 4 (m_Stream (Writer_OnModuleCollectionComplete w)) =
           Crc32_Update (drop 52 (m_Stream w)) 0"
    unfolding before after by (simp add: member_def FileHeader_bytes_def)
  ultimately show ?thesis
    using path by (simp add: before after)
qed

definition S1_writer :: WriterDebuggerEventHandler where
  "S1_writer =
     Write_objects (drop 2 S1_objects)
       (Writer_OnInitialization 1700000000 S1_process WriterDebuggerEventHandler_new)"

lemma S1_writer_calls:
  "Writer_calls S1_events (Writer_OnInitialization 1700000000 S1_process WriterDebuggerEventHandler_new)
     = Some S1_writer"
  by (simp add: Writer_calls_eq[OF S1_events_debug] S1_events_objects S1_writer_def)

theorem header_layout_witness:
  "list_all (\<lambda>e. is_debug_event (snd e)) S1_events \<and>
   Writer_calls S1_events (Writer_OnInitialization 1700000000 S1_process WriterDebuggerEventHandler_new)
     = Some S1_writer \<and>
   Writer_session 1700000000 S1_process S1_events =
     Some (m_Stream (Writer_OnModuleCollectionComplete S1_writer)) \<and>
   take 48 (m_Stream (Writer_OnModuleCollectionComplete S1_writer)) = take 48 (m_Stream S1_writer) \<and>
   member 48 4 (m_Stream (Writer_OnModuleCollectionComplete S1_writer)) =
     Crc32_Update (drop 52 (m_Stream S1_writer)) 0"
  using header_layout[OF S1_events_debug S1_writer_calls] S1_events_debug S1_writer_calls
  by blast

text \<open>
  Claim C3 as stated fails on \<open>S1_file\<close>: the header takes 52 bytes, the process path
  begins at offset 52 and not at offset 48, the four bytes at offset 44 are the upper half
  of the start time whatever the checksum member holds, and the checksum is at offset 48.
\<close>

theorem header_48_bytes_counterexample:
  "Writer_session 1700000000 S1_process S1_events = Some S1_file \<and>
   length (FileHeader_bytes S1_header) = 52 \<and>
   take 5 (drop 52 S1_file) = ProcPath S1_process \<and>
   take 5 (drop 48 S1_file) \<noteq> ProcPath S1_process \<and>
   member 44 4 S1_file = (0::u32) \<and>
   member 44 4 (FileHeader_bytes (S1_header\<lparr>Crc32 := 1\<rparr>) @ S1_body) = (0::u32) \<and>
   member 48 4 (FileHeader_bytes (S1_header\<lparr>Crc32 := 1\<rparr>) @ S1_body) = (1::u32) \<and>
   member 48 4 S1_file = Crc32_Update (drop 52 S1_file) 0"
proof -
  have a: "take 5 (drop 52 S1_file) = ProcPath S1_process"
    by (simp add: S1_file_def S1_process_def S1_body_def S1_objects_def objects_bytes_def astr_def)
  have b: "take 5 (drop 48 S1_file) \<noteq> ProcPath S1_process"
    by (simp add: S1_file_def S1_process_def S1_body_def S1_objects_def objects_bytes_def astr_def
        FileHeader_bytes_def)
  have c: "member 44 4 (FileHeader_bytes (S1_header\<lparr>Crc32 := x\<rparr>) @ S1_body) = (0::u32)" for x
    by (simp add: member_def FileHeader_bytes_def S1_header_def initial_header_def le_bytes_numeral)
  have d: "member 48 4 (FileHeader_bytes h @ S1_body) = Crc32 h" for h
    by (simp add: member_def FileHeader_bytes_def)
  have e: "S1_file = FileHeader_bytes (S1_header\<lparr>Crc32 := Crc32_Update S1_body 0\<rparr>) @ S1_body"
    by (simp add: S1_file_def S1_header_def)
  show ?thesis
    using S1_session a b c[of 1] d[of "S1_header\<lparr>Crc32 := 1\<rparr>"]
    by (simp add: e c d)
qed

subsection \<open>Replaying a session with the sanity check enabled\<close>

text \<open>What the constructor of the player leaves when the checksums agree.\<close>

lemma BinaryLogPlayer_new_checked:
  assumes "52 \<le> length content"
    "drop_bit 16 (Version (FileHeader_of content)) = drop_bit 16 hindsight_version_int"
    "Crc32_Update (drop 52 content) 0 = Crc32 (FileHeader_of content)"
  shows "BinaryLogPlayer_new content state keys =
     (Inr (), \<lparr>p_Stream = content, p_StreamPos = 52, m_StreamSize = length content, m_State = state,
      m_ShouldFilter = (ReplayEventFilter state \<noteq> []),
      m_Filter = set (ReplayEventFilter state), p_Header = FileHeader_of content, m_Crc32 = 0,
      m_Handlers = [], m_PlayerModules = ModuleCollection_empty, console = keys\<rparr>)"
  using assms
  by (simp add: BinaryLogPlayer_new_def Read_def thenP_def bindP_def AssertSizeLeft_def
      SizeLeft_def returnP_def throwP_def modifyP_def getP_def sizeof_FileHeader_def Let_def
      FileHeader_of_take CheckSanity_def CheckSanity_loop_eq del: CheckSanity_loop.simps)

definition S1_opened :: BinaryLogPlayer where
  "S1_opened =
     \<lparr>p_Stream = S1_file, p_StreamPos = 52, m_StreamSize = 207, m_State = S1_state,
      m_ShouldFilter = False, m_Filter = {}, p_Header = S1_header, m_Crc32 = 0,
      m_Handlers = [], m_PlayerModules = ModuleCollection_empty, console = []\<rparr>"

lemma S1_open: "BinaryLogPlayer_new S1_file S1_state [] = (Inr (), S1_opened)"
  apply (subst BinaryLogPlayer_new_checked)
     apply (simp_all add: S1_file_def length_S1_body S1_opened_def)
   apply (simp_all add: S1_state_def S1_header_def initial_header_def FileHeader_default_def)
  done

lemma S1_play: "fst (Play S5_env (S1_opened\<lparr>m_Handlers := [[]]\<rparr>)) = Inr ()"
  apply (simp add: Play_def S1_opened_def S1_file_def 
      player_defs S1_header_def initial_header_def S1_process_def S5_env_def S1_body_def S1_defs)
  apply (subst Play_loop.simps)
  apply (simp add: player_defs next_defs astr_def)
  apply (subst Play_loop.simps)
  apply (simp add: player_defs next_defs astr_def)
  apply (subst Play_loop.simps)
  apply (simp add: player_defs next_defs astr_def Crc32_Update_append[symmetric])
  done

text \<open>The same session for a process started with one argument, the empty string.\<close>

definition S6_process :: Process where
  "S6_process = S1_process\<lparr>ProcArguments := [[]]\<rparr>"

definition S6_header :: FileHeader where
  "S6_header = (initial_header 1700000000 S6_process)\<lparr>Crc32 := Crc32_Update S1_body 0\<rparr>"

definition S6_file :: bytes where
  "S6_file = FileHeader_bytes S6_header @ S1_body"

definition S6_opened :: BinaryLogPlayer where
  "S6_opened = S1_opened\<lparr>p_Stream := S6_file, p_Header := S6_header\<rparr>"

lemma S6_initial_objects: "initial_objects S6_process = take 2 S1_objects"
  by (simp add: initial_objects_def S6_process_def S1_process_def S1_objects_def Write_string_def
      astr_def)

lemma S6_session: "Writer_session 1700000000 S6_process S1_events = Some S6_file"
  using Writer_session_eq[OF S1_events_debug, of 1700000000 S6_process]
  by (simp add: S1_events_objects S6_initial_objects S6_file_def S6_header_def S1_body_def
      del: objects_bytes_append)

lemma S6_open: "BinaryLogPlayer_new S6_file S1_state [] = (Inr (), S6_opened)"
  apply (subst BinaryLogPlayer_new_checked)
     apply (simp_all add: S6_file_def length_S1_body S6_opened_def S1_opened_def)
   apply (simp_all add: S1_state_def S6_header_def initial_header_def FileHeader_default_def)
  done

lemma S6_play: "fst (Play S5_env (S6_opened\<lparr>m_Handlers := [[]]\<rparr>)) = Inl (Throw UnexpectedEnd)"
  by (simp add: Play_def S6_opened_def S1_opened_def S6_file_def
      player_defs S6_header_def initial_header_def S1_process_def S6_process_def S5_env_def
      S1_body_def S1_defs)

text \<open>
  Claim C1 at a failing input. The process is started with one argument, the empty string;
  a DLL is loaded and the process exits; the session is closed with
  \<open>OnModuleCollectionComplete\<close>. \<open>Write(const std::string&, bool)\<close> returns at once for
  an empty string, so nothing is written for the argument, not even its length, while the
  header counts one argument. The file passes the sanity check, but \<open>Play\<close> reads a
  length for the argument, finds the signature of the first event, and throws "unexpected
  end of binary log file". The same session of a process without arguments is replayed to
  its end without an error. (The checksums themselves agree for every session, and a
  changed byte is always detected: \<open>crc_round_trip\<close>.)
\<close>

theorem empty_argument_breaks_replay:
  "ProcArguments S6_process = [[]] \<and>
   Writer_session 1700000000 S6_process S1_events = Some S6_file \<and>
   \<not> NoSanityCheck S1_state \<and>
   BinaryLogPlayer_new S6_file S1_state [] = (Inr (), S6_opened) \<and>
   fst (Play S5_env (AddHandler S6_opened)) = Inl (Throw UnexpectedEnd) \<and>
   ProcArguments S1_process = [] \<and>
   Writer_session 1700000000 S1_process S1_events = Some S1_file \<and>
   BinaryLogPlayer_new S1_file S1_state [] = (Inr (), S1_opened) \<and>
   fst (Play S5_env (AddHandler S1_opened)) = Inr ()"
proof -
  have a: "AddHandler S6_opened = S6_opened\<lparr>m_Handlers := [[]]\<rparr>"
    "AddHandler S1_opened = S1_opened\<lparr>m_Handlers := [[]]\<rparr>"
    by (simp_all add: AddHandler_def S6_opened_def S1_opened_def)
  have b: "ProcArguments S6_process = [[]]" "ProcArguments S1_process = []"
    "\<not> NoSanityCheck S1_state"
    by (simp_all add: S6_process_def S1_process_def S1_state_def)
  show ?thesis
    using b S6_session S6_open S6_play S1_session S1_open S1_play by (simp add: a)
qed

section \<open>Exception records\<close>

lemma length_EventEntry_bytes [simp]: "length (EventEntry_bytes e) = 48"
  by (simp add: EventEntry_bytes_def PROCESS_INFORMATION_bytes_def)

lemma length_ExceptionEventEntry_bytes [simp]: "length (ExceptionEventEntry_bytes e) = 79"
  by (simp add: ExceptionEventEntry_bytes_def)

lemma Wow64_of_bytes [simp]:
  "Wow64 (ExceptionEventEntry_of (ExceptionEventEntry_bytes e @ rest)) = Wow64 e"
  by (simp add: ExceptionEventEntry_of_def ExceptionEventEntry_bytes_def member_def
      EventEntry.defs ExceptionEventEntry.defs)

lemma Wow64_exceptionEventEntry:
  "Wow64 (exceptionEventEntry now info pi c collection isBreak) = of_bool (IsWow64 c)"
  by (simp add: exceptionEventEntry_def ExceptionEventEntry_new_def Is64_def Let_def
      EventEntry.defs ExceptionEventEntry.defs split: option.split)

lemma Read_run:
  "n \<le> SizeLeft st \<Longrightarrow>
   Read n True st =
     (Inr (take n (drop (p_StreamPos st) (p_Stream st))),
      st\<lparr>p_StreamPos := p_StreamPos st + n,
         m_Crc32 := Crc32_Update (take n (drop (p_StreamPos st) (p_Stream st))) (m_Crc32 st)\<rparr>)"
  by (simp add: Read_def thenP_def bindP_def AssertSizeLeft_def returnP_def Let_def)

text \<open>
  Claim C7. The \<open>Wow64\<close> byte of an exception record is 1 when the context of the event
  is the 32-bit one and 0 otherwise, and the register set written behind the record is
  the 32-bit one exactly when the byte is 1. On replay the 32-bit register set (716 bytes)
  is read exactly when the byte of the record is not 0, else the 64-bit one (1232 bytes);
  reading back what the writer wrote returns the register set that was written, with the
  flag of the context it came from.
\<close>

theorem wow64_byte_selects_context:
  "Wow64 (exceptionEventEntry now info pi c collection isBreak) = (if IsWow64 c then 1 else 0) \<and>
   Write_exception now info pi c trace collection isBreak =
     W_ExceptionEventEntry (exceptionEventEntry now info pi c collection isBreak) #
     (if Wow64 (exceptionEventEntry now info pi c collection isBreak) = 1
      then W_WOW64_CONTEXT (X86 c) else W_CONTEXT (X64 c)) #
     Write_trace trace collection \<and>
   ((if Wow64 frame \<noteq> 0 then sizeof_WOW64_CONTEXT else sizeof_CONTEXT) \<le> SizeLeft st \<longrightarrow>
      Read_context frame st =
        (if Wow64 frame \<noteq> 0 then
           (Inr \<lparr>IsWow64 = True, X64 = [],
                 X86 = take sizeof_WOW64_CONTEXT (drop (p_StreamPos st) (p_Stream st))\<rparr>,
            st\<lparr>p_StreamPos := p_StreamPos st + sizeof_WOW64_CONTEXT,
               m_Crc32 := Crc32_Update (take sizeof_WOW64_CONTEXT
                            (drop (p_StreamPos st) (p_Stream st))) (m_Crc32 st)\<rparr>)
         else
           (Inr \<lparr>IsWow64 = False,
                 X64 = take sizeof_CONTEXT (drop (p_StreamPos st) (p_Stream st)), X86 = []\<rparr>,
            st\<lparr>p_StreamPos := p_StreamPos st + sizeof_CONTEXT,
               m_Crc32 := Crc32_Update (take sizeof_CONTEXT
                            (drop (p_StreamPos st) (p_Stream st))) (m_Crc32 st)\<rparr>))) \<and>
   (length (X64 c) = sizeof_CONTEXT \<and> length (X86 c) = sizeof_WOW64_CONTEXT \<and>
    m_StreamSize st = length (p_Stream st) \<and>
    drop (p_StreamPos st) (p_Stream st) =
      objects_bytes (Write_exception now info pi c trace collection isBreak) @ rest \<longrightarrow>
      fst (bindP (Read sizeof_ExceptionEventEntry True)
             (\<lambda>d. Read_context (ExceptionEventEntry_of d)) st) =
        Inr (if IsWow64 c then \<lparr>IsWow64 = True, X64 = [], X86 = X86 c\<rparr>
             else \<lparr>IsWow64 = False, X64 = X64 c, X86 = []\<rparr>))"
proof (intro conjI impI)
  show "Wow64 (exceptionEventEntry now info pi c collection isBreak) = (if IsWow64 c then 1 else 0)"
    by (simp add: Wow64_exceptionEventEntry)
  show "Write_exception now info pi c trace collection isBreak =
     W_ExceptionEventEntry (exceptionEventEntry now info pi c collection isBreak) #
     (if Wow64 (exceptionEventEntry now info pi c collection isBreak) = 1
      then W_WOW64_CONTEXT (X86 c) else W_CONTEXT (X64 c)) #
     Write_trace trace collection"
    by (simp add: Write_exception_def Write_context_def Wow64_exceptionEventEntry Is64_def)
next
  assume "(if Wow64 frame \<noteq> 0 then sizeof_WOW64_CONTEXT else sizeof_CONTEXT) \<le> SizeLeft st"
  then show "Read_context frame st =
        (if Wow64 frame \<noteq> 0 then
           (Inr \<lparr>IsWow64 = True, X64 = [],
                 X86 = take sizeof_WOW64_CONTEXT (drop (p_StreamPos st) (p_Stream st))\<rparr>,
            st\<lparr>p_StreamPos := p_StreamPos st + sizeof_WOW64_CONTEXT,
               m_Crc32 := Crc32_Update (take sizeof_WOW64_CONTEXT
                            (drop (p_StreamPos st) (p_Stream st))) (m_Crc32 st)\<rparr>)
         else
           (Inr \<lparr>IsWow64 = False,
                 X64 = take sizeof_CONTEXT (drop (p_StreamPos st) (p_Stream st)), X86 = []\<rparr>,
            st\<lparr>p_StreamPos := p_StreamPos st + sizeof_CONTEXT,
               m_Crc32 := Crc32_Update (take sizeof_CONTEXT
                            (drop (p_StreamPos st) (p_Stream st))) (m_Crc32 st)\<rparr>))"
    by (simp add: Read_context_def bindP_def Read_run returnP_def split: if_splits)
next
  assume h: "length (X64 c) = sizeof_CONTEXT \<and> length (X86 c) = sizeof_WOW64_CONTEXT \<and>
    m_StreamSize st = length (p_Stream st) \<and>
    drop (p_StreamPos st) (p_Stream st) =
      objects_bytes (Write_exception now info pi c trace collection isBreak) @ rest"
  let ?e = "exceptionEventEntry now info pi c collection isBreak"
  let ?ctx = "if IsWow64 c then X86 c else X64 c"
  let ?tail = "objects_bytes (Write_trace trace collection) @ rest"
  have d: "drop (p_StreamPos st) (p_Stream st) = ExceptionEventEntry_bytes ?e @ ?ctx @ ?tail"
    using h by (simp add: Write_exception_def Write_context_def Is64_def objects_bytes_def)
  have "length (p_Stream st) - p_StreamPos st = length (ExceptionEventEntry_bytes ?e @ ?ctx @ ?tail)"
    using arg_cong[OF d, of length] by (simp only: length_drop)
  moreover have "m_StreamSize st = length (p_Stream st)" using h by simp
  ultimately have left: "SizeLeft st = 79 + length ?ctx + length ?tail"
    by (simp add: SizeLeft_def)
  let ?st1 = "st\<lparr>p_StreamPos := p_StreamPos st + 79,
         m_Crc32 := Crc32_Update (ExceptionEventEntry_bytes ?e) (m_Crc32 st)\<rparr>"
  have r1: "Read sizeof_ExceptionEventEntry True st = (Inr (ExceptionEventEntry_bytes ?e), ?st1)"
    using left by (simp add: Read_run sizeof_ExceptionEventEntry_def d)
  have d1: "drop (p_StreamPos ?st1) (p_Stream ?st1) = ?ctx @ ?tail"
    using d by (simp add: add.commute[of _ 79] drop_drop[symmetric] del: drop_drop)
  have left1: "SizeLeft ?st1 = length ?ctx + length ?tail"
    using left by (simp add: SizeLeft_def)
  have w: "Wow64 (ExceptionEventEntry_of (ExceptionEventEntry_bytes ?e)) = of_bool (IsWow64 c)"
    using Wow64_of_bytes[of ?e "[]"] by (simp add: Wow64_exceptionEventEntry)
  show "fst (bindP (Read sizeof_ExceptionEventEntry True)
             (\<lambda>d. Read_context (ExceptionEventEntry_of d)) st) =
        Inr (if IsWow64 c then \<lparr>IsWow64 = True, X64 = [], X86 = X86 c\<rparr>
             else \<lparr>IsWow64 = False, X64 = X64 c, X86 = []\<rparr>)"
  proof (cases "IsWow64 c")
    case True
    then have "sizeof_WOW64_CONTEXT \<le> SizeLeft ?st1" using left1 h by simp
    then show ?thesis
      using True h d1 by (simp add: bindP_def r1 Read_context_def w Read_run[of _ ?st1] returnP_def)
  next
    case False
    then have "sizeof_CONTEXT \<le> SizeLeft ?st1" using left1 h by simp
    then show ?thesis
      using False h d1 by (simp add: bindP_def r1 Read_context_def w Read_run[of _ ?st1] returnP_def)
  qed
qed

lemma EntryModule_DisassembleFrame [simp]:
  "EntryModule (DisassembleFrame pf t frame symbol entry) = EntryModule entry"
  by (simp add: DisassembleFrame_def Let_def split: prod.split)

lemma EntryModule_FrameEntry_None:
  assumes "Option.bind (SymFromAddr pf (AddrPC frame))
             (\<lambda>(d, symb). GetModuleAtAddress (m_TraceModules t) (SymAddress symb)) = None"
  shows "EntryModule (FrameEntry pf t frame) = Module_default"
proof (cases "SymFromAddr pf (AddrPC frame)")
  case None
  then show ?thesis
    by (simp add: FrameEntry_def Let_def DebugStackTraceEntry_default_def split: option.split)
next
  case (Some a)
  obtain d symb where a: "a = (d, symb)" by (cases a)
  from assms Some a show ?thesis
    by (simp add: FrameEntry_def Let_def DebugStackTraceEntry_default_def split: option.split)
qed

text \<open>
  Claim C10. A stack frame for which no module is found (no symbol at its address, or no
  module at the address of the symbol) gets an entry whose module is the default one, and the record written for an entry without module (base 0 or empty path)
  has module index 0, the value also written for an entry of the module with index 0.
  The exception record of an address in no module has module index -1.
\<close>

theorem stack_entry_without_module_index_0:
  "(Option.bind (SymFromAddr pf (AddrPC frame))
       (\<lambda>(d, symb). GetModuleAtAddress (m_TraceModules t) (SymAddress symb)) = None \<longrightarrow>
      EntryModule (FrameEntry pf t frame) = Module_default \<and>
      SteModuleIndex (stackTraceEntry collection (FrameEntry pf t frame)) = 0) \<and>
   (Base (EntryModule entry) = 0 \<or> Path (EntryModule entry) = [] \<longrightarrow>
      SteModuleIndex (stackTraceEntry collection entry) = 0) \<and>
   (Base (EntryModule other) \<noteq> 0 \<and> Path (EntryModule other) \<noteq> [] \<and>
    GetIndex collection (Path (EntryModule other)) = 0 \<longrightarrow>
      SteModuleIndex (stackTraceEntry collection other) = 0) \<and>
   hd (Write_entry collection entry) = W_StackTraceEntry (stackTraceEntry collection entry) \<and>
   (GetModuleAtAddress collection (ExceptionAddress info) = None \<longrightarrow>
      ExModuleIndex (exceptionEventEntry now info pi c collection isBreak) = - 1 \<and>
      ExModuleIndex (exceptionEventEntry now info pi c collection isBreak) \<noteq> 0)"
proof (intro conjI impI)
  assume h: "Option.bind (SymFromAddr pf (AddrPC frame))
       (\<lambda>(d, symb). GetModuleAtAddress (m_TraceModules t) (SymAddress symb)) = None"
  then show m: "EntryModule (FrameEntry pf t frame) = Module_default"
    by (rule EntryModule_FrameEntry_None)
  show "SteModuleIndex (stackTraceEntry collection (FrameEntry pf t frame)) = 0"
    by (simp add: stackTraceEntry_def m Module_default_def)
next
  assume "Base (EntryModule entry) = 0 \<or> Path (EntryModule entry) = []"
  then show "SteModuleIndex (stackTraceEntry collection entry) = 0"
    by (auto simp add: stackTraceEntry_def)
next
  assume "Base (EntryModule other) \<noteq> 0 \<and> Path (EntryModule other) \<noteq> [] \<and>
    GetIndex collection (Path (EntryModule other)) = 0"
  then show "SteModuleIndex (stackTraceEntry collection other) = 0"
    by (simp add: stackTraceEntry_def)
next
  show "hd (Write_entry collection entry) = W_StackTraceEntry (stackTraceEntry collection entry)"
    by (simp add: Write_entry_def)
next
  assume n: "GetModuleAtAddress collection (ExceptionAddress info) = None"
  show "ExModuleIndex (exceptionEventEntry now info pi c collection isBreak) = - 1"
    by (simp add: exceptionEventEntry_def n Let_def)
  show "ExModuleIndex (exceptionEventEntry now info pi c collection isBreak) \<noteq> 0"
    by (simp add: exceptionEventEntry_def n Let_def)
qed

text \<open>An access violation at 0x401000, outside every module, in a 32-bit process.\<close>

definition S2_info :: EXCEPTION_DEBUG_INFO where
  "S2_info = \<lparr>ExceptionCode = 0xC0000005, ExceptionAddress = 0x401000,
     ExceptionInformation = [], dwFirstChance = 1\<rparr>"

definition S2_context :: DebugContext where
  "S2_context = \<lparr>IsWow64 = True, X64 = replicate 1232 0, X86 = replicate 716 1\<rparr>"

definition S2_trace :: DebugStackTrace where
  "S2_trace = \<lparr>m_ContextIs64 = False, m_TraceModules = S1_modules, m_Trace = [],
     m_MaxRecursion = SIZE_MAX, m_MaxInstruction = 0\<rparr>"

definition S2_written :: bytes where
  "S2_written =
     objects_bytes (Write_exception 1700000001 S2_info S1_pi S2_context S2_trace S1_modules False)"

definition S2_player :: BinaryLogPlayer where
  "S2_player =
     \<lparr>p_Stream = S2_written, p_StreamPos = 0, m_StreamSize = length S2_written,
      m_State = S1_state, m_ShouldFilter = False, m_Filter = {}, p_Header = S1_header,
      m_Crc32 = 0, m_Handlers = [], m_PlayerModules = S1_modules, console = []\<rparr>"

lemma length_StackTrace_bytes [simp]: "length (StackTrace_bytes t) = 28"
  by (simp add: StackTrace_bytes_def)

lemma length_S2_written: "length S2_written = 823"
  by (simp add: S2_written_def Write_exception_def Write_context_def Write_trace_def Is64_def
      S2_context_def S2_trace_def objects_bytes_def)

theorem wow64_byte_selects_context_witness:
  "(if Wow64 (exceptionEventEntry 1700000001 S2_info S1_pi S2_context S1_modules False) \<noteq> 0
    then sizeof_WOW64_CONTEXT else sizeof_CONTEXT) \<le> SizeLeft S2_player \<and>
   length (X64 S2_context) = sizeof_CONTEXT \<and> length (X86 S2_context) = sizeof_WOW64_CONTEXT \<and>
   m_StreamSize S2_player = length (p_Stream S2_player) \<and>
   drop (p_StreamPos S2_player) (p_Stream S2_player) =
     objects_bytes (Write_exception 1700000001 S2_info S1_pi S2_context S2_trace S1_modules False)
       @ [] \<and>
   Wow64 (exceptionEventEntry 1700000001 S2_info S1_pi S2_context S1_modules False) = 1 \<and>
   fst (Read_context (exceptionEventEntry 1700000001 S2_info S1_pi S2_context S1_modules False)
          S2_player) =
     Inr \<lparr>IsWow64 = True, X64 = [], X86 = take sizeof_WOW64_CONTEXT S2_written\<rparr> \<and>
   fst (bindP (Read sizeof_ExceptionEventEntry True)
          (\<lambda>d. Read_context (ExceptionEventEntry_of d)) S2_player) =
     Inr \<lparr>IsWow64 = True, X64 = [], X86 = X86 S2_context\<rparr>"
proof -
  let ?e = "exceptionEventEntry 1700000001 S2_info S1_pi S2_context S1_modules False"
  note r = wow64_byte_selects_context[of 1700000001 S2_info S1_pi S2_context S1_modules False
      S2_trace ?e S2_player "[]"]
  have w: "Wow64 ?e = 1" using r by (simp add: S2_context_def)
  have a: "(if Wow64 ?e \<noteq> 0 then sizeof_WOW64_CONTEXT else sizeof_CONTEXT) \<le> SizeLeft S2_player"
    by (simp add: w SizeLeft_def S2_player_def length_S2_written sizeof_WOW64_CONTEXT_def)
  have b: "length (X64 S2_context) = sizeof_CONTEXT \<and>
      length (X86 S2_context) = sizeof_WOW64_CONTEXT \<and>
      m_StreamSize S2_player = length (p_Stream S2_player) \<and>
      drop (p_StreamPos S2_player) (p_Stream S2_player) =
        objects_bytes (Write_exception 1700000001 S2_info S1_pi S2_context S2_trace S1_modules False)
          @ []"
    by (simp add: S2_context_def S2_player_def S2_written_def sizeof_CONTEXT_def
        sizeof_WOW64_CONTEXT_def)
  from r a have c: "fst (Read_context ?e S2_player) =
     Inr \<lparr>IsWow64 = True, X64 = [], X86 = take sizeof_WOW64_CONTEXT S2_written\<rparr>"
    by (simp add: w S2_player_def)
  from r b have d: "fst (bindP (Read sizeof_ExceptionEventEntry True)
          (\<lambda>d. Read_context (ExceptionEventEntry_of d)) S2_player) =
     Inr \<lparr>IsWow64 = True, X64 = [], X86 = X86 S2_context\<rparr>"
    by (simp add: S2_context_def)
  show ?thesis using a b w c d by blast
qed

definition S2_entry_in_module :: DebugStackTraceEntry where
  "S2_entry_in_module =
     DebugStackTraceEntry_default
       \<lparr>EntryModule := \<lparr>Base = 0x7FF000000000, Size = 0x10000, Path = k_dll\<rparr>,
        Address := 0x7FF000001000\<rparr>"

lemma S2_no_module: "GetModuleAtAddress S1_modules 0x401000 = None"
  by (simp add: S1_modules_def GetModuleAtAddress_def Load_def ModuleCollection_empty_def
      Contains_def ContainsAddress_def)

theorem stack_entry_without_module_index_0_witness:
  "Option.bind (SymFromAddr no_symbols (AddrPC distinct_frame))
      (\<lambda>(d, symb). GetModuleAtAddress (m_TraceModules S2_trace) (SymAddress symb)) = None \<and>
   SteModuleIndex (stackTraceEntry S1_modules (FrameEntry no_symbols S2_trace distinct_frame)) = 0 \<and>
   (Base (EntryModule DebugStackTraceEntry_default) = 0 \<or>
    Path (EntryModule DebugStackTraceEntry_default) = []) \<and>
   SteModuleIndex (stackTraceEntry S1_modules DebugStackTraceEntry_default) = 0 \<and>
   (Base (EntryModule S2_entry_in_module) \<noteq> 0 \<and> Path (EntryModule S2_entry_in_module) \<noteq> [] \<and>
    GetIndex S1_modules (Path (EntryModule S2_entry_in_module)) = 0) \<and>
   SteModuleIndex (stackTraceEntry S1_modules S2_entry_in_module) = 0 \<and>
   GetModuleAtAddress S1_modules (ExceptionAddress S2_info) = None \<and>
   ExModuleIndex (exceptionEventEntry 1700000001 S2_info S1_pi S2_context S1_modules False) = - 1"
proof -
  note r = stack_entry_without_module_index_0[of no_symbols distinct_frame S2_trace S1_modules
      DebugStackTraceEntry_default S2_entry_in_module S2_info 1700000001 S1_pi S2_context False]
  have a: "Option.bind (SymFromAddr no_symbols (AddrPC distinct_frame))
      (\<lambda>(d, symb). GetModuleAtAddress (m_TraceModules S2_trace) (SymAddress symb)) = None"
    by (simp add: no_symbols_def)
  have b: "Base (EntryModule DebugStackTraceEntry_default) = 0 \<or>
    Path (EntryModule DebugStackTraceEntry_default) = []"
    by (simp add: DebugStackTraceEntry_default_def Module_default_def)
  have c: "Base (EntryModule S2_entry_in_module) \<noteq> 0 \<and> Path (EntryModule S2_entry_in_module) \<noteq> [] \<and>
    GetIndex S1_modules (Path (EntryModule S2_entry_in_module)) = 0"
    by (simp add: S2_entry_in_module_def S1_modules_def k_dll_def)
  have d: "GetModuleAtAddress S1_modules (ExceptionAddress S2_info) = None"
    by (simp add: S2_info_def S2_no_module)
  show ?thesis using r a b c d by blast
qed

section \<open>Debugger\<close>

text \<open>
  The live debugger: the handlers (each with the calls it has received), the collection
  of loaded modules, the keys the console will deliver, and the options of the
  subcommand that \<open>Tick\<close> reads.
\<close>

record Debugger =
  d_Handlers :: "handler_call list list"
  m_LoadedModules :: ModuleCollection
  d_console :: bytes
  MaxRecursionOption :: u64
  MaxInstructionOption :: u64
  BreakB :: bool
  BreakE :: bool
  BreakF :: bool

text \<open>\<open>DEBUG_EVENT\<close>: the ids of process and thread and the member of the union that
  the event code selects.\<close>

datatype debug_info =
    Exception_info EXCEPTION_DEBUG_INFO
  | CreateProcessInfo CREATE_PROCESS_DEBUG_INFO
  | CreateThread_info u64
  | ExitProcess_info u32
  | ExitThread_info u32
  | LoadDll_info u64
  | DebugString_info OUTPUT_DEBUG_STRING_INFO
  | RipInfo RIP_INFO
  | UnloadDll_info u64
  | Unknown_info

record DEBUG_EVENT =
  ev_dwProcessId :: u32
  ev_dwThreadId :: u32
  u :: debug_info

text \<open>
  What the system answers during one call of \<open>Tick\<close>: the event waited for (if any),
  the handles opened (0 on failure), the clock, the thread context with the symbol
  services and the frames the stack walker yields, the path behind the file handle of the
  event and the size of the module read from the process, the debug string read and
  trimmed, and the message for the error code of a RIP event.
\<close>

record system =
  sys_WaitForDebugEventEx :: "DEBUG_EVENT option"
  sys_OpenProcess :: u64
  sys_OpenThread :: u64
  sys_time :: u64
  sys_context :: DebugContext
  sys_platform :: platform
  sys_frames :: "STACKFRAME64 list"
  sys_ExceptionNames :: "u32 \<rightharpoonup> wstring"
  sys_GetPathFromFileHandleW :: wstring
  sys_GetRemoteModuleSize :: u64
  sys_ReadString :: bytes
  sys_ReadStringW :: wstring
  sys_GetErrorMessageW :: wstring

definition EXCEPTION_BREAKPOINT :: u32 where "EXCEPTION_BREAKPOINT = 0x80000003"
definition STATUS_WX86_BREAKPOINT :: u32 where "STATUS_WX86_BREAKPOINT = 0x4000001F"

text \<open>\<open>for (auto handler : m_Handlers) handler->...\<close>: every handler receives the call.\<close>

definition fan_out :: "handler_call \<Rightarrow> Debugger \<Rightarrow> Debugger" where
  "fan_out call d = d\<lparr>d_Handlers := map (\<lambda>received. received @ [call]) (d_Handlers d)\<rparr>"

text \<open>\<open>Debugger::HandleBreakpointOptions\<close>, then the rest of \<open>Tick\<close> returning \<open>stay\<close>.\<close>

definition Debugger_HandleBreakpointOptions :: "bool \<Rightarrow> Debugger \<Rightarrow> (stop + bool) \<times> Debugger" where
  "Debugger_HandleBreakpointOptions stay d =
     (case HandleBreakpointOptions_keys (d_console d) of
        (None, keys) \<Rightarrow> (Inr stay, d\<lparr>d_console := keys\<rparr>)
      | (Some halt, keys) \<Rightarrow> (Inl halt, d\<lparr>d_console := keys\<rparr>))"

text \<open>
  \<open>Debugger::Tick\<close>. The result is \<open>stay\<close>, unless the user aborts at a break prompt.
  \<open>ModuleCollection::Load(hProcess, path, moduleHandle)\<close> is \<open>Load\<close> with the size read
  from the process. For a C++ exception \<open>Tick\<close> also decodes the run-time type
  information and hands it to \<open>OnException\<close> as one more argument; the interface of the
  handlers has no parameter for it, and the call is kept as the interface declares it.
  Messages printed to the console, the closing of the handles and
  \<open>ContinueDebugEvent\<close> leave the state as it is.
\<close>

definition Tick :: "system \<Rightarrow> Debugger \<Rightarrow> (stop + bool) \<times> Debugger" where
  "Tick sys d =
     (case sys_WaitForDebugEventEx sys of
        None \<Rightarrow> (Inr True, d)
      | Some event \<Rightarrow>
          if sys_OpenProcess sys = 0 then (Inr True, d)
          else if sys_OpenThread sys = 0 then (Inr True, d)
          else
            let pi = \<lparr>hProcess = sys_OpenProcess sys, hThread = sys_OpenThread sys,
                      dwProcessId = ev_dwProcessId event, dwThreadId = ev_dwThreadId event\<rparr>;
                time = sys_time sys
            in case u event of
                 Exception_info info \<Rightarrow>
                   (let context = sys_context sys;
                        trace = DebugStackTrace_new (sys_platform sys) (sys_frames sys)
                                  (Is64 context) (m_LoadedModules d) (MaxRecursionOption d)
                                  (MaxInstructionOption d)
                    in if ExceptionCode info = EXCEPTION_BREAKPOINT \<or>
                          ExceptionCode info = STATUS_WX86_BREAKPOINT
                       then
                         (let d1 = fan_out (OnBreakpointHit time info pi context trace
                                              (m_LoadedModules d)) d
                          in if BreakB d1 then Debugger_HandleBreakpointOptions True d1
                             else (Inr True, d1))
                       else
                         (let name = (case sys_ExceptionNames sys (ExceptionCode info) of
                                        Some n \<Rightarrow> n | None \<Rightarrow> []);
                              d1 = fan_out (OnException time info pi (dwFirstChance info \<noteq> 0)
                                              name context trace (m_LoadedModules d)) d
                          in if BreakE d1 \<and> (\<not> BreakF d1 \<or> dwFirstChance info \<noteq> 0)
                             then Debugger_HandleBreakpointOptions True d1
                             else (Inr True, d1)))
               | CreateProcessInfo info \<Rightarrow>
                   (let fullPath = sys_GetPathFromFileHandleW sys;
                        d1 = d\<lparr>m_LoadedModules :=
                               Load fullPath (lpBaseOfImage info) (sys_GetRemoteModuleSize sys)
                                 (m_LoadedModules d)\<rparr>
                    in (Inr True,
                        fan_out (OnCreateProcess time info pi fullPath (m_LoadedModules d1)) d1))
               | CreateThread_info lpStartAddress \<Rightarrow>
                   (Inr True, fan_out (OnCreateThread time lpStartAddress pi (m_LoadedModules d)) d)
               | ExitProcess_info dwExitCode \<Rightarrow>
                   (Inr False, fan_out (OnExitProcess time dwExitCode pi (m_LoadedModules d)) d)
               | ExitThread_info dwExitCode \<Rightarrow>
                   (Inr True, fan_out (OnExitThread time dwExitCode pi (m_LoadedModules d)) d)
               | LoadDll_info lpBaseOfDll \<Rightarrow>
                   (let fullPath = sys_GetPathFromFileHandleW sys;
                        d1 = d\<lparr>m_LoadedModules :=
                               Load fullPath lpBaseOfDll (sys_GetRemoteModuleSize sys)
                                 (m_LoadedModules d)\<rparr>
                    in (Inr True,
                        fan_out (OnDllLoad time lpBaseOfDll pi fullPath
                                   (GetIndex (m_LoadedModules d1) fullPath) (m_LoadedModules d1)) d1))
               | DebugString_info info \<Rightarrow>
                   (if fUnicode info = 0
                    then (Inr True, fan_out (OnDebugString time info pi (sys_ReadString sys)) d)
                    else (Inr True, fan_out (OnDebugStringW time info pi (sys_ReadStringW sys)) d))
               | RipInfo info \<Rightarrow>
                   (Inr True, fan_out (OnRip time info pi (sys_GetErrorMessageW sys)) d)
               | UnloadDll_info lpBaseOfDll \<Rightarrow>
                   (let fullPath = Get (m_LoadedModules d) lpBaseOfDll;
                        d1 = fan_out (OnDllUnload time lpBaseOfDll pi fullPath
                                        (GetIndex (m_LoadedModules d) fullPath)
                                        (m_LoadedModules d)) d
                    in (Inr True,
                        d1\<lparr>m_LoadedModules := Unload lpBaseOfDll (m_LoadedModules d1)\<rparr>))
               | Unknown_info \<Rightarrow> (Inr True, d))"

text \<open>
  The collections that occur: what a sequence of loads and unloads leaves of the empty
  collection.
\<close>

datatype module_event = Loaded wstring u64 u64 | Unloaded u64

fun module_step :: "module_event \<Rightarrow> ModuleCollection \<Rightarrow> ModuleCollection" where
  "module_step (Loaded path base sz) c = Load path base sz c"
| "module_step (Unloaded base) c = Unload base c"

definition collection_after :: "module_event list \<Rightarrow> ModuleCollection" where
  "collection_after evs = fold module_step evs ModuleCollection_empty"

subsection \<open>The collection after loads and unloads\<close>

lemma keys_try_emplace:
  "set (map fst (try_emplace k v xs)) = insert k (set (map fst xs))"
proof (induction xs)
  case Nil show ?case by simp
next
  case (Cons x xs)
  obtain a b where x: "x = (a, b)" by (cases x)
  show ?case using Cons.IH unfolding x by (simp del: set_map) blast
qed

lemma sorted_try_emplace:
  "sorted (map fst xs) \<Longrightarrow> sorted (map fst (try_emplace k v xs))"
proof (induction xs)
  case Nil show ?case by simp
next
  case (Cons x xs)
  obtain k' v' where x: "x = (k', v')" by (cases x)
  from Cons.prems have s: "sorted (map fst xs)" and le: "\<forall>y\<in>set (map fst xs). k' \<le> y"
    by (simp_all add: x)
  have "\<forall>y\<in>set (map fst (try_emplace k v xs)). k' \<le> y" if "\<not> k < k'"
    unfolding keys_try_emplace using that le by auto
  then show ?case
    using Cons.IH[OF s] Cons.prems le by (simp add: x del: set_map) auto
qed

lemma map_of_try_emplace:
  "sorted (map fst xs) \<Longrightarrow>
   map_of (try_emplace k v xs) k' =
     (if k' = k then (case map_of xs k of None \<Rightarrow> Some v | Some v' \<Rightarrow> Some v') else map_of xs k')"
proof (induction xs)
  case Nil show ?case by simp
next
  case (Cons x xs)
  obtain a b where x: "x = (a, b)" by (cases x)
  from Cons.prems have s: "sorted (map fst xs)" and le: "\<forall>y\<in>set xs. a \<le> fst y"
    by (simp_all add: x)
  have none: "map_of xs k = None" if "k < a"
  proof (cases "map_of xs k")
    case (Some w)
    then have "(k, w) \<in> set xs" by (rule map_of_SomeD)
    with le have "a \<le> k" by auto
    with that show ?thesis by simp
  qed simp
  show ?case
    using Cons.IH[OF s] none by (auto simp add: x split: option.splits)
qed

lemma map_of_filter_key:
  "map_of (filter (\<lambda>e. fst e \<noteq> k) xs) k' = (if k' = k then None else map_of xs k')"
  by (induction xs) auto

lemma collection_after_snoc:
  "collection_after (evs @ [e]) = module_step e (collection_after evs)"
  by (simp add: collection_after_def)

lemma Load_fields:
  "m_Modules (Load path base sz c) = (if Contains c path then m_Modules c else m_Modules c @ [path])"
  "m_ModuleIndexMap (Load path base sz c) =
     (if Contains c path then m_ModuleIndexMap c
      else (m_ModuleIndexMap c)(path \<mapsto> length (m_Modules c)))"
  "m_ModuleMap (Load path base sz c) =
     try_emplace base \<lparr>Base = base, Size = sz, Path = path\<rparr> (m_ModuleMap c)"
  by (simp_all add: Load_def Let_def)

lemma Unload_fields:
  "m_Modules (Unload base c) = m_Modules c"
  "m_ModuleIndexMap (Unload base c) = m_ModuleIndexMap c"
  "map_of (m_ModuleMap (Unload base c)) b = (if b = base then None else map_of (m_ModuleMap c) b)"
  by (auto simp add: Unload_def map_of_filter_key split: option.splits)

lemma collection_after_invariant:
  "sorted (map fst (m_ModuleMap (collection_after evs))) \<and>
   distinct (m_Modules (collection_after evs)) \<and>
   (\<forall>p i. m_ModuleIndexMap (collection_after evs) p = Some i \<longleftrightarrow>
      i < length (m_Modules (collection_after evs)) \<and> m_Modules (collection_after evs) ! i = p) \<and>
   (\<forall>b m. map_of (m_ModuleMap (collection_after evs)) b = Some m \<longrightarrow>
      Base m = b \<and> Path m \<in> set (m_Modules (collection_after evs)))"
proof (induction evs rule: rev_induct)
  case Nil
  show ?case by (simp add: collection_after_def ModuleCollection_empty_def)
next
  case (snoc e evs)
  let ?c = "collection_after evs"
  note so = snoc.IH[THEN conjunct1]
  note d = snoc.IH[THEN conjunct2, THEN conjunct1]
  note ix = snoc.IH[THEN conjunct2, THEN conjunct2, THEN conjunct1, rule_format]
  note mm = snoc.IH[THEN conjunct2, THEN conjunct2, THEN conjunct2, rule_format]
  show ?case
  proof (cases e)
    case (Unloaded base)
    have "sorted (map fst (m_ModuleMap (Unload base ?c)))"
      using so by (auto simp add: Unload_def sorted_filter split: option.splits)
    then show ?thesis
      using d ix mm
      by (auto simp add: collection_after_snoc Unloaded Unload_fields split: if_splits)
  next
    case (Loaded path base sz)
    show ?thesis
    proof (cases "Contains ?c path")
      case True
      then obtain i where i: "m_ModuleIndexMap ?c path = Some i" by (auto simp: Contains_def)
      then have "path \<in> set (m_Modules ?c)" using ix[of path i] by auto
      then show ?thesis
        using so d ix mm True
        by (auto simp add: collection_after_snoc Loaded Load_fields map_of_try_emplace
            sorted_try_emplace split: option.splits if_splits)
    next
      case False
      then have none: "m_ModuleIndexMap ?c path = None" by (simp add: Contains_def)
      have notin: "path \<notin> set (m_Modules ?c)"
      proof
        assume "path \<in> set (m_Modules ?c)"
        then obtain i where "i < length (m_Modules ?c)" "m_Modules ?c ! i = path"
          by (auto simp: in_set_conv_nth)
        then have "m_ModuleIndexMap ?c path = Some i" using ix by simp
        with none show False by simp
      qed
      have a: "distinct (m_Modules (collection_after (evs @ [e])))"
        using d notin False by (simp add: collection_after_snoc Loaded Load_fields)
      have b: "(m_ModuleIndexMap (collection_after (evs @ [e])) p = Some i) =
          (i < length (m_Modules (collection_after (evs @ [e]))) \<and>
           m_Modules (collection_after (evs @ [e])) ! i = p)" for p i
        using ix[of p i] notin False none
        by (auto simp add: collection_after_snoc Loaded Load_fields nth_append
            split: if_splits)
      have c: "map_of (m_ModuleMap (collection_after (evs @ [e]))) b = Some m \<Longrightarrow>
          Base m = b \<and> Path m \<in> set (m_Modules (collection_after (evs @ [e])))" for b m
        using mm[of b m] False so
        by (auto simp add: collection_after_snoc Loaded Load_fields map_of_try_emplace
            split: option.splits if_splits)
      have s': "sorted (map fst (m_ModuleMap (collection_after (evs @ [e]))))"
        using so by (simp add: collection_after_snoc Loaded Load_fields sorted_try_emplace)
      show ?thesis using s' a b c by blast
    qed
  qed
qed


text \<open>The paths in the order in which they were first seen.\<close>

definition loaded_paths :: "module_event list \<Rightarrow> wstring list" where
  "loaded_paths evs = concat (map (\<lambda>e. case e of Loaded p b s \<Rightarrow> [p] | Unloaded b \<Rightarrow> []) evs)"

definition first_seen :: "wstring list \<Rightarrow> wstring list" where
  "first_seen ps = rev (remdups (rev ps))"

lemma first_seen_snoc:
  "first_seen (ps @ [p]) = (if p \<in> set ps then first_seen ps else first_seen ps @ [p])"
  by (simp add: first_seen_def)

lemma set_first_seen [simp]: "set (first_seen ps) = set ps"
  by (simp add: first_seen_def)

lemma m_Modules_collection_after:
  "m_Modules (collection_after evs) = first_seen (loaded_paths evs)"
proof (induction evs rule: rev_induct)
  case Nil
  show ?case
    by (simp add: collection_after_def ModuleCollection_empty_def loaded_paths_def first_seen_def)
next
  case (snoc e evs)
  note ix = collection_after_invariant[of evs, THEN conjunct2, THEN conjunct2, THEN conjunct1,
      rule_format]
  show ?case
  proof (cases e)
    case (Unloaded base)
    then show ?thesis
      using snoc.IH by (simp add: collection_after_snoc Unload_fields loaded_paths_def)
  next
    case (Loaded path base sz)
    have "Contains (collection_after evs) path \<longleftrightarrow> path \<in> set (m_Modules (collection_after evs))"
      using ix[of path] by (auto simp add: Contains_def in_set_conv_nth)
    then show ?thesis
      using snoc.IH Loaded
      by (simp add: collection_after_snoc Load_fields loaded_paths_def first_seen_snoc)
  qed
qed

lemma sint_word_of_nat_small:
  assumes "i < 2 ^ 31"
  shows "sint (word_of_nat i :: u32) = int i"
proof -
  have "word_of_nat i = (word_of_int (int i) :: u32)" by simp
  then have "sint (word_of_nat i :: u32) = signed_take_bit 31 (int i)"
    by (simp only: sint_sbintrunc') simp
  also have "\<dots> = int i"
    using assms by (intro signed_take_bit_int_eq_self) simp_all
  finally show ?thesis .
qed

lemma resolves_before_unload:
  assumes "map_of (m_ModuleMap (collection_after evs)) base = Some m"
    and "length (m_Modules (collection_after evs)) < 2 ^ 31"
  shows "Get (collection_after evs) base = Path m"
    and "Active (collection_after evs) base"
    and "0 \<le> GetIndex (collection_after evs) (Path m)"
    and "first_seen (loaded_paths evs) ! nat (GetIndex (collection_after evs) (Path m)) = Path m"
proof -
  let ?c = "collection_after evs"
  note ix = collection_after_invariant[of evs, THEN conjunct2, THEN conjunct2, THEN conjunct1,
      rule_format]
  note mm = collection_after_invariant[of evs, THEN conjunct2, THEN conjunct2, THEN conjunct2,
      rule_format, OF assms(1)]
  show "Get ?c base = Path m" "Active ?c base"
    using assms(1) by (simp_all add: Get_def Active_def)
  from mm obtain i where i: "i < length (m_Modules ?c)" "m_Modules ?c ! i = Path m"
    by (auto simp: in_set_conv_nth)
  then have im: "m_ModuleIndexMap ?c (Path m) = Some i" using ix by simp
  have "i < 2 ^ 31" using i(1) assms(2) by simp
  then have "sint (word_of_nat i :: u32) = int i"
    by (rule sint_word_of_nat_small)
  then have g: "GetIndex ?c (Path m) = int i" by (simp add: GetIndex_def im)
  show "0 \<le> GetIndex ?c (Path m)" by (simp add: g)
  show "first_seen (loaded_paths evs) ! nat (GetIndex ?c (Path m)) = Path m"
    using i(2) by (simp add: g m_Modules_collection_after)
qed


text \<open>
  A process that has loaded \<open>a.exe\<close> and \<open>k.dll\<close> and now unloads the latter, seen by the
  live debugger with two handlers and by the player with one.
\<close>

definition Unload_event :: DEBUG_EVENT where
  "Unload_event =
     \<lparr>ev_dwProcessId = 0x1234, ev_dwThreadId = 0x5678, u = UnloadDll_info 0x7FF000000000\<rparr>"

definition Unload_sys :: system where
  "Unload_sys =
     \<lparr>sys_WaitForDebugEventEx = Some Unload_event, sys_OpenProcess = 0x1A4,
      sys_OpenThread = 0x1A8, sys_time = 1700000003,
      sys_context = \<lparr>IsWow64 = False, X64 = [], X86 = []\<rparr>, sys_platform = no_symbols,
      sys_frames = [], sys_ExceptionNames = Map.empty, sys_GetPathFromFileHandleW = [],
      sys_GetRemoteModuleSize = 0, sys_ReadString = [], sys_ReadStringW = [],
      sys_GetErrorMessageW = []\<rparr>"

definition Unload_loads :: "module_event list" where
  "Unload_loads = [Loaded (wstr ''a.exe'') 0x400000 0x8000, Loaded (wstr ''k.dll'') 0x7FF000000000 0x10000]"

definition Unload_debugger :: Debugger where
  "Unload_debugger =
     \<lparr>d_Handlers = [[], []], m_LoadedModules = collection_after Unload_loads, d_console = [],
      MaxRecursionOption = SIZE_MAX, MaxInstructionOption = 0, BreakB = False, BreakE = False,
      BreakF = False\<rparr>"

definition Unload_player :: BinaryLogPlayer where
  "Unload_player =
     \<lparr>p_Stream = [], p_StreamPos = 0, m_StreamSize = 0,
      m_State = \<lparr>NoSanityCheck = False, BreakOnBreakpoints = False, BreakOnExceptions = False,
                  BreakOnFirstChanceOnly = False, ReplayEventFilter = []\<rparr>,
      m_ShouldFilter = False, m_Filter = {}, p_Header = FileHeader_default, m_Crc32 = 0,
      m_Handlers = [[]], m_PlayerModules = collection_after Unload_loads, console = []\<rparr>"

definition Unload_pi :: PROCESS_INFORMATION where
  "Unload_pi = \<lparr>hProcess = 0x1A4, hThread = 0x1A8, dwProcessId = 0x1234, dwThreadId = 0x5678\<rparr>"

text \<open>
  Claim C8. For an \<open>UNLOAD_DLL\<close> event \<open>Tick\<close> gives every handler the call
  \<open>OnDllUnload\<close> with the path the base resolves to, the index of that path and the
  collection as it is before the unload, and only then unloads the module; so does
  \<open>EmitDllUnload\<close> of the player for every handler when the event filter lets the event
  through. In a collection that loads and unloads have built, a base that is loaded
  resolves to the path of its module, whose index is its position among the paths in the
  order they were first seen; after the unload the base is not active and resolves to the
  empty string.
\<close>

theorem unload_after_fan_out:
  "(sys_WaitForDebugEventEx sys = Some event \<and> u event = UnloadDll_info base \<and>
    sys_OpenProcess sys \<noteq> 0 \<and> sys_OpenThread sys \<noteq> 0 \<longrightarrow>
      Tick sys d =
        (Inr True,
         d\<lparr>d_Handlers :=
              map (\<lambda>received. received @
                     [OnDllUnload (sys_time sys) base
                        \<lparr>hProcess = sys_OpenProcess sys, hThread = sys_OpenThread sys,
                         dwProcessId = ev_dwProcessId event, dwThreadId = ev_dwThreadId event\<rparr>
                        (Get (m_LoadedModules d) base)
                        (GetIndex (m_LoadedModules d) (Get (m_LoadedModules d) base))
                        (m_LoadedModules d)])
                (d_Handlers d),
            m_LoadedModules := Unload base (m_LoadedModules d)\<rparr>)) \<and>
   (\<not> m_ShouldFilter st \<or> (m_ShouldFilter st \<and> ''unload_dll'' \<in> m_Filter st) \<longrightarrow>
      EmitDllUnload time frame st =
        (Inr (),
         st\<lparr>m_Handlers :=
               map (\<lambda>received. received @
                      [OnDllUnload time (DuModuleBase frame) (ProcessInformation frame)
                         (Get (m_PlayerModules st) (DuModuleBase frame))
                         (GetIndex (m_PlayerModules st)
                            (Get (m_PlayerModules st) (DuModuleBase frame)))
                         (m_PlayerModules st)])
                 (m_Handlers st),
             m_PlayerModules := Unload (DuModuleBase frame) (m_PlayerModules st)\<rparr>)) \<and>
   (map_of (m_ModuleMap (collection_after evs)) loaded = Some m \<and>
    length (m_Modules (collection_after evs)) < 2 ^ 31 \<longrightarrow>
      Get (collection_after evs) loaded = Path m \<and>
      Active (collection_after evs) loaded \<and>
      0 \<le> GetIndex (collection_after evs) (Get (collection_after evs) loaded) \<and>
      first_seen (loaded_paths evs) !
        nat (GetIndex (collection_after evs) (Get (collection_after evs) loaded)) = Path m \<and>
      \<not> Active (Unload loaded (collection_after evs)) loaded \<and>
      Get (Unload loaded (collection_after evs)) loaded = [])"
proof (intro conjI impI)
  assume "sys_WaitForDebugEventEx sys = Some event \<and> u event = UnloadDll_info base \<and>
    sys_OpenProcess sys \<noteq> 0 \<and> sys_OpenThread sys \<noteq> 0"
  then show "Tick sys d =
        (Inr True,
         d\<lparr>d_Handlers :=
              map (\<lambda>received. received @
                     [OnDllUnload (sys_time sys) base
                        \<lparr>hProcess = sys_OpenProcess sys, hThread = sys_OpenThread sys,
                         dwProcessId = ev_dwProcessId event, dwThreadId = ev_dwThreadId event\<rparr>
                        (Get (m_LoadedModules d) base)
                        (GetIndex (m_LoadedModules d) (Get (m_LoadedModules d) base))
                        (m_LoadedModules d)])
                (d_Handlers d),
            m_LoadedModules := Unload base (m_LoadedModules d)\<rparr>)"
    by (simp add: Tick_def fan_out_def Let_def)
next
  assume "\<not> m_ShouldFilter st \<or> (m_ShouldFilter st \<and> ''unload_dll'' \<in> m_Filter st)"
  then show "EmitDllUnload time frame st =
        (Inr (),
         st\<lparr>m_Handlers :=
               map (\<lambda>received. received @
                      [OnDllUnload time (DuModuleBase frame) (ProcessInformation frame)
                         (Get (m_PlayerModules st) (DuModuleBase frame))
                         (GetIndex (m_PlayerModules st)
                            (Get (m_PlayerModules st) (DuModuleBase frame)))
                         (m_PlayerModules st)])
                 (m_Handlers st),
             m_PlayerModules := Unload (DuModuleBase frame) (m_PlayerModules st)\<rparr>)"
    by (auto simp add: EmitDllUnload_def thenP_def bindP_def getP_def emit_def modifyP_def
        returnP_def Let_def)
next
  assume h: "map_of (m_ModuleMap (collection_after evs)) loaded = Some m \<and>
    length (m_Modules (collection_after evs)) < 2 ^ 31"
  then have a: "map_of (m_ModuleMap (collection_after evs)) loaded = Some m"
    and b: "length (m_Modules (collection_after evs)) < 2 ^ 31" by simp_all
  note r = resolves_before_unload[OF a b]
  show "Get (collection_after evs) loaded = Path m" by (rule r(1))
  show "Active (collection_after evs) loaded" by (rule r(2))
  show "0 \<le> GetIndex (collection_after evs) (Get (collection_after evs) loaded)"
    using r(3) by (simp add: r(1))
  show "first_seen (loaded_paths evs) !
        nat (GetIndex (collection_after evs) (Get (collection_after evs) loaded)) = Path m"
    using r(4) by (simp add: r(1))
  show "\<not> Active (Unload loaded (collection_after evs)) loaded"
    by (simp add: Active_def Unload_fields)
  show "Get (Unload loaded (collection_after evs)) loaded = []"
    by (simp add: Get_def Unload_fields)
qed

lemma Unload_loads_map:
  "map_of (m_ModuleMap (collection_after Unload_loads)) 0x7FF000000000 =
     Some \<lparr>Base = 0x7FF000000000, Size = 0x10000, Path = wstr ''k.dll''\<rparr>"
  by (simp add: Unload_loads_def collection_after_def Load_def ModuleCollection_empty_def
      Contains_def wstr_def)

lemma Unload_loads_modules:
  "m_Modules (collection_after Unload_loads) = [wstr ''a.exe'', wstr ''k.dll'']"
  by (simp add: Unload_loads_def collection_after_def Load_def ModuleCollection_empty_def
      Contains_def wstr_def)

lemma Unload_loads_index: "GetIndex (collection_after Unload_loads) (wstr ''k.dll'') = 1"
  by (simp add: Unload_loads_def collection_after_def Load_def ModuleCollection_empty_def
      Contains_def wstr_def GetIndex_def)

theorem unload_after_fan_out_witness:
  "sys_WaitForDebugEventEx Unload_sys = Some Unload_event \<and>
   u Unload_event = UnloadDll_info 0x7FF000000000 \<and>
   sys_OpenProcess Unload_sys \<noteq> 0 \<and> sys_OpenThread Unload_sys \<noteq> 0 \<and>
   \<not> m_ShouldFilter Unload_player \<and>
   map_of (m_ModuleMap (collection_after Unload_loads)) 0x7FF000000000 =
     Some \<lparr>Base = 0x7FF000000000, Size = 0x10000, Path = wstr ''k.dll''\<rparr> \<and>
   length (m_Modules (collection_after Unload_loads)) < 2 ^ 31 \<and>
   d_Handlers (snd (Tick Unload_sys Unload_debugger)) =
     replicate 2 [OnDllUnload 1700000003 0x7FF000000000 Unload_pi (wstr ''k.dll'') 1
                    (collection_after Unload_loads)] \<and>
   Get (m_LoadedModules (snd (Tick Unload_sys Unload_debugger))) 0x7FF000000000 = [] \<and>
   m_Handlers (snd (EmitDllUnload 1700000003
       (DllUnloadEventEntry_new 1700000003 Unload_pi 0x7FF000000000) Unload_player)) =
     [[OnDllUnload 1700000003 0x7FF000000000 Unload_pi (wstr ''k.dll'') 1
         (collection_after Unload_loads)]] \<and>
   Get (m_PlayerModules (snd (EmitDllUnload 1700000003
       (DllUnloadEventEntry_new 1700000003 Unload_pi 0x7FF000000000) Unload_player)))
     0x7FF000000000 = []"
proof -
  let ?m = "\<lparr>Base = 0x7FF000000000, Size = 0x10000, Path = wstr ''k.dll''\<rparr> :: Module"
  let ?frame = "DllUnloadEventEntry_new 1700000003 Unload_pi 0x7FF000000000"
  note r = unload_after_fan_out[of Unload_sys Unload_event "0x7FF000000000" Unload_debugger
      Unload_player 1700000003 ?frame Unload_loads "0x7FF000000000" ?m]
  have a: "sys_WaitForDebugEventEx Unload_sys = Some Unload_event \<and>
      u Unload_event = UnloadDll_info 0x7FF000000000 \<and>
      sys_OpenProcess Unload_sys \<noteq> 0 \<and> sys_OpenThread Unload_sys \<noteq> 0"
    by (simp add: Unload_sys_def Unload_event_def)
  have b: "\<not> m_ShouldFilter Unload_player" by (simp add: Unload_player_def)
  have c: "map_of (m_ModuleMap (collection_after Unload_loads)) 0x7FF000000000 = Some ?m \<and>
      length (m_Modules (collection_after Unload_loads)) < 2 ^ 31"
    by (simp add: Unload_loads_map Unload_loads_modules)
  have g: "Get (collection_after Unload_loads) 0x7FF000000000 = wstr ''k.dll''"
    using r c by simp
  have gone: "Get (Unload 0x7FF000000000 (collection_after Unload_loads)) 0x7FF000000000 = []"
    using r c by blast
  have f: "DuModuleBase ?frame = 0x7FF000000000" "ProcessInformation ?frame = Unload_pi"
    by (simp_all add: DllUnloadEventEntry_new_def EventEntry_new_def EventEntry.defs
        DllUnloadEventEntry.defs)
  from r a have t: "Tick Unload_sys Unload_debugger =
     (Inr True,
      Unload_debugger\<lparr>d_Handlers :=
        map (\<lambda>received. received @
               [OnDllUnload 1700000003 0x7FF000000000 Unload_pi (wstr ''k.dll'') 1
                  (collection_after Unload_loads)])
          (d_Handlers Unload_debugger),
        m_LoadedModules := Unload 0x7FF000000000 (collection_after Unload_loads)\<rparr>)"
    by (simp add: g Unload_loads_index Unload_sys_def Unload_event_def Unload_pi_def
        Unload_debugger_def)
  from r b have e: "EmitDllUnload 1700000003 ?frame Unload_player =
     (Inr (),
      Unload_player\<lparr>m_Handlers :=
        map (\<lambda>received. received @
               [OnDllUnload 1700000003 0x7FF000000000 Unload_pi (wstr ''k.dll'') 1
                  (collection_after Unload_loads)])
          (m_Handlers Unload_player),
        m_PlayerModules := Unload 0x7FF000000000 (collection_after Unload_loads)\<rparr>)"
    by (simp add: f g Unload_loads_index Unload_player_def)
  show ?thesis
    using a b c
    by (simp add: t e gone) (simp add: Unload_debugger_def Unload_player_def numeral_2_eq_2)
qed

section \<open>Reading the memory of the debugged process\<close>

text \<open>
  \<open>Process::Read\<close>: the template reads \<open>sizeof(TRead)\<close> bytes, the other overload
  \<open>length\<close> bytes unless \<open>length\<close> is 0; both fail when \<open>ReadProcessMemory\<close> fails
  or reads fewer bytes than asked for.
\<close>

definition Process_Read :: "platform \<Rightarrow> u64 \<Rightarrow> nat \<Rightarrow> bytes option" where
  "Process_Read pf address sizeof_TRead =
     (case ReadProcessMemory pf address sizeof_TRead of
        (ok, out) \<Rightarrow> if \<not> ok then None
                     else if length out \<noteq> sizeof_TRead then None else Some out)"

definition Process_Read_length :: "platform \<Rightarrow> u64 \<Rightarrow> nat \<Rightarrow> bytes option" where
  "Process_Read_length pf address len =
     (if len = 0 then None else Process_Read pf address len)"

text \<open>
  \<open>Process::ReadNulTerminatedString\<close>. Every character read is appended to \<open>data\<close>, the
  terminating NUL included; a failed read returns the empty string; when
  \<open>maximumLength\<close> is not 0 and that many characters have been read, a NUL is appended and
  the loop ends. \<open>None\<close> stands for the exception of a \<open>std::vector<char>\<close> that cannot
  grow beyond its maximal size, the only way out of the loop when neither a NUL nor an
  unreadable byte is ever met.
\<close>

definition vector_max_size :: nat where
  "vector_max_size = 2 ^ 63 - 1"

function ReadNulTerminatedString_loop ::
  "platform \<Rightarrow> u64 \<Rightarrow> nat \<Rightarrow> nat \<Rightarrow> bytes \<Rightarrow> bytes option" where
  "ReadNulTerminatedString_loop pf address maximumLength offset data =
     (case Process_Read pf (address + of_nat offset) 1 of
        None \<Rightarrow> Some []
      | Some character \<Rightarrow>
          if vector_max_size \<le> length data then None
          else
            let data1 = data @ character in
            if character = [0] then Some data1
            else
              let offset1 = offset + 1 in
              if maximumLength \<noteq> 0 \<and> maximumLength \<le> offset1 then Some (data1 @ [0])
              else ReadNulTerminatedString_loop pf address maximumLength offset1 data1)"
  by pat_completeness auto
termination
proof (relation "measure (\<lambda>(pf, address, maximumLength, offset, data). vector_max_size - length data)")
  show "wf (measure (\<lambda>(pf, address, maximumLength, offset, data). vector_max_size - length data))"
    by simp
next
  fix pf :: platform and address :: u64 and maximumLength offset :: nat and data character data1 :: bytes
    and offset1 :: nat
  assume r: "Process_Read pf (address + of_nat offset) 1 = Some character"
    and "\<not> vector_max_size \<le> length data" and d: "data1 = data @ character"
  from r have "length character = 1"
    by (auto simp add: Process_Read_def split: prod.splits if_splits)
  then show "((pf, address, maximumLength, offset1, data1), (pf, address, maximumLength, offset, data))
      \<in> measure (\<lambda>(pf, address, maximumLength, offset, data). vector_max_size - length data)"
    using \<open>\<not> vector_max_size \<le> length data\<close> d by simp
qed

declare ReadNulTerminatedString_loop.simps [simp del]

definition ReadNulTerminatedString :: "platform \<Rightarrow> u64 \<Rightarrow> nat \<Rightarrow> bytes option" where
  "ReadNulTerminatedString pf address maximumLength =
     ReadNulTerminatedString_loop pf address maximumLength 0 []"

text \<open>\<open>String::Contains\<close>: \<open>in.find(find, 0) != npos\<close>.\<close>

definition String_Contains :: "bytes \<Rightarrow> bytes \<Rightarrow> bool" where
  "String_Contains s find' \<longleftrightarrow>
     list_ex (\<lambda>pos. take (length find') (drop pos s) = find') [0..<Suc (length s)]"

section \<open>ExceptionRunTimeTypeInformation\<close>

text \<open>
  What the decoder collects: the demangled names of the catchable types, the message of
  the exception and the path of the module that holds the throw information.
\<close>

record ExceptionRunTimeTypeInformation =
  m_ExceptionTypeNames :: "bytes list"
  m_ExceptionMessage :: "bytes option"
  m_ThrowImagePath :: "wstring option"

definition std_exception :: bytes where
  "std_exception = astr ''std::exception''"

definition EH_EXCEPTION_NUMBER :: u32 where "EH_EXCEPTION_NUMBER = 0xE06D7363"
definition EH_MAGIC_NUMBER1 :: u64 where "EH_MAGIC_NUMBER1 = 0x19930520"

text \<open>
  \<open>ExceptionInformation\<close> is an array of 15 values; a record that lists fewer leaves the
  others 0. \<open>EHParameters64\<close> lies over it: the magic number, \<open>pExceptionObject\<close>,
  \<open>pThrowInfo\<close> and \<open>pThrowImageBase\<close> are its elements 0 to 3.
\<close>

definition ExceptionInformation_at :: "EXCEPTION_DEBUG_INFO \<Rightarrow> nat \<Rightarrow> u64" where
  "ExceptionInformation_at info i =
     (if i < length (ExceptionInformation info) then ExceptionInformation info ! i else 0)"

text \<open>\<open>rva_to_va\<close>: the offset, an \<open>int\<close>, is converted to \<open>uintptr_t\<close> and added to the
  image base.\<close>

definition rva_to_va :: "u64 \<Rightarrow> u32 \<Rightarrow> u64" where
  "rva_to_va pThrowImageBase offset = pThrowImageBase + scast offset"

text \<open>
  The sizes of the structures read: \<open>ThrowInfo\<close> 16 bytes with \<open>pCatchableTypeArray\<close>
  at offset 12, \<open>CatchableType\<close> 28 bytes with \<open>pType\<close> at offset 4,
  \<open>TypeDescriptor64\<close> 16 bytes and \<open>TypeDescriptor32\<close> 8 bytes before the name.
\<close>

definition sizeof_ThrowInfo :: nat where "sizeof_ThrowInfo = 16"
definition sizeof_CatchableType :: nat where "sizeof_CatchableType = 28"
definition sizeof_TypeDescriptor64 :: nat where "sizeof_TypeDescriptor64 = 16"
definition sizeof_TypeDescriptor32 :: nat where "sizeof_TypeDescriptor32 = 8"
definition sizeof_type_info :: nat where "sizeof_type_info = 24"

text \<open>
  One round of the loop over the catchable types either leaves the function
  (\<open>Leave\<close>, a \<open>return\<close>), ends the program (\<open>Terminate\<close>, an exception in a
  \<open>noexcept\<close> function) or yields the name of the type.
\<close>

datatype round = Leave | Terminate | Name bytes

text \<open>
  The body of the loop of \<open>Process64\<close>. \<open>type_info_name\<close> is \<open>std::type_info::name()\<close>
  of the runtime, applied to the buffer the descriptor and the decorated name are copied
  to.
\<close>

definition CatchableType64_round ::
  "platform \<Rightarrow> (bytes \<Rightarrow> bytes) \<Rightarrow> u64 \<Rightarrow> u32 \<Rightarrow> round" where
  "CatchableType64_round pf type_info_name pThrowImageBase rva =
     (let catchableTypeAddress = rva_to_va pThrowImageBase rva in
      if catchableTypeAddress = 0 then Leave else
      case Process_Read pf catchableTypeAddress sizeof_CatchableType of
        None \<Rightarrow> Leave
      | Some catchableType \<Rightarrow>
          let pType = member 4 4 catchableType :: u32;
              typeDescriptorAddress = rva_to_va pThrowImageBase pType;
              typeNameAddress = pThrowImageBase + (scast pType + 16)
          in if typeDescriptorAddress = 0 \<or> typeNameAddress = 0 then Leave else
             case Process_Read pf typeDescriptorAddress sizeof_TypeDescriptor64 of
               None \<Rightarrow> Leave
             | Some typeDescriptor \<Rightarrow>
                 (case ReadNulTerminatedString pf typeNameAddress 0 of
                    None \<Rightarrow> Terminate
                  | Some decoratedName \<Rightarrow>
                      if decoratedName = [] then Leave
                      else if vector_max_size < sizeof_TypeDescriptor64 + length decoratedName + 1
                      then Terminate
                      else Name (type_info_name (typeDescriptor @ decoratedName @ [0]))))"

text \<open>
  The body of the loop of \<open>Process32\<close>, as compiled for 64-bit Windows: addresses are the
  32-bit values converted to \<open>uintptr_t\<close>, and only the decorated name is copied to the
  buffer, behind 16 bytes that stay 0.
\<close>

definition CatchableType32_round ::
  "platform \<Rightarrow> (bytes \<Rightarrow> bytes) \<Rightarrow> u32 \<Rightarrow> round" where
  "CatchableType32_round pf type_info_name va =
     (let catchableTypeAddress = scast va :: u64 in
      if catchableTypeAddress = 0 then Leave else
      case Process_Read pf catchableTypeAddress sizeof_CatchableType of
        None \<Rightarrow> Leave
      | Some catchableType \<Rightarrow>
          let pType = member 4 4 catchableType :: u32;
              typeDescriptorAddress = scast pType :: u64;
              typeNameAddress = scast pType + 8 :: u64
          in if typeDescriptorAddress = 0 \<or> typeNameAddress = 0 then Leave else
             case Process_Read pf typeDescriptorAddress sizeof_TypeDescriptor32 of
               None \<Rightarrow> Leave
             | Some typeDescriptor \<Rightarrow>
                 (case ReadNulTerminatedString pf typeNameAddress 0 of
                    None \<Rightarrow> Terminate
                  | Some decoratedName \<Rightarrow>
                      if decoratedName = [] then Leave
                      else if vector_max_size < sizeof_type_info + length decoratedName + 1
                      then Terminate
                      else Name (type_info_name
                             (replicate sizeof_TypeDescriptor64 0 @ decoratedName @ [0] @
                              replicate (sizeof_type_info - sizeof_TypeDescriptor64) 0))))"

text \<open>
  The loop over the entries of the type array: the names collected so far, the flag
  \<open>containsStdException\<close>, and whether the loop ran to its end.
\<close>

fun Process_types ::
  "(u32 \<Rightarrow> round) \<Rightarrow> u32 list \<Rightarrow> bytes list \<Rightarrow> bool \<Rightarrow> (bytes list \<times> bool \<times> bool) option" where
  "Process_types body [] names containsStdException = Some (names, containsStdException, True)"
| "Process_types body (entry # entries) names containsStdException =
     (case body entry of
        Leave \<Rightarrow> Some (names, containsStdException, False)
      | Terminate \<Rightarrow> None
      | Name name \<Rightarrow>
          Process_types body entries (names @ [name])
            (if \<not> containsStdException then String_Contains name std_exception
             else containsStdException))"

text \<open>
  The catchable type array an exception record leads to: the throw information, the
  address of the array, its size and its entries. The size is an \<open>int\<close>; the length of
  the buffer is computed in \<open>size_t\<close>, and a buffer longer than the maximal size of a
  vector ends the program.
\<close>

definition CatchableTypeArray ::
  "platform \<Rightarrow> u64 \<Rightarrow> (u32 \<Rightarrow> u64) \<Rightarrow> round + u32 list" where
  "CatchableTypeArray pf pThrowInfo to_va =
     (if pThrowInfo = 0 then Inl Leave else
      case Process_Read pf pThrowInfo sizeof_ThrowInfo of
        None \<Rightarrow> Inl Leave
      | Some throwInfo \<Rightarrow>
          let typeArrayAddress = to_va (member 12 4 throwInfo) in
          if typeArrayAddress = 0 then Inl Leave else
          case Process_Read pf typeArrayAddress 4 of
            None \<Rightarrow> Inl Leave
          | Some sz \<Rightarrow>
              let typeArraySize = word_le sz :: u32;
                  typeArrayBufferLength = unat (scast typeArraySize * 4 + 4 :: u64)
              in if vector_max_size < typeArrayBufferLength then Inl Terminate else
                 case Process_Read_length pf typeArrayAddress typeArrayBufferLength of
                   None \<Rightarrow> Inl Leave
                 | Some typeArrayBuffer \<Rightarrow>
                     Inr (map (\<lambda>i. member (4 + 4 * i) 4 typeArrayBuffer)
                            [0..<nat (sint typeArraySize)]))"

text \<open>
  What follows the loop: when a name contained \<open>std::exception\<close>, the pointer behind the
  first word of the exception object is read, and the string it points to, up to 1024
  characters; a string that is not empty becomes the message.
\<close>

definition Fetch_message ::
  "platform \<Rightarrow> u64 \<Rightarrow> nat \<Rightarrow> (bytes \<Rightarrow> u64) \<Rightarrow> ExceptionRunTimeTypeInformation
     \<Rightarrow> ExceptionRunTimeTypeInformation option" where
  "Fetch_message pf address sizeof_what what_of rtti =
     (case Process_Read pf address sizeof_what of
        None \<Rightarrow> Some rtti
      | Some w \<Rightarrow>
          let what = what_of w in
          if what \<noteq> 0 then
            (case ReadNulTerminatedString pf what 1024 of
               None \<Rightarrow> None
             | Some message \<Rightarrow>
                 if message \<noteq> [] then Some (rtti\<lparr>m_ExceptionMessage := Some message\<rparr>)
                 else Some rtti)
          else Some rtti)"

text \<open>\<open>Process64\<close> and \<open>Process32\<close>; \<open>None\<close> is the end of the program.\<close>

definition Process64 ::
  "platform \<Rightarrow> (bytes \<Rightarrow> bytes) \<Rightarrow> ModuleCollection \<Rightarrow> EXCEPTION_DEBUG_INFO
     \<Rightarrow> ExceptionRunTimeTypeInformation option" where
  "Process64 pf type_info_name loadedModules record =
     (let pExceptionObject = ExceptionInformation_at record 1;
          pThrowInfo = ExceptionInformation_at record 2;
          pThrowImageBase = ExceptionInformation_at record 3;
          rtti = \<lparr>m_ExceptionTypeNames = [], m_ExceptionMessage = None,
                  m_ThrowImagePath = map_option Path (GetModuleAtAddress loadedModules pThrowInfo)\<rparr>
      in case CatchableTypeArray pf pThrowInfo (rva_to_va pThrowImageBase) of
           Inl Terminate \<Rightarrow> None
         | Inl _ \<Rightarrow> Some rtti
         | Inr typeArray \<Rightarrow>
             (case Process_types (CatchableType64_round pf type_info_name pThrowImageBase)
                     typeArray [] False of
                None \<Rightarrow> None
              | Some (names, containsStdException, finished) \<Rightarrow>
                  let rtti1 = rtti\<lparr>m_ExceptionTypeNames := names\<rparr> in
                  if \<not> finished then Some rtti1
                  else if containsStdException
                  then Fetch_message pf (pExceptionObject + 8) 8 word_le rtti1
                  else Some rtti1))"

definition Process32 ::
  "platform \<Rightarrow> (bytes \<Rightarrow> bytes) \<Rightarrow> ModuleCollection \<Rightarrow> EXCEPTION_DEBUG_INFO
     \<Rightarrow> ExceptionRunTimeTypeInformation option" where
  "Process32 pf type_info_name loadedModules record =
     (let pExceptionObject = ExceptionInformation_at record 1;
          pThrowInfo = ExceptionInformation_at record 2;
          rtti = \<lparr>m_ExceptionTypeNames = [], m_ExceptionMessage = None,
                  m_ThrowImagePath = map_option Path (GetModuleAtAddress loadedModules pThrowInfo)\<rparr>
      in case CatchableTypeArray pf pThrowInfo scast of
           Inl Terminate \<Rightarrow> None
         | Inl _ \<Rightarrow> Some rtti
         | Inr typeArray \<Rightarrow>
             (case Process_types (CatchableType32_round pf type_info_name) typeArray [] False of
                None \<Rightarrow> None
              | Some (names, containsStdException, finished) \<Rightarrow>
                  let rtti1 = rtti\<lparr>m_ExceptionTypeNames := names\<rparr> in
                  if \<not> finished then Some rtti1
                  else if containsStdException
                  then Fetch_message pf (pExceptionObject + 4) 4
                         (\<lambda>w. scast (word_le w :: u32)) rtti1
                  else Some rtti1))"

text \<open>
  The constructor: it refuses a record that is not a C++ exception of the Microsoft
  runtime, and decodes according to the bitness of the process.
\<close>

datatype rtti_error = invalid_argument | terminated

definition ExceptionRunTimeTypeInformation_new ::
  "platform \<Rightarrow> (bytes \<Rightarrow> bytes) \<Rightarrow> bool \<Rightarrow> EXCEPTION_DEBUG_INFO \<Rightarrow> ModuleCollection
     \<Rightarrow> rtti_error + ExceptionRunTimeTypeInformation" where
  "ExceptionRunTimeTypeInformation_new pf type_info_name process_Is64 record loadedModules =
     (if ExceptionCode record \<noteq> EH_EXCEPTION_NUMBER then Inl invalid_argument
      else if ExceptionInformation_at record 0 \<noteq> EH_MAGIC_NUMBER1 then Inl invalid_argument
      else case (if process_Is64 then Process64 pf type_info_name loadedModules record
                 else Process32 pf type_info_name loadedModules record) of
             None \<Rightarrow> Inl terminated
           | Some rtti \<Rightarrow> Inr rtti)"


subsection \<open>When a message is stored\<close>

lemma Process_types_result:
  assumes "Process_types body entries names c = Some (names', c', finished)"
  shows "\<exists>new. names' = names @ new \<and> length new \<le> length entries \<and>
           (finished \<longleftrightarrow> length new = length entries) \<and>
           (c' \<longleftrightarrow> c \<or> list_ex (\<lambda>name. String_Contains name std_exception) new)"
  using assms
proof (induction entries arbitrary: names c)
  case Nil
  then show ?case by simp
next
  case (Cons entry entries)
  show ?case
  proof (cases "body entry")
    case Leave
    with Cons.prems show ?thesis by simp
  next
    case Terminate
    with Cons.prems show ?thesis by simp
  next
    case (Name name)
    with Cons.prems have
      "Process_types body entries (names @ [name])
         (if \<not> c then String_Contains name std_exception else c) = Some (names', c', finished)"
      by simp
    from Cons.IH[OF this] obtain new where new: "names' = (names @ [name]) @ new"
      "length new \<le> length entries" "finished \<longleftrightarrow> length new = length entries"
      "c' \<longleftrightarrow> (if \<not> c then String_Contains name std_exception else c) \<or>
             list_ex (\<lambda>name. String_Contains name std_exception) new"
      by blast
    show ?thesis
      by (rule exI[of _ "name # new"]) (use new in auto)
  qed
qed

lemma Fetch_message_result:
  assumes "Fetch_message pf address n what_of rtti = Some r"
    and "m_ExceptionMessage rtti = None"
  shows "m_ExceptionTypeNames r = m_ExceptionTypeNames rtti \<and>
         (m_ExceptionMessage r \<noteq> None \<longleftrightarrow>
            (\<exists>w message. Process_Read pf address n = Some w \<and> what_of w \<noteq> 0 \<and>
               ReadNulTerminatedString pf (what_of w) 1024 = Some message \<and> message \<noteq> [] \<and>
               m_ExceptionMessage r = Some message))"
  using assms
  by (auto simp add: Fetch_message_def Let_def split: option.splits if_splits)

lemma Process64_message:
  assumes "Process64 pf type_info_name loadedModules record = Some rtti"
  shows "m_ExceptionMessage rtti \<noteq> None \<longleftrightarrow>
     (\<exists>typeArray.
        CatchableTypeArray pf (ExceptionInformation_at record 2)
          (rva_to_va (ExceptionInformation_at record 3)) = Inr typeArray \<and>
        length (m_ExceptionTypeNames rtti) = length typeArray) \<and>
     list_ex (\<lambda>name. String_Contains name std_exception) (m_ExceptionTypeNames rtti) \<and>
     (\<exists>w message.
        Process_Read pf (ExceptionInformation_at record 1 + 8) 8 = Some w \<and>
        (word_le w :: u64) \<noteq> 0 \<and>
        ReadNulTerminatedString pf (word_le w) 1024 = Some message \<and> message \<noteq> [] \<and>
        m_ExceptionMessage rtti = Some message)"
proof (cases "CatchableTypeArray pf (ExceptionInformation_at record 2)
          (rva_to_va (ExceptionInformation_at record 3))")
  case (Inl a)
  with assms show ?thesis
    by (cases a) (auto simp add: Process64_def Let_def)
next
  case (Inr typeArray)
  let ?body = "CatchableType64_round pf type_info_name (ExceptionInformation_at record 3)"
  from assms Inr obtain names c finished where
    loop: "Process_types ?body typeArray [] False = Some (names, c, finished)"
    by (auto simp add: Process64_def Let_def split: option.splits)
  from Process_types_result[OF loop] have
    fin: "finished \<longleftrightarrow> length names = length typeArray"
    and con: "c \<longleftrightarrow> list_ex (\<lambda>name. String_Contains name std_exception) names"
    by auto
  let ?rtti1 = "\<lparr>m_ExceptionTypeNames = names, m_ExceptionMessage = None,
      m_ThrowImagePath = map_option Path
        (GetModuleAtAddress loadedModules (ExceptionInformation_at record 2))\<rparr>"
  show ?thesis
  proof (cases "finished \<and> c")
    case False
    then have "rtti = ?rtti1"
      using assms Inr loop False by (auto simp add: Process64_def Let_def split: if_splits)
    then show ?thesis using False fin con Inr by auto
  next
    case True
    then have f: "Fetch_message pf (ExceptionInformation_at record 1 + 8) 8 word_le ?rtti1 = Some rtti"
      using assms Inr loop by (simp add: Process64_def Let_def)
    from Fetch_message_result[OF f] True fin con Inr show ?thesis by auto
  qed
qed

lemma Process32_message:
  assumes "Process32 pf type_info_name loadedModules record = Some rtti"
  shows "m_ExceptionMessage rtti \<noteq> None \<longleftrightarrow>
     (\<exists>typeArray.
        CatchableTypeArray pf (ExceptionInformation_at record 2) scast = Inr typeArray \<and>
        length (m_ExceptionTypeNames rtti) = length typeArray) \<and>
     list_ex (\<lambda>name. String_Contains name std_exception) (m_ExceptionTypeNames rtti) \<and>
     (\<exists>w message.
        Process_Read pf (ExceptionInformation_at record 1 + 4) 4 = Some w \<and>
        (scast (word_le w :: u32) :: u64) \<noteq> 0 \<and>
        ReadNulTerminatedString pf (scast (word_le w :: u32)) 1024 = Some message \<and>
        message \<noteq> [] \<and> m_ExceptionMessage rtti = Some message)"
proof (cases "CatchableTypeArray pf (ExceptionInformation_at record 2) scast")
  case (Inl a)
  with assms show ?thesis
    by (cases a) (auto simp add: Process32_def Let_def)
next
  case (Inr typeArray)
  let ?body = "CatchableType32_round pf type_info_name"
  from assms Inr obtain names c finished where
    loop: "Process_types ?body typeArray [] False = Some (names, c, finished)"
    by (auto simp add: Process32_def Let_def split: option.splits)
  from Process_types_result[OF loop] have
    fin: "finished \<longleftrightarrow> length names = length typeArray"
    and con: "c \<longleftrightarrow> list_ex (\<lambda>name. String_Contains name std_exception) names"
    by auto
  let ?rtti1 = "\<lparr>m_ExceptionTypeNames = names, m_ExceptionMessage = None,
      m_ThrowImagePath = map_option Path
        (GetModuleAtAddress loadedModules (ExceptionInformation_at record 2))\<rparr>"
  show ?thesis
  proof (cases "finished \<and> c")
    case False
    then have "rtti = ?rtti1"
      using assms Inr loop False by (auto simp add: Process32_def Let_def split: if_splits)
    then show ?thesis using False fin con Inr by auto
  next
    case True
    then have f: "Fetch_message pf (ExceptionInformation_at record 1 + 4) 4
        (\<lambda>w. scast (word_le w :: u32)) ?rtti1 = Some rtti"
      using assms Inr loop by (simp add: Process32_def Let_def)
    from Fetch_message_result[OF f] True fin con Inr show ?thesis by auto
  qed
qed

text \<open>A read capped at 1024 characters returns, with at most 1024 characters and a NUL.\<close>

lemma Process_Read_length1: "Process_Read pf a 1 = Some character \<Longrightarrow> length character = 1"
  by (auto simp add: Process_Read_def split: prod.splits if_splits)

lemma ReadNulTerminatedString_loop_capped:
  "0 < m \<Longrightarrow> m < vector_max_size \<Longrightarrow> length data = offset \<Longrightarrow> offset < m \<Longrightarrow>
   \<exists>message. ReadNulTerminatedString_loop pf a m offset data = Some message \<and>
             length message \<le> m + 1"
proof (induction pf a m offset data rule: ReadNulTerminatedString_loop.induct)
  case (1 pf address maximumLength offset data)
  show ?case
  proof (cases "Process_Read pf (address + of_nat offset) 1")
    case None
    then show ?thesis by (simp add: ReadNulTerminatedString_loop.simps[of pf address maximumLength offset data])
  next
    case (Some character)
    note len = Process_Read_length1[OF Some]
    have room: "\<not> vector_max_size \<le> length data" using "1.prems" by simp
    show ?thesis
    proof (cases "character = [0]")
      case True
      then show ?thesis
        using Some room "1.prems"
        by (simp add: ReadNulTerminatedString_loop.simps[of pf address maximumLength offset data])
    next
      case False
      show ?thesis
      proof (cases "maximumLength \<le> offset + 1")
        case True
        then show ?thesis
          using Some room False "1.prems" len
          by (simp add: ReadNulTerminatedString_loop.simps[of pf address maximumLength offset data])
      next
        case least: False
        have "\<exists>message. ReadNulTerminatedString_loop pf address maximumLength (offset + 1)
                 (data @ character) = Some message \<and> length message \<le> maximumLength + 1"
          using "1.prems" len least
          by (intro "1.IH"[OF Some room refl False refl]) simp_all
        then show ?thesis
          using Some room False least
          by (simp add: ReadNulTerminatedString_loop.simps[of pf address maximumLength offset data])
      qed
    qed
  qed
qed

lemma ReadNulTerminatedString_1024:
  "\<exists>message. ReadNulTerminatedString pf a 1024 = Some message \<and> length message \<le> 1025"
  using ReadNulTerminatedString_loop_capped[of 1024 "[]" 0 pf a]
  by (simp add: ReadNulTerminatedString_def vector_max_size_def)

subsection \<open>Thrown exceptions in a process memory\<close>

text \<open>
  A process memory for examples: regions of bytes at their addresses; a read succeeds
  when it lies within one region.
\<close>

definition memory_regions :: "(u64 \<times> bytes) list \<Rightarrow> u64 \<Rightarrow> nat \<Rightarrow> bool \<times> bytes" where
  "memory_regions regions address n =
     (case filter (\<lambda>r. fst r \<le> address \<and> unat (address - fst r) + n \<le> length (snd r)) regions of
        [] \<Rightarrow> (False, [])
      | r # _ \<Rightarrow> (True, take n (drop (unat (address - fst r)) (snd r))))"

definition in_memory :: "(u64 \<times> bytes) list \<Rightarrow> platform" where
  "in_memory regions = no_symbols\<lparr>ReadProcessMemory := memory_regions regions\<rparr>"

text \<open>A stand-in for \<open>std::type_info::name()\<close> that knows two decorated names.\<close>

definition undecorate :: "bytes \<Rightarrow> bytes" where
  "undecorate buffer =
     (let decorated = takeWhile (\<lambda>c. c \<noteq> 0) (drop 16 buffer) in
      if decorated = astr ''.?AVexception@std@@'' then astr ''class std::exception''
      else if decorated = astr ''.?AVruntime_error@std@@'' then astr ''class std::runtime_error''
      else decorated)"

text \<open>
  A 64-bit image at 0x7FF000000000 with the throw information at offset 0x3000, the
  type array at 0x3010, catchable types at 0x3020 (\<open>std::runtime_error\<close>, descriptor at
  0x3100) and 0x3040 (\<open>std::exception\<close>, descriptor at 0x3200); the thrown object at
  0x1000000 with its message pointer to 0x1000100.
\<close>

definition image64 :: "u32 list \<Rightarrow> bytes \<Rightarrow> (u64 \<times> bytes) list" where
  "image64 typeArray message =
     [(0x7FF000003000, replicate 12 0 @ le_bytes 4 (0x3010 :: u32)),
      (0x7FF000003010, le_bytes 4 (of_nat (length typeArray) :: u32) @
                       concat (map (le_bytes 4) typeArray)),
      (0x7FF000003020, replicate 4 0 @ le_bytes 4 (0x3100 :: u32) @ replicate 20 0),
      (0x7FF000003040, replicate 4 0 @ le_bytes 4 (0x3200 :: u32) @ replicate 20 0),
      (0x7FF000003100, replicate 16 0 @ astr ''.?AVruntime_error@std@@'' @ [0]),
      (0x7FF000003200, replicate 16 0 @ astr ''.?AVexception@std@@'' @ [0]),
      (0x1000000, replicate 8 0 @ le_bytes 8 (0x1000100 :: u64)),
      (0x1000100, message)]"

definition record64 :: EXCEPTION_DEBUG_INFO where
  "record64 =
     \<lparr>ExceptionCode = 0xE06D7363, ExceptionAddress = 0x7FF000001000,
      ExceptionInformation = [0x19930520, 0x1000000, 0x7FF000003000, 0x7FF000000000],
      dwFirstChance = 1\<rparr>"

lemma upt_numeral_rec:
  "[i..<numeral k] = (if i < numeral k then i # [Suc i..<numeral k] else [])"
  by (rule upt_rec)

lemma replicate_numeral_rec: "replicate (numeral k) x = x # replicate (pred_numeral k) x"
  by (simp add: numeral_eq_Suc)

lemmas rtti_defs = upt_numeral_rec replicate_numeral_rec Process64_def Process32_def CatchableTypeArray_def Process_Read_def
  Process_Read_length_def in_memory_def memory_regions_def image64_def record64_def
  ExceptionInformation_at_def rva_to_va_def sizeof_ThrowInfo_def sizeof_CatchableType_def
  sizeof_TypeDescriptor64_def sizeof_TypeDescriptor32_def sizeof_type_info_def member_def
  vector_max_size_def CatchableType64_round_def CatchableType32_round_def
  ReadNulTerminatedString_def ReadNulTerminatedString_loop.simps Fetch_message_def
  undecorate_def astr_def std_exception_def String_Contains_def le_bytes_numeral Let_def


text \<open>The same in a 32-bit process, with the image at 0x400000.\<close>

definition image32 :: "u32 list \<Rightarrow> bytes \<Rightarrow> (u64 \<times> bytes) list" where
  "image32 typeArray message =
     [(0x403000, replicate 12 0 @ le_bytes 4 (0x403010 :: u32)),
      (0x403010, le_bytes 4 (of_nat (length typeArray) :: u32) @
                 concat (map (le_bytes 4) typeArray)),
      (0x403020, replicate 4 0 @ le_bytes 4 (0x403100 :: u32) @ replicate 20 0),
      (0x403040, replicate 4 0 @ le_bytes 4 (0x403200 :: u32) @ replicate 20 0),
      (0x403100, replicate 8 0 @ astr ''.?AVruntime_error@std@@'' @ [0]),
      (0x403200, replicate 8 0 @ astr ''.?AVexception@std@@'' @ [0]),
      (0x1000000, replicate 4 0 @ le_bytes 4 (0x1000100 :: u32)),
      (0x1000100, message)]"

definition record32 :: EXCEPTION_DEBUG_INFO where
  "record32 =
     \<lparr>ExceptionCode = 0xE06D7363, ExceptionAddress = 0x401000,
      ExceptionInformation = [0x19930520, 0x1000000, 0x403000], dwFirstChance = 1\<rparr>"

lemmas rtti_eval = rtti_defs image32_def record32_def GetModuleAtAddress_def
  ModuleCollection_empty_def

lemma thrown64:
  "Process64 (in_memory (image64 [0x3020, 0x3040] (astr ''boom'' @ [0]))) undecorate
     ModuleCollection_empty record64 =
   Some \<lparr>m_ExceptionTypeNames = [astr ''class std::runtime_error'', astr ''class std::exception''],
         m_ExceptionMessage = Some (astr ''boom'' @ [0]), m_ThrowImagePath = None\<rparr>"
  by (simp add: rtti_eval)

lemma thrown32:
  "Process32 (in_memory (image32 [0x403020, 0x403040] (astr ''boom'' @ [0]))) undecorate
     ModuleCollection_empty record32 =
   Some \<lparr>m_ExceptionTypeNames = [astr ''class std::runtime_error'', astr ''class std::exception''],
         m_ExceptionMessage = Some (astr ''boom'' @ [0]), m_ThrowImagePath = None\<rparr>"
  by (simp add: rtti_eval)

lemma cut_short64:
  "Process64 (in_memory (image64 [0x3040, 0x9000] (astr ''boom'' @ [0]))) undecorate
     ModuleCollection_empty record64 =
   Some \<lparr>m_ExceptionTypeNames = [astr ''class std::exception''],
         m_ExceptionMessage = None, m_ThrowImagePath = None\<rparr>"
  by (simp add: rtti_eval)

lemma empty_what64:
  "Process64 (in_memory (image64 [0x3040] [0])) undecorate ModuleCollection_empty record64 =
   Some \<lparr>m_ExceptionTypeNames = [astr ''class std::exception''],
         m_ExceptionMessage = Some [0], m_ThrowImagePath = None\<rparr>"
  by (simp add: rtti_eval)

lemma what64:
  "Process_Read (in_memory (image64 typeArray message)) (ExceptionInformation_at record64 1 + 8) 8 =
     Some (le_bytes 8 (0x1000100 :: u64))"
  by (simp add: rtti_eval)

lemma boom64:
  "ReadNulTerminatedString (in_memory (image64 typeArray (astr ''boom'' @ [0]))) 0x1000100 1024 =
     Some (astr ''boom'' @ [0])"
  by (simp add: rtti_eval)

text \<open>
  Claim C9 as amended. When the decoder returns, it has stored a message exactly when
  the catchable type array could be read and every one of its entries gave a name (no
  round of the loop left the function), one of the names contains \<open>std::exception\<close>,
  the pointer behind the first word of the exception object (8 bytes at offset 8 in a
  64-bit process, 4 bytes at offset 4 in a 32-bit process) could be read and is not null,
  and the string read from there, capped at 1024 characters, is not empty. That string,
  of at most 1025 characters, is the message.
\<close>

theorem exception_message_stored:
  "(Process64 pf type_info_name loadedModules record = Some rtti \<longrightarrow>
      (m_ExceptionMessage rtti \<noteq> None \<longleftrightarrow>
         (\<exists>typeArray.
            CatchableTypeArray pf (ExceptionInformation_at record 2)
              (rva_to_va (ExceptionInformation_at record 3)) = Inr typeArray \<and>
            length (m_ExceptionTypeNames rtti) = length typeArray) \<and>
         list_ex (\<lambda>name. String_Contains name std_exception) (m_ExceptionTypeNames rtti) \<and>
         (\<exists>w message.
            Process_Read pf (ExceptionInformation_at record 1 + 8) 8 = Some w \<and>
            (word_le w :: u64) \<noteq> 0 \<and>
            ReadNulTerminatedString pf (word_le w) 1024 = Some message \<and> message \<noteq> [] \<and>
            length message \<le> 1025 \<and> m_ExceptionMessage rtti = Some message))) \<and>
   (Process32 pf' type_info_name' loadedModules' record' = Some rtti' \<longrightarrow>
      (m_ExceptionMessage rtti' \<noteq> None \<longleftrightarrow>
         (\<exists>typeArray.
            CatchableTypeArray pf' (ExceptionInformation_at record' 2) scast = Inr typeArray \<and>
            length (m_ExceptionTypeNames rtti') = length typeArray) \<and>
         list_ex (\<lambda>name. String_Contains name std_exception) (m_ExceptionTypeNames rtti') \<and>
         (\<exists>w message.
            Process_Read pf' (ExceptionInformation_at record' 1 + 4) 4 = Some w \<and>
            (scast (word_le w :: u32) :: u64) \<noteq> 0 \<and>
            ReadNulTerminatedString pf' (scast (word_le w :: u32)) 1024 = Some message \<and>
            message \<noteq> [] \<and> length message \<le> 1025 \<and>
            m_ExceptionMessage rtti' = Some message)))"
proof (intro conjI impI)
  assume a: "Process64 pf type_info_name loadedModules record = Some rtti"
  have cap: "ReadNulTerminatedString pf a 1024 = Some message \<Longrightarrow> length message \<le> 1025"
    for a message
    using ReadNulTerminatedString_1024[of pf a] by auto
  show "m_ExceptionMessage rtti \<noteq> None \<longleftrightarrow>
         (\<exists>typeArray.
            CatchableTypeArray pf (ExceptionInformation_at record 2)
              (rva_to_va (ExceptionInformation_at record 3)) = Inr typeArray \<and>
            length (m_ExceptionTypeNames rtti) = length typeArray) \<and>
         list_ex (\<lambda>name. String_Contains name std_exception) (m_ExceptionTypeNames rtti) \<and>
         (\<exists>w message.
            Process_Read pf (ExceptionInformation_at record 1 + 8) 8 = Some w \<and>
            (word_le w :: u64) \<noteq> 0 \<and>
            ReadNulTerminatedString pf (word_le w) 1024 = Some message \<and> message \<noteq> [] \<and>
            length message \<le> 1025 \<and> m_ExceptionMessage rtti = Some message)"
    unfolding Process64_message[OF a] using cap by blast
next
  assume a: "Process32 pf' type_info_name' loadedModules' record' = Some rtti'"
  have cap: "ReadNulTerminatedString pf' a 1024 = Some message \<Longrightarrow> length message \<le> 1025"
    for a message
    using ReadNulTerminatedString_1024[of pf' a] by auto
  show "m_ExceptionMessage rtti' \<noteq> None \<longleftrightarrow>
         (\<exists>typeArray.
            CatchableTypeArray pf' (ExceptionInformation_at record' 2) scast = Inr typeArray \<and>
            length (m_ExceptionTypeNames rtti') = length typeArray) \<and>
         list_ex (\<lambda>name. String_Contains name std_exception) (m_ExceptionTypeNames rtti') \<and>
         (\<exists>w message.
            Process_Read pf' (ExceptionInformation_at record' 1 + 4) 4 = Some w \<and>
            (scast (word_le w :: u32) :: u64) \<noteq> 0 \<and>
            ReadNulTerminatedString pf' (scast (word_le w :: u32)) 1024 = Some message \<and>
            message \<noteq> [] \<and> length message \<le> 1025 \<and>
            m_ExceptionMessage rtti' = Some message)"
    unfolding Process32_message[OF a] using cap by blast
qed

theorem exception_message_stored_witness:
  "Process64 (in_memory (image64 [0x3020, 0x3040] (astr ''boom'' @ [0]))) undecorate
     ModuleCollection_empty record64 =
   Some \<lparr>m_ExceptionTypeNames = [astr ''class std::runtime_error'', astr ''class std::exception''],
         m_ExceptionMessage = Some (astr ''boom'' @ [0]), m_ThrowImagePath = None\<rparr> \<and>
   Process32 (in_memory (image32 [0x403020, 0x403040] (astr ''boom'' @ [0]))) undecorate
     ModuleCollection_empty record32 =
   Some \<lparr>m_ExceptionTypeNames = [astr ''class std::runtime_error'', astr ''class std::exception''],
         m_ExceptionMessage = Some (astr ''boom'' @ [0]), m_ThrowImagePath = None\<rparr> \<and>
   (\<exists>typeArray.
      CatchableTypeArray (in_memory (image64 [0x3020, 0x3040] (astr ''boom'' @ [0])))
        (ExceptionInformation_at record64 2) (rva_to_va (ExceptionInformation_at record64 3)) =
        Inr typeArray \<and>
      length [astr ''class std::runtime_error'', astr ''class std::exception''] = length typeArray) \<and>
   (\<exists>typeArray.
      CatchableTypeArray (in_memory (image32 [0x403020, 0x403040] (astr ''boom'' @ [0])))
        (ExceptionInformation_at record32 2) scast = Inr typeArray \<and>
      length [astr ''class std::runtime_error'', astr ''class std::exception''] = length typeArray)"
proof -
  let ?r = "\<lparr>m_ExceptionTypeNames = [astr ''class std::runtime_error'', astr ''class std::exception''],
         m_ExceptionMessage = Some (astr ''boom'' @ [0]), m_ThrowImagePath = None\<rparr>"
  note t = exception_message_stored[of
      "in_memory (image64 [0x3020, 0x3040] (astr ''boom'' @ [0]))" undecorate
      ModuleCollection_empty record64 ?r
      "in_memory (image32 [0x403020, 0x403040] (astr ''boom'' @ [0]))" undecorate
      ModuleCollection_empty record32 ?r]
  from t thrown64 have
    "\<exists>typeArray.
      CatchableTypeArray (in_memory (image64 [0x3020, 0x3040] (astr ''boom'' @ [0])))
        (ExceptionInformation_at record64 2) (rva_to_va (ExceptionInformation_at record64 3)) =
        Inr typeArray \<and>
      length [astr ''class std::runtime_error'', astr ''class std::exception''] = length typeArray"
    by simp
  moreover from t thrown32 have
    "\<exists>typeArray.
      CatchableTypeArray (in_memory (image32 [0x403020, 0x403040] (astr ''boom'' @ [0])))
        (ExceptionInformation_at record32 2) scast = Inr typeArray \<and>
      length [astr ''class std::runtime_error'', astr ''class std::exception''] = length typeArray"
    by simp
  ultimately show ?thesis using thrown64 thrown32 by blast
qed

text \<open>
  Claim C9 as stated fails in both directions. With a type array whose first entry is
  \<open>std::exception\<close> and whose second entry cannot be read, the names collected contain
  \<open>std::exception\<close> and the message pointer leads to the string \<open>boom\<close>, but the loop
  has left the function and no message is stored. With a message pointer that leads to an
  empty C string, the string read is the single NUL character, which is not empty, and it
  is stored as the message.
\<close>

theorem exception_message_counterexample:
  "Process64 (in_memory (image64 [0x3040, 0x9000] (astr ''boom'' @ [0]))) undecorate
     ModuleCollection_empty record64 =
     Some \<lparr>m_ExceptionTypeNames = [astr ''class std::exception''],
           m_ExceptionMessage = None, m_ThrowImagePath = None\<rparr> \<and>
   String_Contains (astr ''class std::exception'') std_exception \<and>
   Process_Read (in_memory (image64 [0x3040, 0x9000] (astr ''boom'' @ [0])))
     (ExceptionInformation_at record64 1 + 8) 8 = Some (le_bytes 8 (0x1000100 :: u64)) \<and>
   ReadNulTerminatedString (in_memory (image64 [0x3040, 0x9000] (astr ''boom'' @ [0])))
     0x1000100 1024 = Some (astr ''boom'' @ [0]) \<and>
   Process64 (in_memory (image64 [0x3040] [0])) undecorate ModuleCollection_empty record64 =
     Some \<lparr>m_ExceptionTypeNames = [astr ''class std::exception''],
           m_ExceptionMessage = Some [0], m_ThrowImagePath = None\<rparr>"
proof -
  have "String_Contains (astr ''class std::exception'') std_exception"
    by (simp add: String_Contains_def std_exception_def astr_def)
  then show ?thesis
    using cut_short64 empty_what64 what64 boom64 by simp
qed

end
